theory Spec2Isabelle
  imports Complex_Main
begin

section \<open>Chrono Serpent: the simulation core of game.js\<close>

text \<open>
  A shallow embedding of the per-frame simulation of \<^verbatim>\<open>src/game.js\<close>: the entity classes
  (Particle, Projectile, Mine, Enemy, Core, Mission, Snake), the mission system and the
  methods of Game that make up one tick (\<^verbatim>\<open>update\<close>, \<^verbatim>\<open>handleCollisions\<close>,
  \<^verbatim>\<open>gainScore\<close>, \<^verbatim>\<open>explodeEnemy\<close>, \<^verbatim>\<open>spawnEnemy\<close>, \<^verbatim>\<open>spawnCore\<close>, \<^verbatim>\<open>reset\<close>).

  Conventions.
  \<^item> A JavaScript number is modelled as a \<open>real\<close>: arithmetic is exact, the rounding of
    IEEE doubles is not part of the model. The level, which the code only ever
    initialises to 1 and increments, is a \<open>nat\<close>; the combo tier, which only ever
    receives 1 or a \<^verbatim>\<open>Math.floor\<close>, is an \<open>int\<close>.
  \<^item> Mutation is explicit state passing: a method takes the object (and the game, when
    it touches it) and returns the new one.
  \<^item> \<^verbatim>\<open>Math.random()\<close> reads an oracle: the game carries a stream \<open>rng\<close> of reals and the
    position \<open>rngPos\<close> of the next draw; every call takes the next element.
  \<^item> Audio, the DOM (HUD and overlay), drawing and colours have no effect on the
    simulation state and are left out; so are the star field and \<^verbatim>\<open>lastTime\<close>, which only
    drawing and the frame scheduler read.
  \<^item> \<^verbatim>\<open>WORLD.width\<close> and \<^verbatim>\<open>WORLD.height\<close> come from the canvas element, which is not part
    of the source: they are the parameter \<open>W\<close>.
\<close>

subsection \<open>Numeric helpers\<close>

record world =
  width :: real
  height :: real

text \<open>\<^verbatim>\<open>const clamp = (v, min, max) => Math.max(min, Math.min(max, v))\<close>\<close>

definition clamp :: "real \<Rightarrow> real \<Rightarrow> real \<Rightarrow> real" where
  "clamp v lo hi = max lo (min hi v)"

text \<open>\<^verbatim>\<open>const lerp = (a, b, t) => a + (b - a) * t\<close>\<close>

definition lerp :: "real \<Rightarrow> real \<Rightarrow> real \<Rightarrow> real" where
  "lerp a b t = a + (b - a) * t"

text \<open>\<^verbatim>\<open>Math.hypot(x, y)\<close>, and \<^verbatim>\<open>Math.hypot(x, y) || 1\<close>, whose fallback is taken at 0.\<close>

definition hypot :: "real \<Rightarrow> real \<Rightarrow> real" where
  "hypot a b = sqrt (a * a + b * b)"

definition hypot_or_1 :: "real \<Rightarrow> real \<Rightarrow> real" where
  "hypot_or_1 a b = (if hypot a b = 0 then 1 else hypot a b)"

text \<open>\<^verbatim>\<open>const distance = (x1, y1, x2, y2) => Math.hypot(x2 - x1, y2 - y1)\<close>\<close>

definition distance :: "real \<Rightarrow> real \<Rightarrow> real \<Rightarrow> real \<Rightarrow> real" where
  "distance x1 y1 x2 y2 = hypot (x2 - x1) (y2 - y1)"

text \<open>\<^verbatim>\<open>Math.atan2(y, x)\<close>, with its value in \<open>(-\<pi>, \<pi>]\<close> (signed zeros apart).\<close>

definition atan2 :: "real \<Rightarrow> real \<Rightarrow> real" where
  "atan2 b a =
     (if 0 < a then arctan (b / a)
      else if a < 0 \<and> 0 \<le> b then arctan (b / a) + pi
      else if a < 0 then arctan (b / a) - pi
      else if 0 < b then pi / 2
      else if b < 0 then - (pi / 2)
      else 0)"

text \<open>
  \<^verbatim>\<open>randRange(min, max) = min + Math.random() * (max - min)\<close> and
  \<^verbatim>\<open>randInt(min, max) = Math.floor(randRange(min, max + 1))\<close>, as functions of the
  value \<open>r\<close> that \<^verbatim>\<open>Math.random()\<close> returned.
\<close>

definition randRange :: "real \<Rightarrow> real \<Rightarrow> real \<Rightarrow> real" where
  "randRange r lo hi = lo + r * (hi - lo)"

definition randInt :: "real \<Rightarrow> real \<Rightarrow> real \<Rightarrow> int" where
  "randInt r lo hi = \<lfloor>randRange r lo (hi + 1)\<rfloor>"

subsection \<open>Particle, Projectile, Mine\<close>

record particle =
  pt_x :: real
  pt_y :: real
  pt_vx :: real
  pt_vy :: real
  pt_life :: real
  pt_maxLife :: real
  pt_size :: real

definition Particle_new :: "real \<Rightarrow> real \<Rightarrow> real \<Rightarrow> real \<Rightarrow> real \<Rightarrow> real \<Rightarrow> particle" where
  "Particle_new x y vx vy life sz =
     \<lparr>pt_x = x, pt_y = y, pt_vx = vx, pt_vy = vy, pt_life = life, pt_maxLife = life,
      pt_size = sz\<rparr>"

text \<open>\<^verbatim>\<open>Particle.update(dt)\<close> returns the updated particle and \<^verbatim>\<open>this.life > 0\<close>.\<close>

definition Particle_update :: "real \<Rightarrow> particle \<Rightarrow> particle" where
  "Particle_update dt p =
     p\<lparr>pt_life := pt_life p - dt,
       pt_x := pt_x p + pt_vx p * dt,
       pt_y := pt_y p + pt_vy p * dt,
       pt_vx := pt_vx p * 0.99,
       pt_vy := pt_vy p * 0.99\<rparr>"

definition ParticleSystem_update :: "real \<Rightarrow> particle list \<Rightarrow> particle list" where
  "ParticleSystem_update dt items =
     filter (\<lambda>p. 0 < pt_life p) (map (Particle_update dt) items)"

record projectile =
  p_x :: real
  p_y :: real
  p_vx :: real
  p_vy :: real
  p_damage :: real
  p_radius :: real
  p_ttl :: real
  p_alive :: bool

definition Projectile_new ::
  "real \<Rightarrow> real \<Rightarrow> real \<Rightarrow> real \<Rightarrow> real \<Rightarrow> real \<Rightarrow> real \<Rightarrow> projectile" where
  "Projectile_new x y vx vy damage radius ttl =
     \<lparr>p_x = x, p_y = y, p_vx = vx, p_vy = vy, p_damage = damage, p_radius = radius,
      p_ttl = ttl, p_alive = True\<rparr>"

definition Projectile_update :: "world \<Rightarrow> real \<Rightarrow> projectile \<Rightarrow> projectile" where
  "Projectile_update W dt p =
     (let p1 = p\<lparr>p_ttl := p_ttl p - dt,
                  p_x := p_x p + p_vx p * dt,
                  p_y := p_y p + p_vy p * dt\<rparr>;
          p2 = (if p_ttl p1 \<le> 0 then p1\<lparr>p_alive := False\<rparr> else p1)
      in if p_x p2 < - 20 \<or> p_y p2 < - 20 \<or> width W + 20 < p_x p2 \<or> height W + 20 < p_y p2
         then p2\<lparr>p_alive := False\<rparr> else p2)"

record mine =
  m_x :: real
  m_y :: real
  m_radius :: real
  m_armTime :: real
  m_ttl :: real
  m_alive :: bool

definition Mine_new :: "real \<Rightarrow> real \<Rightarrow> mine" where
  "Mine_new x y =
     \<lparr>m_x = x, m_y = y, m_radius = 10, m_armTime = 0.65, m_ttl = 6, m_alive = True\<rparr>"

definition Mine_update :: "real \<Rightarrow> mine \<Rightarrow> mine" where
  "Mine_update dt m =
     (let m1 = m\<lparr>m_armTime := m_armTime m - dt, m_ttl := m_ttl m - dt\<rparr>
      in if m_ttl m1 \<le> 0 then m1\<lparr>m_alive := False\<rparr> else m1)"

subsection \<open>Core (pickup)\<close>

datatype core_kind = Energy | Health | Shield

record core =
  c_x :: real
  c_y :: real
  c_radius :: real
  c_value :: real
  c_pulse :: real
  c_kind :: core_kind
  c_collected :: bool

text \<open>
  \<^verbatim>\<open>["energy", "health", "shield"][randInt(0, 2)]\<close>. For a draw in \<open>[0, 1)\<close> the index is
  0, 1 or 2. Any other index would give \<^verbatim>\<open>undefined\<close>, which \<^verbatim>\<open>handleCollisions\<close> sends
  to its last branch, the one of \<^verbatim>\<open>"shield"\<close>.
\<close>

definition core_kind_of :: "int \<Rightarrow> core_kind" where
  "core_kind_of i = (if i = 0 then Energy else if i = 1 then Health else Shield)"

text \<open>
  \<^verbatim>\<open>new Core(x, y)\<close>; \<open>r1\<close> and \<open>r2\<close> are its two draws, in order (pulse, kind). The
  constructor leaves \<^verbatim>\<open>collected\<close> undefined, which is falsy.
\<close>

definition Core_new :: "real \<Rightarrow> real \<Rightarrow> real \<Rightarrow> real \<Rightarrow> core" where
  "Core_new x y r1 r2 =
     \<lparr>c_x = x, c_y = y, c_radius = 8, c_value = 25, c_pulse = r1 * pi * 2,
      c_kind = core_kind_of (randInt r2 0 2), c_collected = False\<rparr>"

definition Core_update :: "real \<Rightarrow> core \<Rightarrow> core" where
  "Core_update dt c = c\<lparr>c_pulse := c_pulse c + dt * 5\<rparr>"

subsection \<open>Mission and MissionSystem\<close>

datatype mission_type = RunnerKills | CoreCollect | SecondsNoHit | MineKills | ComboPeak

record mission =
  ms_id :: string
  ms_text :: string
  ms_target :: real
  ms_type :: mission_type
  ms_progress :: real
  ms_done :: bool
  ms_failed :: bool
  ms_timer :: "real option"
  ms_maxTimer :: "real option"
  ms_reward :: real

definition Mission_new ::
  "string \<Rightarrow> string \<Rightarrow> real \<Rightarrow> mission_type \<Rightarrow> real option \<Rightarrow> mission" where
  "Mission_new i label target ty timer =
     \<lparr>ms_id = i, ms_text = label, ms_target = target, ms_type = ty, ms_progress = 0,
      ms_done = False, ms_failed = False, ms_timer = timer, ms_maxTimer = timer,
      ms_reward = 180\<rparr>"

definition Mission_update :: "real \<Rightarrow> mission \<Rightarrow> mission" where
  "Mission_update dt m =
     (if ms_done m \<or> ms_failed m then m
      else case ms_timer m of
        None \<Rightarrow> m
      | Some t \<Rightarrow>
          (let m1 = m\<lparr>ms_timer := Some (t - dt)\<rparr>
           in if t - dt \<le> 0 \<and> ms_progress m1 < ms_target m1
              then m1\<lparr>ms_failed := True\<rparr> else m1))"

definition Mission_inc :: "real \<Rightarrow> mission \<Rightarrow> mission" where
  "Mission_inc amount m =
     (if ms_done m \<or> ms_failed m then m
      else
        (let m1 = m\<lparr>ms_progress := ms_progress m + amount\<rparr>
         in if ms_target m1 \<le> ms_progress m1 then m1\<lparr>ms_done := True\<rparr> else m1))"

text \<open>The five templates of \<^verbatim>\<open>MissionSystem.pool\<close>, each a fresh mission.\<close>

definition pool :: "mission list" where
  "pool =
     [Mission_new ''kill_runners'' ''Eliminate runner units'' 6 RunnerKills None,
      Mission_new ''collect_cores'' ''Absorb unstable cores'' 8 CoreCollect None,
      Mission_new ''no_hit'' ''No damage for 30s'' 30 SecondsNoHit (Some 30),
      Mission_new ''mine_kill'' ''Destroy enemies with mines'' 5 MineKills None,
      Mission_new ''combo'' ''Reach combo x10'' 10 ComboPeak None]"

text \<open>
  In arithmetic JavaScript reads \<^verbatim>\<open>null\<close> as 0: \<^verbatim>\<open>mission.maxTimer - mission.timer\<close> on a
  mission without a timer is 0.
\<close>

definition num_of :: "real option \<Rightarrow> real" where
  "num_of t = (case t of None \<Rightarrow> 0 | Some v \<Rightarrow> v)"

text \<open>
  The body of the loop of \<^verbatim>\<open>MissionSystem.update(dt, game)\<close> for one mission; it reads
  \<^verbatim>\<open>game.flags.tookDamageThisLevel\<close> and \<^verbatim>\<open>game.comboTier\<close>.
\<close>

definition mission_tick :: "real \<Rightarrow> bool \<Rightarrow> int \<Rightarrow> mission \<Rightarrow> mission" where
  "mission_tick dt tookDamage tier m =
     (let m1 = Mission_update dt m;
          m2 = (if ms_type m1 = SecondsNoHit \<and> \<not> tookDamage then
                  (let m' = m1\<lparr>ms_progress :=
                               clamp (num_of (ms_maxTimer m1) - num_of (ms_timer m1)) 0
                                 (ms_target m1)\<rparr>
                   in if ms_target m' \<le> ms_progress m' then m'\<lparr>ms_done := True\<rparr> else m')
                else m1)
      in if ms_type m2 = ComboPeak then
           (let m' = m2\<lparr>ms_progress := max (ms_progress m2) (of_int tier)\<rparr>
            in if ms_target m' \<le> ms_progress m' then m'\<lparr>ms_done := True\<rparr> else m')
         else m2)"

definition MissionSystem_update :: "real \<Rightarrow> bool \<Rightarrow> int \<Rightarrow> mission list \<Rightarrow> mission list" where
  "MissionSystem_update dt tookDamage tier ms = map (mission_tick dt tookDamage tier) ms"

definition MissionSystem_onEvent :: "mission_type \<Rightarrow> real \<Rightarrow> mission list \<Rightarrow> mission list" where
  "MissionSystem_onEvent ty amount ms =
     map (\<lambda>m. if ms_type m = ty then Mission_inc amount m else m) ms"

definition MissionSystem_rewardScore :: "mission list \<Rightarrow> real" where
  "MissionSystem_rewardScore ms = foldl (\<lambda>s m. s + ms_reward m) 0 (filter ms_done ms)"

subsection \<open>Enemy\<close>

datatype enemy_type = Drone | Runner | Tank | Sniper | Boss

record enemy =
  e_type :: enemy_type
  e_x :: real
  e_y :: real
  e_vx :: real
  e_vy :: real
  e_radius :: real
  e_maxHealth :: real
  e_health :: real
  e_speed :: real
  e_contactDamage :: real
  e_alive :: bool
  e_fireCooldown :: real
  e_scoreValue :: real

text \<open>
  The per-archetype tunables that the constructor assigns: radius, maxHealth, speed,
  contactDamage, scoreValue. \<^verbatim>\<open>"drone"\<close> (any type without a branch) keeps the defaults.
\<close>

fun base_radius :: "enemy_type \<Rightarrow> real" where
  "base_radius Runner = 10" | "base_radius Tank = 18" | "base_radius Sniper = 12"
| "base_radius Boss = 40" | "base_radius Drone = 14"

fun base_maxHealth :: "enemy_type \<Rightarrow> real" where
  "base_maxHealth Runner = 14" | "base_maxHealth Tank = 44" | "base_maxHealth Sniper = 18"
| "base_maxHealth Boss = 320" | "base_maxHealth Drone = 20"

fun base_speed :: "enemy_type \<Rightarrow> real" where
  "base_speed Runner = 140" | "base_speed Tank = 56" | "base_speed Sniper = 76"
| "base_speed Boss = 48" | "base_speed Drone = 85"

fun base_contactDamage :: "enemy_type \<Rightarrow> real" where
  "base_contactDamage Runner = 7" | "base_contactDamage Tank = 17"
| "base_contactDamage Sniper = 8" | "base_contactDamage Boss = 22"
| "base_contactDamage Drone = 10"

fun base_scoreValue :: "enemy_type \<Rightarrow> real" where
  "base_scoreValue Runner = 45" | "base_scoreValue Tank = 85" | "base_scoreValue Sniper = 60"
| "base_scoreValue Boss = 950" | "base_scoreValue Drone = 40"

text \<open>
  \<^verbatim>\<open>new Enemy(type, x, y, levelScale)\<close>; \<open>r\<close> is the constructor's one draw, for
  \<^verbatim>\<open>fireCooldown = randRange(0.8, 1.6)\<close>. \<^verbatim>\<open>Math.round\<close> rounds halves up, as \<open>round\<close> does.
\<close>

definition Enemy_new :: "enemy_type \<Rightarrow> real \<Rightarrow> real \<Rightarrow> real \<Rightarrow> real \<Rightarrow> enemy" where
  "Enemy_new ty x y levelScale r =
     \<lparr>e_type = ty, e_x = x, e_y = y, e_vx = 0, e_vy = 0,
      e_radius = base_radius ty,
      e_maxHealth = of_int (round (base_maxHealth ty * levelScale)),
      e_health = of_int (round (base_maxHealth ty * levelScale)),
      e_speed = base_speed ty * (0.85 + levelScale * 0.2),
      e_contactDamage = of_int (round (base_contactDamage ty * (0.7 + levelScale * 0.4))),
      e_alive = True,
      e_fireCooldown = randRange r 0.8 1.6,
      e_scoreValue = base_scoreValue ty\<rparr>"

definition takeDamage :: "real \<Rightarrow> enemy \<Rightarrow> enemy" where
  "takeDamage amount e =
     (let e1 = e\<lparr>e_health := e_health e - amount\<rparr>
      in if e_health e1 \<le> 0 then e1\<lparr>e_alive := False\<rparr> else e1)"

subsection \<open>Snake (the player)\<close>

record snake =
  s_head :: "real \<times> real"
  s_segments :: "(real \<times> real) list"
  s_segmentSpacing :: real
  s_baseSpeed :: real
  s_speed :: real
  s_turnRate :: real
  s_dir :: "real \<times> real"
  s_targetDir :: "real \<times> real"
  s_maxHealth :: real
  s_health :: real
  s_shield :: real
  s_invulnTimer :: real
  s_dashCooldown :: real
  s_dashTime :: real
  s_temporalCooldown :: real
  s_temporalTime :: real
  s_primaryCooldown :: real
  s_mineCooldown :: real
  s_trailHistory :: "(real \<times> real) list"
  s_length :: nat

definition Snake_new :: "real \<Rightarrow> real \<Rightarrow> snake" where
  "Snake_new x y =
     \<lparr>s_head = (x, y),
      s_segments = map (\<lambda>i. (x - real i * 12, y)) [0..<18],
      s_segmentSpacing = 12, s_baseSpeed = 170, s_speed = 170, s_turnRate = 6.5,
      s_dir = (1, 0), s_targetDir = (1, 0),
      s_maxHealth = 100, s_health = 100, s_shield = 0,
      s_invulnTimer = 0, s_dashCooldown = 0, s_dashTime = 0, s_temporalCooldown = 0,
      s_temporalTime = 0, s_primaryCooldown = 0, s_mineCooldown = 0,
      s_trailHistory = [], s_length = 18\<rparr>"

text \<open>
  \<^verbatim>\<open>grow(amount)\<close> pushes \<open>amount\<close> copies of the last segment; the segment list is never
  empty in the code (it starts with 18 elements and only grows).
\<close>

definition grow :: "nat \<Rightarrow> snake \<Rightarrow> snake" where
  "grow amount s =
     s\<lparr>s_length := s_length s + amount,
       s_segments := s_segments s @ replicate amount (last (s_segments s))\<rparr>"

definition heal :: "real \<Rightarrow> snake \<Rightarrow> snake" where
  "heal amount s = s\<lparr>s_health := clamp (s_health s + amount) 0 (s_maxHealth s)\<rparr>"

definition addShield :: "real \<Rightarrow> snake \<Rightarrow> snake" where
  "addShield amount s = s\<lparr>s_shield := clamp (s_shield s + amount) 0 120\<rparr>"

text \<open>\<^verbatim>\<open>applyDamage(amount)\<close> returns the value it returns and the snake it leaves.\<close>

definition applyDamage :: "real \<Rightarrow> snake \<Rightarrow> real \<times> snake" where
  "applyDamage amount s =
     (if 0 < s_invulnTimer s then (0, s)
      else
        (let absorbed = (if 0 < s_shield s then min (s_shield s) amount else 0);
             s1 = (if 0 < s_shield s then s\<lparr>s_shield := s_shield s - absorbed\<rparr> else s);
             remaining = amount - absorbed;
             s2 = (if 0 < remaining then s1\<lparr>s_health := s_health s1 - remaining\<rparr> else s1)
         in (amount, s2\<lparr>s_invulnTimer := 0.2\<rparr>)))"

subsection \<open>The game state\<close>

datatype game_state = Menu | Running | Paused | Gameover

text \<open>
  The fields of Game that the simulation reads or writes, the two key sets of its
  InputManager (\<open>keys\<close>, \<open>justPressed\<close>), the items of its ParticleSystem (\<open>particles\<close>),
  the missions of its MissionSystem (\<open>missions\<close>), its flag \<open>tookDamageThisLevel\<close>, and the
  two oracles: \<open>rng\<close> with \<open>rngPos\<close> for \<^verbatim>\<open>Math.random()\<close>, and \<open>sortOracle\<close> for the
  shuffle of \<^verbatim>\<open>startLevel\<close> (see there).
\<close>

record game =
  keys :: "string set"
  justPressed :: "string set"
  particles :: "particle list"
  missions :: "mission list"
  state :: game_state
  snake :: snake
  projectiles :: "projectile list"
  enemyProjectiles :: "projectile list"
  enemies :: "enemy list"
  cores :: "core list"
  mines :: "mine list"
  score :: real
  level :: nat
  xp :: real
  combo :: real
  comboTimer :: real
  comboTier :: int
  waveTime :: real
  spawnTimer :: real
  coreSpawnTimer :: real
  bgTime :: real
  tookDamageThisLevel :: bool
  cameraShake :: real
  rng :: "nat \<Rightarrow> real"
  rngPos :: nat
  sortOracle :: "nat \<Rightarrow> nat list \<times> nat"

text \<open>The \<open>k\<close>-th next value of \<^verbatim>\<open>Math.random()\<close>, and the state after \<open>k\<close> draws.\<close>

definition draw :: "game \<Rightarrow> nat \<Rightarrow> real" where
  "draw g k = rng g (rngPos g + k)"

definition drawn :: "nat \<Rightarrow> game \<Rightarrow> game" where
  "drawn k g = g\<lparr>rngPos := rngPos g + k\<rparr>"

text \<open>\<^verbatim>\<open>InputManager.isDown(...keys)\<close>, \<^verbatim>\<open>consume(key)\<close> (all keys the code asks for are
  lower case already, so \<^verbatim>\<open>toLowerCase\<close> is the identity on them) and \<^verbatim>\<open>endFrame()\<close>.\<close>

definition isDown :: "string list \<Rightarrow> game \<Rightarrow> bool" where
  "isDown ks g = (\<exists>k \<in> set ks. k \<in> keys g)"

definition consume :: "string \<Rightarrow> game \<Rightarrow> bool \<times> game" where
  "consume k g =
     (if k \<in> justPressed g then (True, g\<lparr>justPressed := justPressed g - {k}\<rparr>)
      else (False, g))"

definition endFrame :: "game \<Rightarrow> game" where
  "endFrame g = g\<lparr>justPressed := {}\<rparr>"

text \<open>
  \<^verbatim>\<open>ParticleSystem.burst(x, y, count, color, speed, size)\<close>: each particle takes four
  draws, in the order angle, speed factor, life, size factor.
  \<^verbatim>\<open>ParticleSystem.trail(x, y, color)\<close> takes four: vx, vy, life, size.
\<close>

definition burst_particle :: "game \<Rightarrow> real \<Rightarrow> real \<Rightarrow> real \<Rightarrow> real \<Rightarrow> nat \<Rightarrow> particle" where
  "burst_particle g x y speed sz i =
     (let angle = draw g (4 * i) * pi * 2;
          sp = speed * (0.4 + draw g (4 * i + 1))
      in Particle_new x y (cos angle * sp) (sin angle * sp)
           (randRange (draw g (4 * i + 2)) 0.25 0.85)
           (sz * randRange (draw g (4 * i + 3)) 0.7 1.3))"

definition burst :: "real \<Rightarrow> real \<Rightarrow> nat \<Rightarrow> real \<Rightarrow> real \<Rightarrow> game \<Rightarrow> game" where
  "burst x y count speed sz g =
     drawn (4 * count)
       (g\<lparr>particles := particles g @ map (burst_particle g x y speed sz) [0..<count]\<rparr>)"

definition trail :: "real \<Rightarrow> real \<Rightarrow> game \<Rightarrow> game" where
  "trail x y g =
     drawn 4
       (g\<lparr>particles := particles g @
            [Particle_new x y (randRange (draw g 0) (- 20) 20) (randRange (draw g 1) (- 20) 20)
               (randRange (draw g 2) 0.16 0.3) (randRange (draw g 3) 1.2 2.3)]\<rparr>)"

text \<open>
  \<^verbatim>\<open>MissionSystem.startLevel(level)\<close> draws the first 2 (3 when 3 divides the level)
  missions of \<^verbatim>\<open>[...this.pool].sort(() => Math.random() - 0.5)\<close>. What a sort with an
  inconsistent comparator returns, and how often it calls the comparator, is left to the
  JavaScript engine; it is a permutation of the pool. The model reads both from
  \<open>sortOracle\<close> at the current draw position: a selection code, which \<open>permute\<close> turns into
  a permutation of the pool (every permutation has a code), and the number of draws.
\<close>

fun permute :: "nat list \<Rightarrow> 'a list \<Rightarrow> 'a list" where
  "permute cs [] = []"
| "permute [] (x # xs) = x # xs"
| "permute (c # cs) (x # xs) =
     (let k = c mod length (x # xs)
      in (x # xs) ! k # permute cs (take k (x # xs) @ drop (Suc k) (x # xs)))"

definition startLevel :: "nat \<Rightarrow> game \<Rightarrow> game" where
  "startLevel lvl g =
     (let rngCount = (if lvl mod 3 = 0 then 3 else 2);
          bag = permute (fst (sortOracle g (rngPos g))) pool
      in drawn (snd (sortOracle g (rngPos g))) (g\<lparr>missions := take rngCount bag\<rparr>))"

subsection \<open>Scoring and progression\<close>

text \<open>\<^verbatim>\<open>Game.gainScore(points)\<close>; the overlay, the audio cue and the timeout that hides
  the overlay are presentation.\<close>

definition gainScore :: "real \<Rightarrow> game \<Rightarrow> game" where
  "gainScore points g =
     (let g1 = g\<lparr>score := score g + of_int (round (points * combo g)),
                  xp := xp g + points,
                  comboTimer := 4,
                  combo := clamp (combo g + 0.05) 1 6\<rparr>;
          g2 = g1\<lparr>comboTier := max (comboTier g1) \<lfloor>combo g1\<rfloor>\<rparr>;
          needed = 450 + real (level g2) * 170
      in if needed \<le> xp g2 then
           (let g3 = g2\<lparr>xp := xp g2 - needed,
                        level := level g2 + 1,
                        tookDamageThisLevel := False\<rparr>;
                missionReward = MissionSystem_rewardScore (missions g3);
                g4 = g3\<lparr>score := score g3 + missionReward\<rparr>;
                g5 = startLevel (level g4) g4;
                s1 = (snake g5)\<lparr>s_maxHealth := s_maxHealth (snake g5) + 6\<rparr>;
                s2 = s1\<lparr>s_health := min (s_maxHealth s1) (s_health s1 + 18)\<rparr>
            in g5\<lparr>snake := addShield 18 s2\<rparr>)
         else g2)"

text \<open>\<^verbatim>\<open>Game.explodeEnemy(enemy, isMine = false)\<close>.\<close>

definition explodeEnemy :: "enemy \<Rightarrow> bool \<Rightarrow> game \<Rightarrow> game" where
  "explodeEnemy e isMine g =
     (let g1 = burst (e_x e) (e_y e) (if e_type e = Boss then 60 else 22) 220
                 (if e_type e = Boss then 5 else 3) g;
          g2 = gainScore (e_scoreValue e) g1;
          g3 = g2\<lparr>snake := grow (if e_type e = Boss then 4 else 1) (snake g2)\<rparr>;
          g4 = (if e_type e = Runner
                then g3\<lparr>missions := MissionSystem_onEvent RunnerKills 1 (missions g3)\<rparr>
                else g3)
      in if isMine then g4\<lparr>missions := MissionSystem_onEvent MineKills 1 (missions g4)\<rparr>
         else g4)"

subsection \<open>Enemy.update and Snake.update\<close>

text \<open>
  \<^verbatim>\<open>Enemy.update(dt, game)\<close> in three steps: the velocity of the archetype, its attack
  (sniper and boss; the projectiles leave from the position before the move), the move.
\<close>

definition enemy_steer :: "real \<times> real \<Rightarrow> enemy \<Rightarrow> enemy" where
  "enemy_steer h e =
     (let dx = fst h - e_x e; dy = snd h - e_y e; d = hypot_or_1 dx dy;
          nx = dx / d; ny = dy / d
      in case e_type e of
           Runner \<Rightarrow> e\<lparr>e_vx := nx * e_speed e, e_vy := ny * e_speed e\<rparr>
         | Tank \<Rightarrow> e\<lparr>e_vx := lerp (e_vx e) (nx * e_speed e) 0.03,
                     e_vy := lerp (e_vy e) (ny * e_speed e) 0.03\<rparr>
         | Sniper \<Rightarrow>
             (if 210 + 14 < d then e\<lparr>e_vx := nx * e_speed e, e_vy := ny * e_speed e\<rparr>
              else if d < 210 - 16 then
                e\<lparr>e_vx := - nx * e_speed e, e_vy := - ny * e_speed e\<rparr>
              else e\<lparr>e_vx := e_vx e * 0.92, e_vy := e_vy e * 0.92\<rparr>)
         | Boss \<Rightarrow> e\<lparr>e_vx := lerp (e_vx e) (nx * e_speed e) 0.015,
                     e_vy := lerp (e_vy e) (ny * e_speed e) 0.015\<rparr>
         | Drone \<Rightarrow> e\<lparr>e_vx := (dx / d) * e_speed e, e_vy := (dy / d) * e_speed e\<rparr>)"

definition boss_projectile :: "enemy \<Rightarrow> nat \<Rightarrow> projectile" where
  "boss_projectile e i =
     (let a = (pi * 2 * real i) / 12
      in Projectile_new (e_x e) (e_y e) (cos a * 190) (sin a * 190) 10 5 3)"

definition enemy_attack :: "real \<times> real \<Rightarrow> real \<Rightarrow> enemy \<Rightarrow> game \<Rightarrow> enemy \<times> game" where
  "enemy_attack h dt e g =
     (let dx = fst h - e_x e; dy = snd h - e_y e; d = hypot_or_1 dx dy;
          nx = dx / d; ny = dy / d
      in if e_type e = Sniper then
           (let e1 = e\<lparr>e_fireCooldown := e_fireCooldown e - dt\<rparr>
            in if e_fireCooldown e1 \<le> 0 then
                 (let e2 = e1\<lparr>e_fireCooldown := randRange (draw g 0) 1.4 2.2\<rparr>;
                      g1 = drawn 1 g;
                      g2 = g1\<lparr>enemyProjectiles := enemyProjectiles g1 @
                             [Projectile_new (e_x e) (e_y e) (nx * 250) (ny * 250) 12 4 2.6]\<rparr>
                  in (e2, burst (e_x e) (e_y e) 8 95 2.4 g2))
               else (e1, g))
         else if e_type e = Boss then
           (let e1 = e\<lparr>e_fireCooldown := e_fireCooldown e - dt\<rparr>
            in if e_fireCooldown e1 \<le> 0 then
                 (e1\<lparr>e_fireCooldown := 1.15\<rparr>,
                  g\<lparr>enemyProjectiles := enemyProjectiles g @ map (boss_projectile e) [0..<12]\<rparr>)
               else (e1, g))
         else (e, g))"

definition enemy_move :: "world \<Rightarrow> real \<Rightarrow> enemy \<Rightarrow> enemy" where
  "enemy_move W dt e =
     (let e1 = e\<lparr>e_x := e_x e + e_vx e * dt, e_y := e_y e + e_vy e * dt\<rparr>
      in e1\<lparr>e_x := clamp (e_x e1) (e_radius e1) (width W - e_radius e1),
            e_y := clamp (e_y e1) (e_radius e1) (height W - e_radius e1)\<rparr>)"

definition Enemy_update :: "world \<Rightarrow> real \<Rightarrow> enemy \<Rightarrow> game \<Rightarrow> enemy \<times> game" where
  "Enemy_update W dt e g =
     (let h = s_head (snake g);
          (e1, g1) = enemy_attack h dt (enemy_steer h e) g
      in (enemy_move W dt e1, g1))"

text \<open>\<^verbatim>\<open>for (const enemy of this.enemies) enemy.update(scaledDt, this)\<close>\<close>

fun enemies_loop :: "world \<Rightarrow> real \<Rightarrow> enemy list \<Rightarrow> game \<Rightarrow> enemy list \<times> game" where
  "enemies_loop W dt [] g = ([], g)"
| "enemies_loop W dt (e # es) g =
     (let (e1, g1) = Enemy_update W dt e g;
          (es1, g2) = enemies_loop W dt es g1
      in (e1 # es1, g2))"

text \<open>\<^verbatim>\<open>Snake.setAimFromInput(input)\<close>\<close>

definition setAimFromInput :: "game \<Rightarrow> snake \<Rightarrow> snake" where
  "setAimFromInput g s =
     (let y1 = (if isDown [''arrowup'', ''w''] g then - 1 else 0);
          y2 = (if isDown [''arrowdown'', ''s''] g then y1 + 1 else y1);
          x1 = (if isDown [''arrowleft'', ''a''] g then - 1 else 0);
          x2 = (if isDown [''arrowright'', ''d''] g then x1 + 1 else x1)
      in if x2 \<noteq> 0 \<or> y2 \<noteq> 0 then
           (let mag = hypot_or_1 x2 y2 in s\<lparr>s_targetDir := (x2 / mag, y2 / mag)\<rparr>)
         else s)"

text \<open>
  \<^verbatim>\<open>Snake.update(dt, input, game)\<close>, in the order of the source: aim and smoothed
  direction, the timers, the four abilities, the speed and the move with world wrap, the
  trail and the segments.
\<close>

definition snake_turn :: "real \<Rightarrow> snake \<Rightarrow> snake" where
  "snake_turn dt s =
     (let smoothing = 1 - exp (- s_turnRate s * dt);
          dx = lerp (fst (s_dir s)) (fst (s_targetDir s)) smoothing;
          dy = lerp (snd (s_dir s)) (snd (s_targetDir s)) smoothing;
          m = hypot_or_1 dx dy
      in s\<lparr>s_dir := (dx / m, dy / m)\<rparr>)"

definition snake_timers :: "real \<Rightarrow> snake \<Rightarrow> snake" where
  "snake_timers dt s =
     (let s1 = s\<lparr>s_invulnTimer := s_invulnTimer s - dt,
                  s_primaryCooldown := s_primaryCooldown s - dt,
                  s_dashCooldown := s_dashCooldown s - dt,
                  s_temporalCooldown := s_temporalCooldown s - dt,
                  s_mineCooldown := s_mineCooldown s - dt\<rparr>;
          s2 = (if 0 < s_dashTime s1 then s1\<lparr>s_dashTime := s_dashTime s1 - dt\<rparr> else s1)
      in if 0 < s_temporalTime s2 then s2\<lparr>s_temporalTime := s_temporalTime s2 - dt\<rparr> else s2)"

definition snake_dash :: "game \<Rightarrow> game" where
  "snake_dash g =
     (let (pressed, g1) = consume ''shift'' g
      in if pressed \<and> s_dashCooldown (snake g1) \<le> 0 then
           burst (fst (s_head (snake g1))) (snd (s_head (snake g1))) 18 190 3
             (g1\<lparr>snake := (snake g1)\<lparr>s_dashCooldown := 3.5, s_dashTime := 0.24\<rparr>\<rparr>)
         else g1)"

definition snake_temporal :: "game \<Rightarrow> game" where
  "snake_temporal g =
     (let (pressed, g1) = consume ''e'' g
      in if pressed \<and> s_temporalCooldown (snake g1) \<le> 0 then
           burst (fst (s_head (snake g1))) (snd (s_head (snake g1))) 25 240 4
             (g1\<lparr>snake := (snake g1)\<lparr>s_temporalCooldown := 8, s_temporalTime := 2.2\<rparr>\<rparr>)
         else g1)"

definition snake_mine :: "game \<Rightarrow> game" where
  "snake_mine g =
     (let (pressed, g1) = consume ''q'' g
      in if pressed \<and> s_mineCooldown (snake g1) \<le> 0 then
           g1\<lparr>snake := (snake g1)\<lparr>s_mineCooldown := 2.2\<rparr>,
              mines := mines g1 @
                [Mine_new (fst (s_head (snake g1))) (snd (s_head (snake g1)))]\<rparr>
         else g1)"

text \<open>The \<^verbatim>\<open>||\<close> of the three \<^verbatim>\<open>consume\<close> calls stops at the first that returns true.\<close>

definition consume_fire :: "game \<Rightarrow> bool \<times> game" where
  "consume_fire g =
     (let (a, g1) = consume '' '' g
      in if a then (True, g1)
         else (let (b, g2) = consume ''space'' g1
               in if b then (True, g2) else consume ''spacebar'' g2))"

definition primary_projectile :: "snake \<Rightarrow> int \<Rightarrow> projectile" where
  "primary_projectile s i =
     (let a = atan2 (snd (s_dir s)) (fst (s_dir s)) + of_int i * 0.09
      in Projectile_new (fst (s_head s)) (snd (s_head s)) (cos a * 360) (sin a * 360) 12 4 1.5)"

definition snake_fire :: "game \<Rightarrow> game" where
  "snake_fire g =
     (let (pressed, g1) = consume_fire g
      in if pressed \<and> s_primaryCooldown (snake g1) \<le> 0 then
           g1\<lparr>snake := (snake g1)\<lparr>s_primaryCooldown := 0.18\<rparr>,
              projectiles := projectiles g1 @
                map (primary_projectile (snake g1)) [- 1, 0, 1]\<rparr>
         else g1)"

definition snake_speed :: "snake \<Rightarrow> real" where
  "snake_speed s =
     (let v0 = s_baseSpeed s + (real (s_length s) - 18) * 0.35;
          v1 = (if 0 < s_dashTime s then v0 * 2.6 else v0)
      in if 0 < s_temporalTime s then v1 * 1.3 else v1)"

definition snake_move :: "world \<Rightarrow> real \<Rightarrow> snake \<Rightarrow> snake" where
  "snake_move W dt s =
     (let s1 = s\<lparr>s_speed := snake_speed s\<rparr>;
          x0 = fst (s_head s1) + fst (s_dir s1) * s_speed s1 * dt;
          y0 = snd (s_head s1) + snd (s_dir s1) * s_speed s1 * dt;
          x1 = (if x0 < 0 then x0 + width W else x0);
          x2 = (if width W < x1 then x1 - width W else x1);
          y1 = (if y0 < 0 then y0 + height W else y0);
          y2 = (if height W < y1 then y1 - height W else y1)
      in s1\<lparr>s_head := (x2, y2)\<rparr>)"

definition snake_trail :: "snake \<Rightarrow> snake" where
  "snake_trail s =
     (let hist = take (s_length s * 14) (s_head s # s_trailHistory s);
          target = (\<lambda>i. if hist = [] then s_head s
                         else hist ! min (length hist - 1) ((i + 1) * 10));
          seg = (\<lambda>i. (lerp (fst (s_segments s ! i)) (fst (target i)) 0.65,
                       lerp (snd (s_segments s ! i)) (snd (target i)) 0.65))
      in s\<lparr>s_trailHistory := hist,
            s_segments := map seg [0..<length (s_segments s)]\<rparr>)"

definition Snake_update :: "world \<Rightarrow> real \<Rightarrow> game \<Rightarrow> game" where
  "Snake_update W dt g =
     (let g1 = g\<lparr>snake := snake_timers dt (snake_turn dt (setAimFromInput g (snake g)))\<rparr>;
          g2 = snake_fire (snake_mine (snake_temporal (snake_dash g1)));
          g3 = g2\<lparr>snake := snake_trail (snake_move W dt (snake g2))\<rparr>
      in trail (fst (s_head (snake g3))) (snd (s_head (snake g3))) g3)"

subsection \<open>Spawning\<close>

text \<open>
  \<^verbatim>\<open>Game.spawnEnemy()\<close>: four draws, in order the archetype roll, the side, the coordinate
  along the side, and the draw of the Enemy constructor.
\<close>

definition rolled_type :: "real \<Rightarrow> enemy_type" where
  "rolled_type roll =
     (if roll < 0.35 then Runner else if roll < 0.55 then Sniper
      else if roll < 0.7 then Tank else Drone)"

definition spawn_type :: "game \<Rightarrow> enemy_type" where
  "spawn_type g =
     (if level g mod 4 = 0 \<and> \<not> (\<exists>e \<in> set (enemies g). e_type e = Boss) then Boss
      else rolled_type (draw g 0))"

definition spawn_pos :: "world \<Rightarrow> int \<Rightarrow> real \<Rightarrow> real \<times> real" where
  "spawn_pos W side r =
     (if side = 0 then (randRange r 0 (width W), - 20)
      else if side = 1 then (width W + 20, randRange r 0 (height W))
      else if side = 2 then (randRange r 0 (width W), height W + 20)
      else (- 20, randRange r 0 (height W)))"

definition spawnEnemy :: "world \<Rightarrow> game \<Rightarrow> game" where
  "spawnEnemy W g =
     (let ty = spawn_type g;
          side = randInt (draw g 1) 0 3;
          pos = spawn_pos W side (draw g 2);
          scale = 1 + (real (level g) - 1) * 0.16
      in drawn 4 (g\<lparr>enemies := enemies g @ [Enemy_new ty (fst pos) (snd pos) scale (draw g 3)]\<rparr>))"

text \<open>\<^verbatim>\<open>Game.spawnCore()\<close>: four draws, x, y and the two of the Core constructor.\<close>

definition spawnCore :: "world \<Rightarrow> game \<Rightarrow> game" where
  "spawnCore W g =
     drawn 4
       (g\<lparr>cores := cores g @
            [Core_new (randRange (draw g 0) 30 (width W - 30))
               (randRange (draw g 1) 30 (height W - 30)) (draw g 2) (draw g 3)]\<rparr>)"

subsection \<open>Game.handleCollisions\<close>

text \<open>
  The six passes of \<^verbatim>\<open>handleCollisions(dt)\<close>, one definition per loop. The loops mutate
  the elements of the arrays in place and never the arrays; here a loop takes the list it
  iterates and returns the updated list with the game, and the pass writes it back.
\<close>

text \<open>Pass 1: pickup collection.\<close>

definition core_step :: "core \<Rightarrow> game \<Rightarrow> core \<times> game" where
  "core_step c g =
     (if distance (c_x c) (c_y c) (fst (s_head (snake g))) (snd (s_head (snake g))) < 18 then
        (let g1 = (case c_kind c of
                     Energy \<Rightarrow> gainScore (c_value c) g
                   | Health \<Rightarrow> gainScore (c_value c + 10) (g\<lparr>snake := heal 15 (snake g)\<rparr>)
                   | Shield \<Rightarrow> gainScore (c_value c + 5) (g\<lparr>snake := addShield 20 (snake g)\<rparr>));
             g2 = g1\<lparr>missions := MissionSystem_onEvent CoreCollect 1 (missions g1)\<rparr>
         in (c\<lparr>c_collected := True\<rparr>, burst (c_x c) (c_y c) 18 140 3 g2))
      else (c, g))"

fun cores_loop :: "core list \<Rightarrow> game \<Rightarrow> core list \<times> game" where
  "cores_loop [] g = ([], g)"
| "cores_loop (c # cs) g =
     (let (c1, g1) = core_step c g;
          (cs1, g2) = cores_loop cs g1
      in (c1 # cs1, g2))"

definition collect_cores :: "game \<Rightarrow> game" where
  "collect_cores g =
     (let (cs, g1) = cores_loop (cores g) g
      in g1\<lparr>cores := filter (\<lambda>c. \<not> c_collected c) cs\<rparr>)"

text \<open>
  Pass 2: player projectiles against enemies. \<open>hit_scan\<close> is the inner loop for one live
  projectile: the first live enemy in range takes the hit, and the loop breaks.
\<close>

fun hit_scan :: "projectile \<Rightarrow> enemy list \<Rightarrow> game \<Rightarrow> projectile \<times> enemy list \<times> game" where
  "hit_scan p [] g = (p, [], g)"
| "hit_scan p (e # es) g =
     (if e_alive e \<and> distance (p_x p) (p_y p) (e_x e) (e_y e) < p_radius p + e_radius e then
        (let e1 = takeDamage (p_damage p) e;
             g1 = burst (p_x p) (p_y p) 6 90 2 g
         in (p\<lparr>p_alive := False\<rparr>, e1 # es,
             if \<not> e_alive e1 then explodeEnemy e1 False g1 else g1))
      else
        (let (p1, es1, g1) = hit_scan p es g in (p1, e # es1, g1)))"

fun projectiles_loop ::
  "projectile list \<Rightarrow> enemy list \<Rightarrow> game \<Rightarrow> projectile list \<times> enemy list \<times> game" where
  "projectiles_loop [] es g = ([], es, g)"
| "projectiles_loop (p # ps) es g =
     (if \<not> p_alive p then
        (let (ps1, es1, g1) = projectiles_loop ps es g in (p # ps1, es1, g1))
      else
        (let (p1, es1, g1) = hit_scan p es g;
             (ps1, es2, g2) = projectiles_loop ps es1 g1
         in (p1 # ps1, es2, g2)))"

text \<open>
  Pass 3: armed mines against enemies. \<open>blast\<close> is the innermost loop, over every enemy
  of the array; \<open>mine_scan\<close> looks for the first live enemy that touches the mine (the
  enemies it has passed are unchanged, so it scans the list as it was) and breaks after
  the blast.
\<close>

fun blast :: "mine \<Rightarrow> enemy list \<Rightarrow> game \<Rightarrow> enemy list \<times> game" where
  "blast m [] g = ([], g)"
| "blast m (t # ts) g =
     (let d = distance (m_x m) (m_y m) (e_x t) (e_y t)
      in if e_alive t \<and> d < 90 + e_radius t then
           (let t1 = takeDamage (65 - d * 0.35) t;
                g1 = (if \<not> e_alive t1 then explodeEnemy t1 True g else g);
                (ts1, g2) = blast m ts g1
            in (t1 # ts1, g2))
         else
           (let (ts1, g1) = blast m ts g in (t # ts1, g1)))"

fun mine_scan :: "mine \<Rightarrow> enemy list \<Rightarrow> enemy list \<Rightarrow> game \<Rightarrow> mine \<times> enemy list \<times> game" where
  "mine_scan m [] all g = (m, all, g)"
| "mine_scan m (e # es) all g =
     (if e_alive e \<and>
         distance (m_x m) (m_y m) (e_x e) (e_y e) < m_radius m + e_radius e + 3 then
        (let (all1, g1) = blast m all (burst (m_x m) (m_y m) 32 230 4 g)
         in (m\<lparr>m_alive := False\<rparr>, all1, g1))
      else mine_scan m es all g)"

definition mine_step :: "mine \<Rightarrow> enemy list \<Rightarrow> game \<Rightarrow> mine \<times> enemy list \<times> game" where
  "mine_step m es g =
     (if \<not> m_alive m \<or> 0 < m_armTime m then (m, es, g) else mine_scan m es es g)"

fun mines_loop :: "mine list \<Rightarrow> enemy list \<Rightarrow> game \<Rightarrow> mine list \<times> enemy list \<times> game" where
  "mines_loop [] es g = ([], es, g)"
| "mines_loop (m # ms) es g =
     (let (m1, es1, g1) = mine_step m es g;
          (ms1, es2, g2) = mines_loop ms es1 g1
      in (m1 # ms1, es2, g2))"

text \<open>Pass 4: enemy contact against the player.\<close>

definition contact_step :: "real \<Rightarrow> enemy \<Rightarrow> game \<Rightarrow> game" where
  "contact_step dt e g =
     (if e_alive e \<and>
         distance (e_x e) (e_y e) (fst (s_head (snake g))) (snd (s_head (snake g)))
           < e_radius e + 11 then
        (let (dealt, s1) = applyDamage (e_contactDamage e * dt * 3.5) (snake g);
             g1 = g\<lparr>snake := s1\<rparr>
         in if 0 < dealt then
              burst (fst (s_head (snake g1))) (snd (s_head (snake g1))) 14 180 3
                (g1\<lparr>tookDamageThisLevel := True, combo := 1, comboTimer := 0,
                    cameraShake := 7\<rparr>)
            else g1)
      else g)"

fun contact_loop :: "real \<Rightarrow> enemy list \<Rightarrow> game \<Rightarrow> game" where
  "contact_loop dt [] g = g"
| "contact_loop dt (e # es) g = contact_loop dt es (contact_step dt e g)"

text \<open>Pass 5: enemy projectiles against the player.\<close>

definition shot_step :: "projectile \<Rightarrow> game \<Rightarrow> projectile \<times> game" where
  "shot_step p g =
     (if p_alive p \<and>
         distance (p_x p) (p_y p) (fst (s_head (snake g))) (snd (s_head (snake g)))
           < p_radius p + 10 then
        (let (dealt, s1) = applyDamage (p_damage p) (snake g);
             g1 = g\<lparr>snake := s1\<rparr>
         in (p\<lparr>p_alive := False\<rparr>,
             if 0 < dealt then
               g1\<lparr>tookDamageThisLevel := True, combo := 1, comboTimer := 0, cameraShake := 5\<rparr>
             else g1))
      else (p, g))"

fun shots_loop :: "projectile list \<Rightarrow> game \<Rightarrow> projectile list \<times> game" where
  "shots_loop [] g = ([], g)"
| "shots_loop (p # ps) g =
     (let (p1, g1) = shot_step p g;
          (ps1, g2) = shots_loop ps g1
      in (p1 # ps1, g2))"

text \<open>
  The whole method: the three passes in which the player scores (cores, projectiles,
  mines), the two in which the player is hurt (contact, enemy projectiles), and pass 6,
  which keeps the live entities.
\<close>

definition scoring_passes :: "game \<Rightarrow> projectile list \<times> mine list \<times> enemy list \<times> game" where
  "scoring_passes g =
     (let g1 = collect_cores g;
          (ps, es1, g2) = projectiles_loop (projectiles g1) (enemies g1) g1;
          (ms, es2, g3) = mines_loop (mines g2) es1 g2
      in (ps, ms, es2, g3))"

definition damage_passes :: "real \<Rightarrow> enemy list \<Rightarrow> game \<Rightarrow> projectile list \<times> game" where
  "damage_passes dt es g =
     (let g4 = contact_loop dt es g in shots_loop (enemyProjectiles g4) g4)"

definition handleCollisions :: "real \<Rightarrow> game \<Rightarrow> game" where
  "handleCollisions dt g =
     (let (ps, ms, es, g3) = scoring_passes g;
          (eps, g5) = damage_passes dt es g3
      in g5\<lparr>projectiles := filter p_alive ps,
            enemyProjectiles := filter p_alive eps,
            mines := filter m_alive ms,
            enemies := filter e_alive es\<rparr>)"

subsection \<open>Game.update: one tick\<close>

text \<open>
  \<^verbatim>\<open>update(dt)\<close> in the order of the source. \<open>world_delta\<close> is \<^verbatim>\<open>scaledDt\<close>, computed once
  at the start of the tick from the burst timer as it is then.
\<close>

definition world_delta :: "real \<Rightarrow> game \<Rightarrow> real" where
  "world_delta dt g = dt * (if 0 < s_temporalTime (snake g) then 0.5 else 1)"

definition advance_clocks :: "real \<Rightarrow> real \<Rightarrow> game \<Rightarrow> game" where
  "advance_clocks dt scaledDt g =
     (let g1 = g\<lparr>waveTime := waveTime g + scaledDt,
                  bgTime := bgTime g + dt,
                  spawnTimer := spawnTimer g - scaledDt,
                  coreSpawnTimer := coreSpawnTimer g - scaledDt,
                  comboTimer := comboTimer g - dt\<rparr>
      in if comboTimer g1 \<le> 0 then g1\<lparr>combo := lerp (combo g1) 1 0.08\<rparr> else g1)"

definition run_spawns :: "world \<Rightarrow> game \<Rightarrow> game" where
  "run_spawns W g =
     (let g1 = (if spawnTimer g \<le> 0 then
                  (let base = clamp (2.2 - real (level g) * 0.08) 0.45 2.2;
                       g' = drawn 1 (g\<lparr>spawnTimer := base * randRange (draw g 0) 0.75 1.25\<rparr>)
                   in if 6 \<le> level g' then spawnEnemy W (spawnEnemy W g') else spawnEnemy W g')
                else g)
      in if coreSpawnTimer g1 \<le> 0 \<and> length (cores g1) < 9 then
           spawnCore W (drawn 1 (g1\<lparr>coreSpawnTimer := randRange (draw g1 0) 1.2 2.6\<rparr>))
         else g1)"

definition advance_entities :: "world \<Rightarrow> real \<Rightarrow> real \<Rightarrow> game \<Rightarrow> game" where
  "advance_entities W dt scaledDt g =
     (let g1 = g\<lparr>cores := map (Core_update dt) (cores g)\<rparr>;
          (es, g2) = enemies_loop W scaledDt (enemies g1) g1;
          g3 = g2\<lparr>enemies := es\<rparr>;
          g4 = g3\<lparr>projectiles := map (Projectile_update W dt) (projectiles g3)\<rparr>;
          g5 = g4\<lparr>enemyProjectiles := map (Projectile_update W scaledDt) (enemyProjectiles g4)\<rparr>
      in g5\<lparr>mines := map (Mine_update dt) (mines g5)\<rparr>)"

definition finish_tick :: "real \<Rightarrow> game \<Rightarrow> game" where
  "finish_tick dt g =
     (let g1 = g\<lparr>missions :=
                   MissionSystem_update dt (tookDamageThisLevel g) (comboTier g) (missions g)\<rparr>;
          g2 = g1\<lparr>particles := ParticleSystem_update dt (particles g1)\<rparr>;
          g3 = g2\<lparr>cameraShake := max 0 (cameraShake g2 - 16 * dt)\<rparr>;
          g4 = (if s_health (snake g3) \<le> 0 then g3\<lparr>state := Gameover\<rparr> else g3)
      in endFrame g4)"

definition update :: "world \<Rightarrow> real \<Rightarrow> game \<Rightarrow> game" where
  "update W dt g =
     (if state g \<noteq> Running then endFrame g
      else
        (let scaledDt = world_delta dt g;
             g1 = advance_clocks dt scaledDt g;
             g2 = Snake_update W dt g1;
             g3 = run_spawns W g2;
             g4 = advance_entities W dt scaledDt g3;
             g5 = handleCollisions dt g4
         in finish_tick dt g5))"

subsection \<open>Match life cycle and reachable states\<close>

text \<open>\<^verbatim>\<open>Game.reset()\<close> and \<^verbatim>\<open>Game.startGame()\<close>.\<close>

definition reset :: "world \<Rightarrow> game \<Rightarrow> game" where
  "reset W g =
     startLevel 1
       (g\<lparr>snake := Snake_new (width W * 0.5) (height W * 0.5),
          projectiles := [], enemyProjectiles := [], enemies := [], cores := [], mines := [],
          particles := [],
          score := 0, level := 1, xp := 0, combo := 1, comboTier := 1, comboTimer := 0,
          waveTime := 0, spawnTimer := 0, coreSpawnTimer := 1.6,
          tookDamageThisLevel := False\<rparr>)"

definition startGame :: "world \<Rightarrow> game \<Rightarrow> game" where
  "startGame W g = (reset W g)\<lparr>state := Running\<rparr>"

text \<open>
  The constructor of Game, up to its call of \<^verbatim>\<open>reset()\<close>; the two oracles are whatever
  the run will draw.
\<close>

definition Game_new :: "world \<Rightarrow> (nat \<Rightarrow> real) \<Rightarrow> (nat \<Rightarrow> nat list \<times> nat) \<Rightarrow> game" where
  "Game_new W r so =
     reset W
       \<lparr>keys = {}, justPressed = {}, particles = [], missions = [], state = Menu,
        snake = Snake_new (width W * 0.5) (height W * 0.5),
        projectiles = [], enemyProjectiles = [], enemies = [], cores = [], mines = [],
        score = 0, level = 1, xp = 0, combo = 1, comboTimer = 0, comboTier = 1,
        waveTime = 0, spawnTimer = 0, coreSpawnTimer = 0, bgTime = 0,
        tookDamageThisLevel = False, cameraShake = 0, rng = r, rngPos = 0, sortOracle = so\<rparr>"

text \<open>
  The pause button, and the \<^verbatim>\<open>keydown\<close> and \<^verbatim>\<open>keyup\<close> listeners: the one of InputManager
  (which ignores a repeated key) and the one of \<^verbatim>\<open>bindButtons\<close> (which toggles the pause
  on \<^verbatim>\<open>p\<close>); \<open>k\<close> is the key in lower case.
\<close>

definition togglePause :: "game \<Rightarrow> game" where
  "togglePause g =
     (if state g = Running then g\<lparr>state := Paused\<rparr>
      else if state g = Paused then g\<lparr>state := Running\<rparr> else g)"

definition keydown :: "string \<Rightarrow> bool \<Rightarrow> game \<Rightarrow> game" where
  "keydown k repeat g =
     (let g1 = (if repeat then g
                else (if k \<notin> keys g then g\<lparr>justPressed := justPressed g \<union> {k}\<rparr> else g)
                       \<lparr>keys := keys g \<union> {k}\<rparr>)
      in if k = ''p'' then togglePause g1 else g1)"

definition keyup :: "string \<Rightarrow> game \<Rightarrow> game" where
  "keyup k g = g\<lparr>keys := keys g - {k}\<rparr>"

text \<open>
  The states a session can be in: the constructed game, and from there any sequence of
  button and key events and of frames. \<^verbatim>\<open>frame(now)\<close> calls \<^verbatim>\<open>update\<close> with a delta
  clamped to \<open>[0, 0.05]\<close>.
\<close>

inductive reachable :: "world \<Rightarrow> game \<Rightarrow> bool" for W :: world where
  r_new: "reachable W (Game_new W r so)"
| r_start: "reachable W g \<Longrightarrow> reachable W (startGame W g)"
| r_pause: "reachable W g \<Longrightarrow> reachable W (togglePause g)"
| r_keydown: "reachable W g \<Longrightarrow> reachable W (keydown k repeat g)"
| r_keyup: "reachable W g \<Longrightarrow> reachable W (keyup k g)"
| r_frame: "reachable W g \<Longrightarrow> 0 \<le> dt \<Longrightarrow> dt \<le> 0.05 \<Longrightarrow> reachable W (update W dt g)"

subsection \<open>Example states\<close>

text \<open>
  Concrete states on which the theorems below are evaluated: a 960 x 540 world, and a
  freshly started match whose \<^verbatim>\<open>Math.random()\<close> always returns one half and whose shuffle
  leaves the pool in order.
\<close>

definition W0 :: world where
  "W0 = \<lparr>width = 960, height = 540\<rparr>"

definition g_start :: game where
  "g_start = startGame W0 (Game_new W0 (\<lambda>_. 1 / 2) (\<lambda>_. ([], 0)))"

text \<open>The started match with the player inside an invulnerability window.\<close>

definition g_invuln :: game where
  "g_invuln = g_start\<lparr>snake := (snake g_start)\<lparr>s_invulnTimer := 0.1\<rparr>\<rparr>"

text \<open>The started match with 30 points of shield.\<close>

definition g_shielded :: game where
  "g_shielded = g_start\<lparr>snake := (snake g_start)\<lparr>s_shield := 30\<rparr>\<rparr>"

text \<open>A drone touching the player's head, and an enemy projectile on it.\<close>

definition e_touching :: enemy where
  "e_touching = Enemy_new Drone 480 270 1 (1 / 2)"

definition p_incoming :: projectile where
  "p_incoming = Projectile_new 480 270 0 0 12 4 2.6"

text \<open>
  The started match 20 points of experience short of level 2, with its first mission
  completed.
\<close>

definition g_levelup :: game where
  "g_levelup =
     g_start\<lparr>xp := 600,
             missions := [(pool ! 0)\<lparr>ms_progress := 6, ms_done := True\<rparr>, pool ! 1]\<rparr>"

text \<open>
  A run of \<^verbatim>\<open>MissionSystem.update\<close> on one mission, one frame delta per tick, while the
  took-damage flag stays unset; and the no-hit mission of the pool 29.97 s into such a
  run.
\<close>

fun run_ticks :: "real list \<Rightarrow> mission \<Rightarrow> mission" where
  "run_ticks [] m = m"
| "run_ticks (d # ds) m = run_ticks ds (mission_tick d False 1 m)"

definition no_hit_late :: mission where
  "no_hit_late = (pool ! 2)\<lparr>ms_timer := Some 0.03, ms_progress := 29.97\<rparr>"

subsection \<open>Invariants\<close>

text \<open>
  The predicates that the properties below are stated with. \<open>res_ok\<close>: the upper bound of
  health and both bounds of the shield. \<open>damage_ok\<close>: no enemy and no enemy projectile
  carries a negative damage value. \<open>combo_ok\<close>: the combo multiplier and the combo tier lie
  in \<open>[1, 6]\<close> and the tier is not below the floor of the combo. \<open>peak_ok\<close>: a combo-peak
  mission is the one of the pool, open, with a progress of at most 6. \<open>enemies_ok\<close>: every
  listed enemy is alive and at most one is a boss.
\<close>

definition res_ok :: "snake \<Rightarrow> bool" where
  "res_ok s \<longleftrightarrow>
     0 \<le> s_maxHealth s \<and> s_health s \<le> s_maxHealth s \<and> 0 \<le> s_shield s \<and> s_shield s \<le> 120"

definition damage_ok :: "game \<Rightarrow> bool" where
  "damage_ok g \<longleftrightarrow>
     (\<forall>e \<in> set (enemies g). 0 \<le> e_contactDamage e) \<and>
     (\<forall>p \<in> set (enemyProjectiles g). 0 \<le> p_damage p)"

definition combo_ok :: "game \<Rightarrow> bool" where
  "combo_ok g \<longleftrightarrow>
     1 \<le> combo g \<and> combo g \<le> 6 \<and> \<lfloor>combo g\<rfloor> \<le> comboTier g \<and>
     1 \<le> comboTier g \<and> comboTier g \<le> 6"

definition peak_ok :: "mission \<Rightarrow> bool" where
  "peak_ok m \<longleftrightarrow>
     (ms_type m = ComboPeak \<longrightarrow>
        ms_target m = 10 \<and> ms_timer m = None \<and> ms_progress m \<le> 6 \<and>
        \<not> ms_done m \<and> \<not> ms_failed m)"

definition missions_ok :: "game \<Rightarrow> bool" where
  "missions_ok g \<longleftrightarrow> (\<forall>m \<in> set (missions g). peak_ok m)"

definition bosses :: "enemy list \<Rightarrow> nat" where
  "bosses es = length (filter (\<lambda>e. e_type e = Boss) es)"

definition enemies_ok :: "game \<Rightarrow> bool" where
  "enemies_ok g \<longleftrightarrow> (\<forall>e \<in> set (enemies g). e_alive e) \<and> bosses (enemies g) \<le> 1"

text \<open>
  A predicate on the game is \<open>score_stable\<close> when the operations that the first three
  passes of \<^verbatim>\<open>handleCollisions\<close> are made of keep it: a scoring event, a heal, a shield
  pickup, a growth of the body, a mission event, a particle burst, and the write-back of
  the core list.
\<close>

definition score_stable :: "(game \<Rightarrow> bool) \<Rightarrow> bool" where
  "score_stable P \<longleftrightarrow>
     (\<forall>p g. P g \<longrightarrow> P (gainScore p g)) \<and>
     (\<forall>a g. P g \<longrightarrow> P (g\<lparr>snake := heal a (snake g)\<rparr>)) \<and>
     (\<forall>a g. P g \<longrightarrow> P (g\<lparr>snake := addShield a (snake g)\<rparr>)) \<and>
     (\<forall>n g. P g \<longrightarrow> P (g\<lparr>snake := grow n (snake g)\<rparr>)) \<and>
     (\<forall>ty g. ty \<noteq> ComboPeak \<longrightarrow> P g \<longrightarrow>
        P (g\<lparr>missions := MissionSystem_onEvent ty 1 (missions g)\<rparr>)) \<and>
     (\<forall>x y n sp sz g. P g \<longrightarrow> P (burst x y n sp sz g)) \<and>
     (\<forall>cs g. P g \<longrightarrow> P (g\<lparr>cores := cs\<rparr>))"

text \<open>
  The trace that a hit on the player leaves in a tick: the combo is 1, the took-damage
  flag is set, and the invulnerability window has just been opened.
\<close>

definition took_hit :: "game \<Rightarrow> bool" where
  "took_hit g \<longleftrightarrow> combo g = 1 \<and> tookDamageThisLevel g \<and> s_invulnTimer (snake g) = 0.2"

text \<open>Two enemies that differ at most in health and in the alive flag.\<close>

definition same_body :: "enemy \<Rightarrow> enemy \<Rightarrow> bool" where
  "same_body e e' \<longleftrightarrow>
     e'\<lparr>e_health := 0, e_alive := True\<rparr> = e\<lparr>e_health := 0, e_alive := True\<rparr>"

text \<open>
  The started match with 5 points of health left, the next spawn 10 s away, and a
  sniper's projectile that will be on the player's head after a frame of 0.05 s.
\<close>

definition p_closing :: projectile where
  "p_closing = Projectile_new 501 270 (- 250) 0 12 4 2.6"

definition g_low :: game where
  "g_low = g_start\<lparr>snake := (snake g_start)\<lparr>s_health := 5\<rparr>,
                   enemyProjectiles := [p_closing], spawnTimer := 10\<rparr>"

text \<open>The invariant of the reachable states.\<close>

definition game_inv :: "game \<Rightarrow> bool" where
  "game_inv g \<longleftrightarrow>
     combo_ok g \<and> missions_ok g \<and> enemies_ok g \<and> damage_ok g \<and> res_ok (snake g)"

text \<open>
  The started match at combo 2 with its decay timer about to run out; the started match
  one tick before the end of a temporal burst; the match of \<open>g_levelup\<close> with a combo
  tier of 3 reached earlier in the level; and a started match whose shuffle put the
  combo mission first.
\<close>

definition g_combo :: game where
  "g_combo = g_start\<lparr>combo := 2, comboTier := 2, comboTimer := 0.02, spawnTimer := 10\<rparr>"


definition g_tier :: game where
  "g_tier = g_levelup\<lparr>comboTier := 3\<rparr>"

definition g_peak :: game where
  "g_peak = startGame W0 (Game_new W0 (\<lambda>_. 1 / 2) (\<lambda>_. ([4], 0)))"

text \<open>The started match at level 8, where two enemies spawn at a time.\<close>

definition g_level8 :: game where
  "g_level8 = g_start\<lparr>level := 8\<rparr>"

text \<open>
  An armed mine at (480, 100) and four enemies of level 1: a drone on the mine, a boss
  60 units away, a drone 10 units away and a drone 300 units away. \<open>g_mk\<close> is a started
  match whose shuffle put the mine-kill mission first; \<open>g_minefield\<close> is that match with a
  freshly dropped mine and the armed mine at the same place, and the four enemies.
\<close>

definition m_armed :: mine where
  "m_armed = (Mine_new 480 100)\<lparr>m_armTime := - 0.1, m_ttl := 5.25\<rparr>"

definition es_near_mine :: "enemy list" where
  "es_near_mine =
     [Enemy_new Drone 480 100 1 (1 / 2), Enemy_new Boss 480 160 1 (1 / 2),
      Enemy_new Drone 480 110 1 (1 / 2), Enemy_new Drone 480 400 1 (1 / 2)]"

definition g_mk :: game where
  "g_mk = startGame W0 (Game_new W0 (\<lambda>_. 1 / 2) (\<lambda>_. ([3], 0)))"

definition g_minefield :: game where
  "g_minefield = g_mk\<lparr>mines := [Mine_new 480 100, m_armed], enemies := es_near_mine\<rparr>"

text \<open>
  A mine dropped 5.97 s ago at (300, 270), 0.03 s before the end of its time to live, a
  drone of level 1 that sits on it, and the match of \<open>g_mk\<close> with the two and the next
  spawn 10 s away.
\<close>

definition m_last :: mine where
  "m_last = (Mine_new 300 270)\<lparr>m_armTime := - 5.32, m_ttl := 0.03\<rparr>"

definition e_on_mine :: enemy where
  "e_on_mine = Enemy_new Drone 300 270 1 (1 / 2)"

definition g_last :: game where
  "g_last = g_mk\<lparr>mines := [m_last], enemies := [e_on_mine], spawnTimer := 10\<rparr>"


subsection \<open>The combo over a run\<close>

text \<open>
  Within a tick the combo is lowered at the start (the decay in \<^verbatim>\<open>update\<close>), raised by
  every scoring event of the first three passes of \<^verbatim>\<open>handleCollisions\<close>, and set to 1
  by a hit in the last two. \<open>tick_scored\<close> is the game as the scoring passes of the tick
  leave it, and \<open>tick_peak\<close> its combo, the highest of the tick (the combo itself in a
  tick that does not run).
\<close>

definition tick_scored :: "world \<Rightarrow> real \<Rightarrow> game \<Rightarrow> game" where
  "tick_scored W dt g =
     snd (snd (snd (scoring_passes
       (advance_entities W dt (world_delta dt g)
         (run_spawns W (Snake_update W dt (advance_clocks dt (world_delta dt g) g)))))))"

definition tick_peak :: "world \<Rightarrow> real \<Rightarrow> game \<Rightarrow> real" where
  "tick_peak W dt g = (if state g = Running then combo (tick_scored W dt g) else combo g)"

text \<open>
  \<open>high_water W g k\<close>: the session has reached \<open>g\<close>, and \<open>k\<close> is the highest floor of the
  combo since the match was last reset. A reset (in the constructor and in
  \<^verbatim>\<open>startGame\<close>) puts the combo at 1; the pause and the keys leave it alone; a frame
  takes the mark to the floor of the peak of its tick, if that is higher.
\<close>

inductive high_water :: "world \<Rightarrow> game \<Rightarrow> int \<Rightarrow> bool" for W :: world where
  h_new: "high_water W (Game_new W r so) 1"
| h_start: "high_water W g k \<Longrightarrow> high_water W (startGame W g) 1"
| h_pause: "high_water W g k \<Longrightarrow> high_water W (togglePause g) k"
| h_keydown: "high_water W g k \<Longrightarrow> high_water W (keydown key repeat g) k"
| h_keyup: "high_water W g k \<Longrightarrow> high_water W (keyup key g) k"
| h_frame: "high_water W g k \<Longrightarrow> 0 \<le> dt \<Longrightarrow> dt \<le> 0.05 \<Longrightarrow>
     high_water W (update W dt g) (max k \<lfloor>tick_peak W dt g\<rfloor>)"

text \<open>
  The started match at combo 1.96 and tier 1, its decay timer at 4 s, a health pickup
  under the player's head and the next spawn 10 s away.
\<close>

definition c_near :: core where
  "c_near = Core_new 480 270 (1 / 2) (1 / 2)"

definition g_rise :: game where
  "g_rise = g_start\<lparr>combo := 1.96, comboTimer := 4, cores := [c_near], spawnTimer := 10\<rparr>"

section \<open>Properties\<close>

subsection \<open>The example states\<close>

lemma g_start_fields:
  "snake g_start = Snake_new 480 270"
  "state g_start = Running"
  "score g_start = 0" "level g_start = 1" "xp g_start = 0"
  "combo g_start = 1" "comboTier g_start = 1" "comboTimer g_start = 0"
  "tookDamageThisLevel g_start = False"
  "missions g_start = take 2 pool"
  "enemies g_start = []" "enemyProjectiles g_start = []" "projectiles g_start = []"
  "mines g_start = []" "cores g_start = []" "particles g_start = []"
  "keys g_start = {}" "justPressed g_start = {}"
  "spawnTimer g_start = 0" "coreSpawnTimer g_start = 1.6" "waveTime g_start = 0"
  "rngPos g_start = 0" "rng g_start = (\<lambda>_. 1 / 2)" "sortOracle g_start = (\<lambda>_. ([], 0))"
  by (simp_all add: g_start_def startGame_def reset_def Game_new_def startLevel_def drawn_def
      W0_def pool_def)

lemma e_touching_fields:
  "e_alive e_touching" "e_x e_touching = 480" "e_y e_touching = 270"
  "e_radius e_touching = 14" "e_contactDamage e_touching = 11" "e_type e_touching = Drone"
  by (simp_all add: e_touching_def Enemy_new_def)

lemma hypot_0 [simp]: "hypot 0 0 = 0"
  by (simp add: hypot_def)

subsection \<open>The shuffle\<close>

lemma remove_nth_length:
  "k < length ys \<Longrightarrow> length (take k ys @ drop (Suc k) ys) = length ys - 1"
  by simp

lemma remove_nth_set:
  assumes "k < length ys"
  shows "insert (ys ! k) (set (take k ys @ drop (Suc k) ys)) = set ys"
proof -
  have "set ys = set (take k ys @ ys ! k # drop (Suc k) ys)"
    using id_take_nth_drop [OF assms] by simp
  then show ?thesis by simp
qed

lemma remove_nth_distinct:
  assumes "k < length ys" "distinct ys"
  shows "distinct (take k ys @ drop (Suc k) ys) \<and> ys ! k \<notin> set (take k ys @ drop (Suc k) ys)"
proof -
  have "distinct (take k ys @ ys ! k # drop (Suc k) ys)"
    using id_take_nth_drop [OF assms(1)] assms(2) by simp
  then show ?thesis by auto
qed

lemma permute_Cons:
  "ys \<noteq> [] \<Longrightarrow> permute (c # cs) ys =
     ys ! (c mod length ys) #
       permute cs (take (c mod length ys) ys @ drop (Suc (c mod length ys)) ys)"
  by (cases ys) (simp_all add: Let_def del: take_Suc_Cons drop_Suc_Cons nth_Cons_Suc)

lemma permute_Nil: "permute [] ys = ys"
  by (cases ys) simp_all

lemma length_permute: "length (permute cs xs) = length xs"
proof (induction cs arbitrary: xs)
  case Nil
  show ?case by (simp add: permute_Nil)
next
  case (Cons c cs)
  show ?case
  proof (cases "xs = []")
    case True
    then show ?thesis by simp
  next
    case False
    then have k: "c mod length xs < length xs" by simp
    show ?thesis
      using False Cons [of "take (c mod length xs) xs @ drop (Suc (c mod length xs)) xs"]
        remove_nth_length [OF k]
      by (simp only: permute_Cons [OF False] list.size) (cases xs; simp)
  qed
qed

lemma set_permute: "set (permute cs xs) = set xs"
proof (induction cs arbitrary: xs)
  case Nil
  show ?case by (simp add: permute_Nil)
next
  case (Cons c cs)
  show ?case
  proof (cases "xs = []")
    case True
    then show ?thesis by simp
  next
    case False
    then have k: "c mod length xs < length xs" by simp
    show ?thesis
      using Cons [of "take (c mod length xs) xs @ drop (Suc (c mod length xs)) xs"]
        remove_nth_set [OF k]
      by (simp only: permute_Cons [OF False] list.set)
  qed
qed

lemma distinct_permute: "distinct xs \<Longrightarrow> distinct (permute cs xs)"
proof (induction cs arbitrary: xs)
  case Nil
  then show ?case by (simp add: permute_Nil)
next
  case (Cons c cs)
  show ?case
  proof (cases "xs = []")
    case True
    then show ?thesis by simp
  next
    case False
    then have k: "c mod length xs < length xs" by simp
    show ?thesis
      using Cons.IH [of "take (c mod length xs) xs @ drop (Suc (c mod length xs)) xs"]
        remove_nth_distinct [OF k Cons.prems]
      by (simp only: permute_Cons [OF False] distinct.simps set_permute) simp
  qed
qed

lemma distinct_pool: "distinct pool"
  by (simp add: pool_def Mission_new_def)

lemma length_pool: "length pool = 5"
  by (simp add: pool_def)

lemma foldl_reward:
  "foldl (\<lambda>s m. s + ms_reward m) a xs = a + sum_list (map ms_reward xs)"
  by (induction xs arbitrary: a) simp_all

lemma rewardScore_sum:
  "MissionSystem_rewardScore ms = sum_list (map ms_reward (filter ms_done ms))"
  by (simp add: MissionSystem_rewardScore_def foldl_reward)

subsection \<open>Damage to the player\<close>

lemma applyDamage_invulnerable:
  "0 < s_invulnTimer s \<Longrightarrow> applyDamage a s = (0, s)"
  by (simp add: applyDamage_def)

lemma applyDamage_open:
  assumes "\<not> 0 < s_invulnTimer s" "0 \<le> a" "0 \<le> s_shield s"
  shows "applyDamage a s =
     (a, s\<lparr>s_shield := s_shield s - min (s_shield s) a,
           s_health := s_health s - (a - min (s_shield s) a),
           s_invulnTimer := 0.2\<rparr>)"
  using assms by (auto simp: applyDamage_def Let_def min_def)

lemma burst_frame [simp]:
  "combo (burst x y n sp sz g) = combo g"
  "comboTier (burst x y n sp sz g) = comboTier g"
  "comboTimer (burst x y n sp sz g) = comboTimer g"
  "tookDamageThisLevel (burst x y n sp sz g) = tookDamageThisLevel g"
  "snake (burst x y n sp sz g) = snake g"
  "missions (burst x y n sp sz g) = missions g"
  "level (burst x y n sp sz g) = level g"
  "state (burst x y n sp sz g) = state g"
  "score (burst x y n sp sz g) = score g"
  "xp (burst x y n sp sz g) = xp g"
  "enemies (burst x y n sp sz g) = enemies g"
  "enemyProjectiles (burst x y n sp sz g) = enemyProjectiles g"
  "projectiles (burst x y n sp sz g) = projectiles g"
  "mines (burst x y n sp sz g) = mines g"
  "cores (burst x y n sp sz g) = cores g"
  "cameraShake (burst x y n sp sz g) = cameraShake g"
  "sortOracle (burst x y n sp sz g) = sortOracle g"
  "rngPos (burst x y n sp sz g) = rngPos g + 4 * n"
  by (simp_all add: burst_def drawn_def)

text \<open>
  C4. \<^verbatim>\<open>applyDamage(a)\<close> on the player of a game \<open>g\<close>.
  While the invulnerability timer is positive it returns 0 and changes nothing, and the
  two callers in \<^verbatim>\<open>handleCollisions\<close> (enemy contact, \<open>contact_step\<close>; enemy projectile,
  \<open>shot_step\<close>) leave the whole game as it is: health, shield, combo and the took-damage
  flag in particular.
  Otherwise, for a damage amount \<open>a \<ge> 0\<close> and a shield that is not negative: the shield
  absorbs \<open>min shield a\<close>, health loses the rest, the timer is set to 0.2, the call
  returns \<open>a\<close>, and the returned value is nonzero exactly when shield or health went down.
  In the two callers the combo reset to 1 and the took-damage flag are taken exactly when
  the returned value is positive.
\<close>

theorem applyDamage_spec:
  "(0 < s_invulnTimer (snake g) \<longrightarrow>
      applyDamage a (snake g) = (0, snake g) \<and> contact_step dt e g = g \<and>
      snd (shot_step p g) = g)
   \<and> (\<not> 0 < s_invulnTimer (snake g) \<and> 0 \<le> a \<and> 0 \<le> s_shield (snake g) \<longrightarrow>
      fst (applyDamage a (snake g)) = a \<and>
      s_shield (snd (applyDamage a (snake g))) =
        s_shield (snake g) - min (s_shield (snake g)) a \<and>
      s_health (snd (applyDamage a (snake g))) =
        s_health (snake g) - (a - min (s_shield (snake g)) a) \<and>
      s_invulnTimer (snd (applyDamage a (snake g))) = 0.2 \<and>
      (fst (applyDamage a (snake g)) \<noteq> 0 \<longleftrightarrow>
         s_shield (snd (applyDamage a (snake g))) < s_shield (snake g) \<or>
         s_health (snd (applyDamage a (snake g))) < s_health (snake g)))
   \<and> (\<not> 0 < s_invulnTimer (snake g) \<and> e_alive e \<and>
       distance (e_x e) (e_y e) (fst (s_head (snake g))) (snd (s_head (snake g)))
         < e_radius e + 11 \<longrightarrow>
      (if 0 < e_contactDamage e * dt * 3.5
       then combo (contact_step dt e g) = 1 \<and> tookDamageThisLevel (contact_step dt e g)
       else combo (contact_step dt e g) = combo g \<and>
            tookDamageThisLevel (contact_step dt e g) = tookDamageThisLevel g))
   \<and> (\<not> 0 < s_invulnTimer (snake g) \<and> p_alive p \<and>
       distance (p_x p) (p_y p) (fst (s_head (snake g))) (snd (s_head (snake g)))
         < p_radius p + 10 \<longrightarrow>
      (if 0 < p_damage p
       then combo (snd (shot_step p g)) = 1 \<and> tookDamageThisLevel (snd (shot_step p g))
       else combo (snd (shot_step p g)) = combo g \<and>
            tookDamageThisLevel (snd (shot_step p g)) = tookDamageThisLevel g))"
proof (intro conjI impI)
  assume "0 < s_invulnTimer (snake g)"
  then show "applyDamage a (snake g) = (0, snake g)" "contact_step dt e g = g"
    "snd (shot_step p g) = g"
    by (simp_all add: applyDamage_invulnerable contact_step_def shot_step_def)
next
  assume h: "\<not> 0 < s_invulnTimer (snake g) \<and> 0 \<le> a \<and> 0 \<le> s_shield (snake g)"
  then have eq: "applyDamage a (snake g) =
     (a, (snake g)\<lparr>s_shield := s_shield (snake g) - min (s_shield (snake g)) a,
           s_health := s_health (snake g) - (a - min (s_shield (snake g)) a),
           s_invulnTimer := 0.2\<rparr>)"
    by (intro applyDamage_open) simp_all
  show "fst (applyDamage a (snake g)) = a"
    "s_shield (snd (applyDamage a (snake g))) = s_shield (snake g) - min (s_shield (snake g)) a"
    "s_health (snd (applyDamage a (snake g))) =
        s_health (snake g) - (a - min (s_shield (snake g)) a)"
    "s_invulnTimer (snd (applyDamage a (snake g))) = 0.2"
    by (simp_all add: eq)
  show "fst (applyDamage a (snake g)) \<noteq> 0 \<longleftrightarrow>
         s_shield (snd (applyDamage a (snake g))) < s_shield (snake g) \<or>
         s_health (snd (applyDamage a (snake g))) < s_health (snake g)"
    using h by (auto simp: eq min_def)
next
  assume "\<not> 0 < s_invulnTimer (snake g) \<and> e_alive e \<and>
       distance (e_x e) (e_y e) (fst (s_head (snake g))) (snd (s_head (snake g)))
         < e_radius e + 11"
  then show "if 0 < e_contactDamage e * dt * 3.5
       then combo (contact_step dt e g) = 1 \<and> tookDamageThisLevel (contact_step dt e g)
       else combo (contact_step dt e g) = combo g \<and>
            tookDamageThisLevel (contact_step dt e g) = tookDamageThisLevel g"
    by (simp add: contact_step_def applyDamage_def Let_def)
next
  assume "\<not> 0 < s_invulnTimer (snake g) \<and> p_alive p \<and>
       distance (p_x p) (p_y p) (fst (s_head (snake g))) (snd (s_head (snake g)))
         < p_radius p + 10"
  then show "if 0 < p_damage p
       then combo (snd (shot_step p g)) = 1 \<and> tookDamageThisLevel (snd (shot_step p g))
       else combo (snd (shot_step p g)) = combo g \<and>
            tookDamageThisLevel (snd (shot_step p g)) = tookDamageThisLevel g"
    by (simp add: shot_step_def applyDamage_def Let_def)
qed

theorem applyDamage_spec_witness:
  "0 < s_invulnTimer (snake g_invuln)
   \<and> applyDamage 12 (snake g_invuln) = (0, snake g_invuln)
   \<and> contact_step 0.05 e_touching g_invuln = g_invuln
   \<and> snd (shot_step p_incoming g_invuln) = g_invuln
   \<and> \<not> 0 < s_invulnTimer (snake g_shielded) \<and> (0::real) \<le> 40
   \<and> 0 \<le> s_shield (snake g_shielded)
   \<and> fst (applyDamage 40 (snake g_shielded)) = 40
   \<and> s_shield (snd (applyDamage 40 (snake g_shielded))) = 0
   \<and> s_health (snd (applyDamage 40 (snake g_shielded))) = 90
   \<and> e_alive e_touching
   \<and> combo (contact_step 0.05 e_touching g_shielded) = 1
   \<and> tookDamageThisLevel (contact_step 0.05 e_touching g_shielded)
   \<and> p_alive p_incoming
   \<and> combo (snd (shot_step p_incoming g_shielded)) = 1
   \<and> tookDamageThisLevel (snd (shot_step p_incoming g_shielded))"
  using applyDamage_spec [of g_invuln 12 "0.05" e_touching p_incoming]
    applyDamage_spec [of g_shielded 40 "0.05" e_touching p_incoming]
  by (simp add: g_invuln_def g_shielded_def g_start_fields Snake_new_def e_touching_fields
      p_incoming_def Projectile_new_def distance_def)

subsection \<open>Scoring and level-up\<close>

text \<open>
  C6. A scoring event \<^verbatim>\<open>gainScore(p)\<close> adds \<open>round (p * combo)\<close> to the score and the
  unmultiplied \<open>p\<close> to the experience. When the experience then reaches
  \<open>450 + level * 170\<close>, the threshold is subtracted from it (the rest carries over), the
  level goes up by one, the took-damage flag is cleared, the rewards of the missions that
  are done are added to the score, a fresh mission set (2 or 3 distinct missions of the
  pool) is drawn for the new level, max health grows by 6, health by 18 up to the new max
  health, and the shield by 18 up to 120. Below the threshold none of this happens.
\<close>

theorem gainScore_spec:
  "(xp g + p < 450 + real (level g) * 170 \<longrightarrow>
      score (gainScore p g) = score g + of_int (round (p * combo g)) \<and>
      xp (gainScore p g) = xp g + p \<and>
      level (gainScore p g) = level g \<and>
      tookDamageThisLevel (gainScore p g) = tookDamageThisLevel g \<and>
      missions (gainScore p g) = missions g \<and>
      snake (gainScore p g) = snake g)
   \<and> (450 + real (level g) * 170 \<le> xp g + p \<longrightarrow>
      score (gainScore p g) =
        score g + of_int (round (p * combo g)) +
        sum_list (map ms_reward (filter ms_done (missions g))) \<and>
      xp (gainScore p g) = xp g + p - (450 + real (level g) * 170) \<and>
      level (gainScore p g) = level g + 1 \<and>
      \<not> tookDamageThisLevel (gainScore p g) \<and>
      missions (gainScore p g) =
        take (if (level g + 1) mod 3 = 0 then 3 else 2)
          (permute (fst (sortOracle g (rngPos g))) pool) \<and>
      length (missions (gainScore p g)) = (if (level g + 1) mod 3 = 0 then 3 else 2) \<and>
      distinct (missions (gainScore p g)) \<and>
      set (missions (gainScore p g)) \<subseteq> set pool \<and>
      s_maxHealth (snake (gainScore p g)) = s_maxHealth (snake g) + 6 \<and>
      s_health (snake (gainScore p g)) =
        min (s_maxHealth (snake g) + 6) (s_health (snake g) + 18) \<and>
      s_shield (snake (gainScore p g)) = clamp (s_shield (snake g) + 18) 0 120)"
proof (intro conjI impI)
  assume "xp g + p < 450 + real (level g) * 170"
  then show "score (gainScore p g) = score g + of_int (round (p * combo g))"
    "xp (gainScore p g) = xp g + p" "level (gainScore p g) = level g"
    "tookDamageThisLevel (gainScore p g) = tookDamageThisLevel g"
    "missions (gainScore p g) = missions g" "snake (gainScore p g) = snake g"
    by (simp_all add: gainScore_def Let_def)
next
  assume up: "450 + real (level g) * 170 \<le> xp g + p"
  then show "score (gainScore p g) =
        score g + of_int (round (p * combo g)) +
        sum_list (map ms_reward (filter ms_done (missions g)))"
    "xp (gainScore p g) = xp g + p - (450 + real (level g) * 170)"
    "level (gainScore p g) = level g + 1"
    "\<not> tookDamageThisLevel (gainScore p g)"
    "s_maxHealth (snake (gainScore p g)) = s_maxHealth (snake g) + 6"
    "s_health (snake (gainScore p g)) =
        min (s_maxHealth (snake g) + 6) (s_health (snake g) + 18)"
    "s_shield (snake (gainScore p g)) = clamp (s_shield (snake g) + 18) 0 120"
    by (simp_all add: gainScore_def Let_def startLevel_def drawn_def addShield_def
        rewardScore_sum)
  from up show m: "missions (gainScore p g) =
        take (if (level g + 1) mod 3 = 0 then 3 else 2)
          (permute (fst (sortOracle g (rngPos g))) pool)"
    by (simp add: gainScore_def Let_def startLevel_def drawn_def)
  show "length (missions (gainScore p g)) = (if (level g + 1) mod 3 = 0 then 3 else 2)"
    by (simp add: m length_permute length_pool)
  show "distinct (missions (gainScore p g))"
    by (simp add: m distinct_permute distinct_pool)
  show "set (missions (gainScore p g)) \<subseteq> set pool"
    using set_take_subset [of _ "permute (fst (sortOracle g (rngPos g))) pool"]
    by (simp add: m set_permute)
qed

lemma g_levelup_fields:
  "score g_levelup = 0" "level g_levelup = 1" "xp g_levelup = 600" "combo g_levelup = 1"
  "snake g_levelup = Snake_new 480 270"
  "filter ms_done (missions g_levelup) = [(pool ! 0)\<lparr>ms_progress := 6, ms_done := True\<rparr>]"
  "ms_reward (pool ! 0) = 180"
  "sortOracle g_levelup = (\<lambda>_. ([], 0))"
  by (simp_all add: g_levelup_def g_start_fields pool_def Mission_new_def)

theorem gainScore_spec_witness:
  "xp g_start + 45 < 450 + real (level g_start) * 170
   \<and> score (gainScore 45 g_start) = 45 \<and> xp (gainScore 45 g_start) = 45
   \<and> level (gainScore 45 g_start) = 1
   \<and> 450 + real (level g_levelup) * 170 \<le> xp g_levelup + 45
   \<and> score (gainScore 45 g_levelup) = 45 + 180
   \<and> xp (gainScore 45 g_levelup) = 25
   \<and> level (gainScore 45 g_levelup) = 2
   \<and> missions (gainScore 45 g_levelup) = take 2 pool
   \<and> s_maxHealth (snake (gainScore 45 g_levelup)) = 106
   \<and> s_health (snake (gainScore 45 g_levelup)) = 106
   \<and> s_shield (snake (gainScore 45 g_levelup)) = 18"
  using gainScore_spec [of g_start 45] gainScore_spec [of g_levelup 45]
  by (simp add: g_start_fields g_levelup_fields Snake_new_def clamp_def permute_Nil)

subsection \<open>Missions\<close>

lemma Mission_update_terminal:
  "ms_done m \<or> ms_failed m \<Longrightarrow> Mission_update dt m = m"
  by (simp add: Mission_update_def)

lemma Mission_inc_terminal:
  "ms_done m \<or> ms_failed m \<Longrightarrow> Mission_inc a m = m"
  by (simp add: Mission_inc_def)

lemma no_hit_fields:
  "ms_type (pool ! 2) = SecondsNoHit" "ms_target (pool ! 2) = 30"
  "ms_maxTimer (pool ! 2) = Some 30" "ms_timer (pool ! 2) = Some 30"
  "ms_progress (pool ! 2) = 0" "\<not> ms_done (pool ! 2)" "\<not> ms_failed (pool ! 2)"
  by (simp_all add: pool_def Mission_new_def)

lemma no_hit_tick:
  assumes "0 \<le> a" "0 \<le> d" "a + d < 30"
  shows "mission_tick d False t ((pool ! 2)\<lparr>ms_timer := Some (30 - a), ms_progress := a\<rparr>) =
         (pool ! 2)\<lparr>ms_timer := Some (30 - (a + d)), ms_progress := a + d\<rparr>"
  using assms
  by (simp add: mission_tick_def Mission_update_def no_hit_fields Let_def num_of_def clamp_def)

lemma no_hit_run_from:
  assumes "\<forall>d \<in> set ds. 0 \<le> d" "0 \<le> a" "a + sum_list ds < 30"
  shows "run_ticks ds ((pool ! 2)\<lparr>ms_timer := Some (30 - a), ms_progress := a\<rparr>) =
         (pool ! 2)\<lparr>ms_timer := Some (30 - (a + sum_list ds)), ms_progress := a + sum_list ds\<rparr>"
  using assms
proof (induction ds arbitrary: a)
  case Nil
  then show ?case by simp
next
  case (Cons d ds)
  have nn: "0 \<le> sum_list ds" using Cons.prems(1) by (simp add: sum_list_nonneg)
  have d: "0 \<le> d" using Cons.prems(1) by simp
  have "a + d < 30" using Cons.prems(3) nn by simp
  then have step: "mission_tick d False 1 ((pool ! 2)\<lparr>ms_timer := Some (30 - a), ms_progress := a\<rparr>) =
         (pool ! 2)\<lparr>ms_timer := Some (30 - (a + d)), ms_progress := a + d\<rparr>"
    using Cons.prems(2) d by (intro no_hit_tick)
  have "run_ticks ds ((pool ! 2)\<lparr>ms_timer := Some (30 - (a + d)), ms_progress := a + d\<rparr>) =
         (pool ! 2)\<lparr>ms_timer := Some (30 - (a + d + sum_list ds)),
           ms_progress := a + d + sum_list ds\<rparr>"
    using Cons.prems d by (intro Cons.IH) (simp_all add: add.assoc)
  then show ?case by (simp add: step add.assoc)
qed

lemma no_hit_late_reached:
  "run_ticks (replicate 599 0.05 @ [0.02]) (pool ! 2) = no_hit_late"
proof -
  let ?ds = "replicate 599 0.05 @ [0.02 :: real]"
  have s: "sum_list ?ds = 29.97"
    by (simp add: sum_list_replicate)
  have p: "pool ! 2 = (pool ! 2)\<lparr>ms_timer := Some (30 - 0), ms_progress := 0\<rparr>"
    by (simp add: pool_def Mission_new_def)
  have "run_ticks ?ds ((pool ! 2)\<lparr>ms_timer := Some (30 - 0), ms_progress := 0\<rparr>) =
        (pool ! 2)\<lparr>ms_timer := Some (30 - (0 + sum_list ?ds)),
          ms_progress := 0 + sum_list ?ds\<rparr>"
    by (rule no_hit_run_from) (simp_all add: sum_list_replicate)
  also have "\<dots> = no_hit_late"
    by (simp only: s no_hit_late_def) simp
  finally show ?thesis
    by (simp only: p [symmetric])
qed

text \<open>
  C2. A mission that is done or failed is not to change again, and done and failed are
  not to hold together. \<^verbatim>\<open>Mission.update\<close> and \<^verbatim>\<open>Mission.inc\<close> return at once on such a
  mission (the two lemmas above), but the loop of \<^verbatim>\<open>MissionSystem.update\<close> writes the
  progress and the done flag of a no-hit mission without looking at either flag. On the
  tick in which the timer of the no-hit mission runs out with no damage taken (here
  29.97 s into the level, with a frame of 0.05 s), \<^verbatim>\<open>Mission.update\<close> marks the mission
  failed, at progress 29.97; the loop then raises the progress to 30 and marks it done as
  well, and \<^verbatim>\<open>rewardScore\<close> pays its reward.
\<close>

theorem no_hit_done_and_failed:
  "\<not> ms_done no_hit_late \<and> \<not> ms_failed no_hit_late
   \<and> ms_failed (Mission_update 0.05 no_hit_late)
   \<and> ms_progress (Mission_update 0.05 no_hit_late) = 29.97
   \<and> ms_failed (mission_tick 0.05 False 1 no_hit_late)
   \<and> ms_done (mission_tick 0.05 False 1 no_hit_late)
   \<and> ms_progress (mission_tick 0.05 False 1 no_hit_late) = 30
   \<and> MissionSystem_rewardScore [mission_tick 0.05 False 1 no_hit_late] = 180"
  by (simp add: no_hit_late_def mission_tick_def Mission_update_def no_hit_fields Let_def
      num_of_def clamp_def MissionSystem_rewardScore_def pool_def Mission_new_def)

subsection \<open>The scoring passes keep every score-stable predicate\<close>

lemma score_stableD:
  assumes "score_stable P" "P g"
  shows "P (gainScore p g)" "P (g\<lparr>snake := heal a (snake g)\<rparr>)"
    "P (g\<lparr>snake := addShield a (snake g)\<rparr>)" "P (g\<lparr>snake := grow n (snake g)\<rparr>)"
    "ty \<noteq> ComboPeak \<Longrightarrow> P (g\<lparr>missions := MissionSystem_onEvent ty 1 (missions g)\<rparr>)"
    "P (burst x y k sp sz g)" "P (g\<lparr>cores := cs\<rparr>)"
proof -
  note c = assms(1) [unfolded score_stable_def]
  note c2 = c [THEN conjunct2]
  note c3 = c2 [THEN conjunct2]
  note c4 = c3 [THEN conjunct2]
  note c5 = c4 [THEN conjunct2]
  note c6 = c5 [THEN conjunct2]
  show "P (gainScore p g)" by (rule c [THEN conjunct1, rule_format, OF assms(2)])
  show "P (g\<lparr>snake := heal a (snake g)\<rparr>)"
    by (rule c2 [THEN conjunct1, rule_format, OF assms(2)])
  show "P (g\<lparr>snake := addShield a (snake g)\<rparr>)"
    by (rule c3 [THEN conjunct1, rule_format, OF assms(2)])
  show "P (g\<lparr>snake := grow n (snake g)\<rparr>)"
    by (rule c4 [THEN conjunct1, rule_format, OF assms(2)])
  show "ty \<noteq> ComboPeak \<Longrightarrow> P (g\<lparr>missions := MissionSystem_onEvent ty 1 (missions g)\<rparr>)"
    by (rule c5 [THEN conjunct1, rule_format, OF _ assms(2)])
  show "P (burst x y k sp sz g)" by (rule c6 [THEN conjunct1, rule_format, OF assms(2)])
  show "P (g\<lparr>cores := cs\<rparr>)" by (rule c6 [THEN conjunct2, rule_format, OF assms(2)])
qed

lemma explodeEnemy_stable:
  assumes "score_stable P" "P g"
  shows "P (explodeEnemy e b g)"
proof -
  note st = score_stableD [OF assms(1)]
  show ?thesis
    by (simp only: explodeEnemy_def Let_def split: if_split)
      (intro conjI impI st assms(2); simp)
qed

lemma core_step_stable:
  assumes "score_stable P" "P g"
  shows "P (snd (core_step c g))"
proof -
  note st = score_stableD [OF assms(1)]
  show ?thesis
    by (cases "c_kind c"; simp only: core_step_def Let_def snd_conv core_kind.case split: if_split)
      (intro conjI impI st assms(2); simp)+
qed


lemma cores_loop_stable:
  assumes "score_stable P"
  shows "P g \<Longrightarrow> P (snd (cores_loop cs g))"
proof (induction cs arbitrary: g)
  case Nil
  then show ?case by simp
next
  case (Cons c cs)
  have "P (snd (core_step c g))" using assms Cons.prems by (rule core_step_stable)
  then have "P (snd (cores_loop cs (snd (core_step c g))))" by (rule Cons.IH)
  then show ?case by (simp only: cores_loop.simps Let_def split_beta snd_conv)
qed

lemma collect_cores_stable:
  assumes "score_stable P" "P g"
  shows "P (collect_cores g)"
  unfolding collect_cores_def split_beta Let_def
  by (intro score_stableD(7) [OF assms(1)] cores_loop_stable [OF assms(1)] assms(2))

lemma hit_scan_stable:
  assumes "score_stable P"
  shows "P g \<Longrightarrow> P (snd (snd (hit_scan p es g)))"
proof (induction es arbitrary: g)
  case Nil
  then show ?case by simp
next
  case (Cons e es)
  note st = score_stableD [OF assms(1)] explodeEnemy_stable [OF assms(1)]
  show ?case
    by (simp only: hit_scan.simps Let_def split_beta snd_conv split: if_split)
      (intro conjI impI st Cons.IH Cons.prems)
qed

lemma projectiles_loop_stable:
  assumes "score_stable P"
  shows "P g \<Longrightarrow> P (snd (snd (projectiles_loop ps es g)))"
proof (induction ps arbitrary: es g)
  case Nil
  then show ?case by simp
next
  case (Cons p ps)
  show ?case
    by (simp only: projectiles_loop.simps Let_def split_beta snd_conv split: if_split)
      (intro conjI impI Cons.IH hit_scan_stable [OF assms] Cons.prems)
qed

lemma blast_stable:
  assumes "score_stable P"
  shows "P g \<Longrightarrow> P (snd (blast m ts g))"
proof (induction ts arbitrary: g)
  case Nil
  then show ?case by simp
next
  case (Cons t ts)
  show ?case
    by (simp only: blast.simps Let_def split_beta snd_conv split: if_split)
      (intro conjI impI Cons.IH explodeEnemy_stable [OF assms] Cons.prems)
qed

lemma mine_scan_stable:
  assumes "score_stable P"
  shows "P g \<Longrightarrow> P (snd (snd (mine_scan m es all g)))"
proof (induction es arbitrary: g)
  case Nil
  then show ?case by simp
next
  case (Cons e es)
  show ?case
    by (simp only: mine_scan.simps Let_def split_beta snd_conv split: if_split)
      (intro conjI impI Cons.IH blast_stable [OF assms] score_stableD(6) [OF assms] Cons.prems)
qed

lemma mine_step_stable:
  assumes "score_stable P" "P g"
  shows "P (snd (snd (mine_step m es g)))"
  by (simp only: mine_step_def snd_conv split: if_split)
    (intro conjI impI mine_scan_stable [OF assms(1)] assms(2))

lemma mines_loop_stable:
  assumes "score_stable P"
  shows "P g \<Longrightarrow> P (snd (snd (mines_loop ms es g)))"
proof (induction ms arbitrary: es g)
  case Nil
  then show ?case by simp
next
  case (Cons m ms)
  show ?case
    by (simp only: mines_loop.simps Let_def split_beta snd_conv)
      (intro Cons.IH mine_step_stable [OF assms] Cons.prems)
qed

subsection \<open>What a scoring event changes\<close>

lemma drawn_frame [simp]:
  "combo (drawn k g) = combo g" "comboTier (drawn k g) = comboTier g"
  "comboTimer (drawn k g) = comboTimer g"
  "tookDamageThisLevel (drawn k g) = tookDamageThisLevel g"
  "snake (drawn k g) = snake g" "missions (drawn k g) = missions g"
  "level (drawn k g) = level g" "state (drawn k g) = state g"
  "score (drawn k g) = score g" "xp (drawn k g) = xp g"
  "enemies (drawn k g) = enemies g" "enemyProjectiles (drawn k g) = enemyProjectiles g"
  "projectiles (drawn k g) = projectiles g" "mines (drawn k g) = mines g"
  "cores (drawn k g) = cores g" "cameraShake (drawn k g) = cameraShake g"
  "particles (drawn k g) = particles g" "keys (drawn k g) = keys g"
  "justPressed (drawn k g) = justPressed g" "waveTime (drawn k g) = waveTime g"
  "spawnTimer (drawn k g) = spawnTimer g" "coreSpawnTimer (drawn k g) = coreSpawnTimer g"
  "bgTime (drawn k g) = bgTime g"
  "sortOracle (drawn k g) = sortOracle g" "rng (drawn k g) = rng g"
  "rngPos (drawn k g) = rngPos g + k"
  by (simp_all add: drawn_def)

lemma startLevel_frame [simp]:
  "combo (startLevel l g) = combo g" "comboTier (startLevel l g) = comboTier g"
  "comboTimer (startLevel l g) = comboTimer g"
  "tookDamageThisLevel (startLevel l g) = tookDamageThisLevel g"
  "snake (startLevel l g) = snake g"
  "level (startLevel l g) = level g" "state (startLevel l g) = state g"
  "score (startLevel l g) = score g" "xp (startLevel l g) = xp g"
  "enemies (startLevel l g) = enemies g"
  "enemyProjectiles (startLevel l g) = enemyProjectiles g"
  "projectiles (startLevel l g) = projectiles g" "mines (startLevel l g) = mines g"
  "cores (startLevel l g) = cores g" "cameraShake (startLevel l g) = cameraShake g"
  "particles (startLevel l g) = particles g" "keys (startLevel l g) = keys g"
  "justPressed (startLevel l g) = justPressed g" "waveTime (startLevel l g) = waveTime g"
  "spawnTimer (startLevel l g) = spawnTimer g"
  "coreSpawnTimer (startLevel l g) = coreSpawnTimer g"
  "bgTime (startLevel l g) = bgTime g"
  "sortOracle (startLevel l g) = sortOracle g" "rng (startLevel l g) = rng g"
  by (simp_all add: startLevel_def Let_def)

lemma startLevel_missions:
  "set (missions (startLevel l g)) \<subseteq> set pool"
  using set_take_subset [of _ "permute (fst (sortOracle g (rngPos g))) pool"]
  by (simp add: startLevel_def Let_def set_permute)

lemma gainScore_frame [simp]:
  "state (gainScore p g) = state g"
  "enemies (gainScore p g) = enemies g"
  "enemyProjectiles (gainScore p g) = enemyProjectiles g"
  "projectiles (gainScore p g) = projectiles g" "mines (gainScore p g) = mines g"
  "cores (gainScore p g) = cores g" "cameraShake (gainScore p g) = cameraShake g"
  "particles (gainScore p g) = particles g" "keys (gainScore p g) = keys g"
  "justPressed (gainScore p g) = justPressed g" "waveTime (gainScore p g) = waveTime g"
  "spawnTimer (gainScore p g) = spawnTimer g"
  "coreSpawnTimer (gainScore p g) = coreSpawnTimer g"
  "bgTime (gainScore p g) = bgTime g"
  "sortOracle (gainScore p g) = sortOracle g" "rng (gainScore p g) = rng g"
  "combo (gainScore p g) = clamp (combo g + 0.05) 1 6"
  "comboTier (gainScore p g) = max (comboTier g) \<lfloor>clamp (combo g + 0.05) 1 6\<rfloor>"
  "comboTimer (gainScore p g) = 4"
  "s_head (snake (gainScore p g)) = s_head (snake g)"
  "s_invulnTimer (snake (gainScore p g)) = s_invulnTimer (snake g)"
  by (simp_all add: gainScore_def Let_def addShield_def)

lemma gainScore_snake:
  "snake (gainScore p g) = snake g \<or>
   snake (gainScore p g) =
     addShield 18 ((snake g)\<lparr>s_maxHealth := s_maxHealth (snake g) + 6,
       s_health := min (s_maxHealth (snake g) + 6) (s_health (snake g) + 18)\<rparr>)"
  by (simp add: gainScore_def Let_def)

lemma gainScore_missions:
  "missions (gainScore p g) = missions g \<or> set (missions (gainScore p g)) \<subseteq> set pool"
  using startLevel_missions by (simp add: gainScore_def Let_def)

subsection \<open>Score-stable predicates\<close>

lemma heal_fields [simp]:
  "s_maxHealth (heal a s) = s_maxHealth s" "s_shield (heal a s) = s_shield s"
  "s_head (heal a s) = s_head s" "s_invulnTimer (heal a s) = s_invulnTimer s"
  "s_health (heal a s) = clamp (s_health s + a) 0 (s_maxHealth s)"
  by (simp_all add: heal_def)

lemma addShield_fields [simp]:
  "s_maxHealth (addShield a s) = s_maxHealth s" "s_health (addShield a s) = s_health s"
  "s_head (addShield a s) = s_head s" "s_invulnTimer (addShield a s) = s_invulnTimer s"
  "s_shield (addShield a s) = clamp (s_shield s + a) 0 120"
  by (simp_all add: addShield_def)

lemma grow_fields [simp]:
  "s_maxHealth (grow n s) = s_maxHealth s" "s_health (grow n s) = s_health s"
  "s_shield (grow n s) = s_shield s"
  "s_head (grow n s) = s_head s" "s_invulnTimer (grow n s) = s_invulnTimer s"
  by (simp_all add: grow_def)

lemma res_ok_stable: "score_stable (\<lambda>g. res_ok (snake g))"
  unfolding score_stable_def
proof (intro conjI allI impI)
  fix p and g :: game assume "res_ok (snake g)"
  then show "res_ok (snake (gainScore p g))"
    using gainScore_snake [of p g] by (auto simp: res_ok_def clamp_def)
qed (simp_all add: res_ok_def clamp_def)

lemma combo_ok_stable: "score_stable combo_ok"
  unfolding score_stable_def
proof (intro conjI allI impI)
  fix p and g :: game assume "combo_ok g"
  then show "combo_ok (gainScore p g)"
    by (auto simp: combo_ok_def clamp_def le_floor_iff floor_le_iff)
qed (simp_all add: combo_ok_def)

lemma combo_lb_stable: "score_stable (\<lambda>g. c \<le> combo g \<and> combo g \<le> 6)"
  unfolding score_stable_def
  by (intro conjI allI impI) (auto simp: clamp_def)

lemma tier_lb_stable: "score_stable (\<lambda>g. t \<le> comboTier g)"
  unfolding score_stable_def
  by (intro conjI allI impI) auto

lemma untouched_stable:
  "score_stable (\<lambda>g. state g = st \<and> enemyProjectiles g = eps \<and> s_head (snake g) = h \<and>
     s_invulnTimer (snake g) = iv \<and> enemies g = es \<and> projectiles g = ps \<and> mines g = ms \<and>
     cameraShake g = cs)"
  unfolding score_stable_def
  by (intro conjI allI impI) simp_all

lemma pool_peak_ok: "m \<in> set pool \<Longrightarrow> peak_ok m"
  by (auto simp: pool_def peak_ok_def Mission_new_def)

lemma Mission_inc_type [simp]: "ms_type (Mission_inc a m) = ms_type m"
  by (simp add: Mission_inc_def Let_def)

lemma onEvent_peak_ok:
  assumes "ty \<noteq> ComboPeak" "\<forall>m \<in> set ms. peak_ok m"
  shows "\<forall>m \<in> set (MissionSystem_onEvent ty a ms). peak_ok m"
  using assms by (auto simp: MissionSystem_onEvent_def peak_ok_def)

lemma missions_ok_stable: "score_stable missions_ok"
  unfolding score_stable_def
proof (intro conjI allI impI)
  fix p and g :: game assume "missions_ok g"
  then show "missions_ok (gainScore p g)"
    using gainScore_missions [of p g] pool_peak_ok by (auto simp: missions_ok_def)
next
  fix ty and g :: game assume "ty \<noteq> ComboPeak" "missions_ok g"
  then show "missions_ok (g\<lparr>missions := MissionSystem_onEvent ty 1 (missions g)\<rparr>)"
    using onEvent_peak_ok [of ty "missions g" 1] by (simp add: missions_ok_def)
qed (simp_all add: missions_ok_def)

subsection \<open>The damage passes\<close>

lemma applyDamage_res_ok:
  assumes "res_ok s" "0 \<le> a"
  shows "res_ok (snd (applyDamage a s))"
  using assms by (auto simp: applyDamage_def res_ok_def Let_def min_def)

lemma applyDamage_fields [simp]:
  "s_head (snd (applyDamage a s)) = s_head s"
  "s_maxHealth (snd (applyDamage a s)) = s_maxHealth s"
  by (simp_all add: applyDamage_def Let_def)

lemma contact_step_frame [simp]:
  "missions (contact_step dt e g) = missions g"
  "comboTier (contact_step dt e g) = comboTier g"
  "level (contact_step dt e g) = level g"
  "state (contact_step dt e g) = state g"
  "score (contact_step dt e g) = score g"
  "xp (contact_step dt e g) = xp g"
  "enemies (contact_step dt e g) = enemies g"
  "enemyProjectiles (contact_step dt e g) = enemyProjectiles g"
  "s_head (snake (contact_step dt e g)) = s_head (snake g)"
  by (simp_all add: contact_step_def split_beta Let_def)

lemma contact_step_res_ok:
  assumes "res_ok (snake g)" "0 \<le> e_contactDamage e" "0 \<le> dt"
  shows "res_ok (snake (contact_step dt e g))"
  using applyDamage_res_ok [OF assms(1), of "e_contactDamage e * dt * 3.5"] assms
  by (simp add: contact_step_def split_beta Let_def)

lemma contact_step_combo_ok:
  "combo_ok g \<Longrightarrow> combo_ok (contact_step dt e g)"
  by (simp add: contact_step_def split_beta Let_def combo_ok_def)

lemma contact_step_hit:
  "(combo (contact_step dt e g) = combo g \<and>
    tookDamageThisLevel (contact_step dt e g) = tookDamageThisLevel g)
   \<or> took_hit (contact_step dt e g)"
  by (simp add: contact_step_def split_beta Let_def took_hit_def applyDamage_def)

lemma contact_step_after_hit:
  "took_hit g \<Longrightarrow> contact_step dt e g = g"
  by (simp add: contact_step_def took_hit_def applyDamage_def)

lemma shot_step_frame [simp]:
  "missions (snd (shot_step p g)) = missions g"
  "comboTier (snd (shot_step p g)) = comboTier g"
  "level (snd (shot_step p g)) = level g"
  "state (snd (shot_step p g)) = state g"
  "score (snd (shot_step p g)) = score g"
  "xp (snd (shot_step p g)) = xp g"
  "enemies (snd (shot_step p g)) = enemies g"
  "enemyProjectiles (snd (shot_step p g)) = enemyProjectiles g"
  "s_head (snake (snd (shot_step p g))) = s_head (snake g)"
  by (simp_all add: shot_step_def split_beta Let_def)

lemma shot_step_res_ok:
  assumes "res_ok (snake g)" "0 \<le> p_damage p"
  shows "res_ok (snake (snd (shot_step p g)))"
  using applyDamage_res_ok [OF assms(1), of "p_damage p"] assms
  by (simp add: shot_step_def split_beta Let_def)

lemma shot_step_combo_ok:
  "combo_ok g \<Longrightarrow> combo_ok (snd (shot_step p g))"
  by (simp add: shot_step_def split_beta Let_def combo_ok_def)

lemma shot_step_hit:
  "(combo (snd (shot_step p g)) = combo g \<and>
    tookDamageThisLevel (snd (shot_step p g)) = tookDamageThisLevel g)
   \<or> took_hit (snd (shot_step p g))"
  by (simp add: shot_step_def split_beta Let_def took_hit_def applyDamage_def)

lemma shot_step_after_hit:
  "took_hit g \<Longrightarrow> snd (shot_step p g) = g"
  by (simp add: shot_step_def took_hit_def applyDamage_def)

lemma contact_loop_frame [simp]:
  "missions (contact_loop dt es g) = missions g"
  "comboTier (contact_loop dt es g) = comboTier g"
  "level (contact_loop dt es g) = level g"
  "state (contact_loop dt es g) = state g"
  "score (contact_loop dt es g) = score g"
  "xp (contact_loop dt es g) = xp g"
  "enemies (contact_loop dt es g) = enemies g"
  "enemyProjectiles (contact_loop dt es g) = enemyProjectiles g"
  "s_head (snake (contact_loop dt es g)) = s_head (snake g)"
  by (induction es arbitrary: g; simp)+

lemma shots_loop_frame [simp]:
  "missions (snd (shots_loop ps g)) = missions g"
  "comboTier (snd (shots_loop ps g)) = comboTier g"
  "level (snd (shots_loop ps g)) = level g"
  "state (snd (shots_loop ps g)) = state g"
  "score (snd (shots_loop ps g)) = score g"
  "xp (snd (shots_loop ps g)) = xp g"
  "enemies (snd (shots_loop ps g)) = enemies g"
  "enemyProjectiles (snd (shots_loop ps g)) = enemyProjectiles g"
  "s_head (snake (snd (shots_loop ps g))) = s_head (snake g)"
  by (induction ps arbitrary: g; simp add: split_beta)+

lemma contact_loop_res_ok:
  assumes "\<forall>e \<in> set es. 0 \<le> e_contactDamage e" "0 \<le> dt"
  shows "res_ok (snake g) \<Longrightarrow> res_ok (snake (contact_loop dt es g))"
  using assms(1)
  by (induction es arbitrary: g) (simp_all add: contact_step_res_ok assms(2))

lemma shots_loop_res_ok:
  assumes "\<forall>p \<in> set ps. 0 \<le> p_damage p"
  shows "res_ok (snake g) \<Longrightarrow> res_ok (snake (snd (shots_loop ps g)))"
  using assms
  by (induction ps arbitrary: g) (simp_all add: shot_step_res_ok split_beta)

lemma contact_loop_combo_ok:
  "combo_ok g \<Longrightarrow> combo_ok (contact_loop dt es g)"
  by (induction es arbitrary: g) (simp_all add: contact_step_combo_ok)

lemma shots_loop_combo_ok:
  "combo_ok g \<Longrightarrow> combo_ok (snd (shots_loop ps g))"
  by (induction ps arbitrary: g) (simp_all add: shot_step_combo_ok split_beta)

lemma contact_loop_after_hit: "took_hit g \<Longrightarrow> contact_loop dt es g = g"
  by (induction es arbitrary: g) (simp_all add: contact_step_after_hit)

lemma shots_loop_after_hit: "took_hit g \<Longrightarrow> snd (shots_loop ps g) = g"
  by (induction ps arbitrary: g) (simp_all add: shot_step_after_hit split_beta)

lemma contact_loop_hit:
  "(combo (contact_loop dt es g) = combo g \<and>
    tookDamageThisLevel (contact_loop dt es g) = tookDamageThisLevel g)
   \<or> took_hit (contact_loop dt es g)"
proof (induction es arbitrary: g)
  case Nil
  show ?case by simp
next
  case (Cons e es)
  show ?case
    using contact_step_hit [of dt e g] Cons [of "contact_step dt e g"]
      contact_loop_after_hit [of "contact_step dt e g" dt es]
    by auto
qed

lemma shots_loop_hit:
  "(combo (snd (shots_loop ps g)) = combo g \<and>
    tookDamageThisLevel (snd (shots_loop ps g)) = tookDamageThisLevel g)
   \<or> took_hit (snd (shots_loop ps g))"
proof (induction ps arbitrary: g)
  case Nil
  show ?case by simp
next
  case (Cons p ps)
  show ?case
    using shot_step_hit [of p g] Cons [of "snd (shot_step p g)"]
      shots_loop_after_hit [of "snd (shot_step p g)" ps]
    by (auto simp: split_beta)
qed

subsection \<open>The enemies through the scoring passes\<close>

lemma same_body_refl [simp]: "same_body e e"
  by (simp add: same_body_def)

lemma same_body_trans: "same_body a b \<Longrightarrow> same_body b c \<Longrightarrow> same_body a c"
  by (simp add: same_body_def)

lemma same_body_takeDamage [simp]: "same_body e (takeDamage a e)"
  by (simp add: same_body_def takeDamage_def Let_def)

lemma same_body_fields:
  assumes "same_body e e'"
  shows "e_type e' = e_type e" "e_contactDamage e' = e_contactDamage e"
    "e_radius e' = e_radius e" "e_x e' = e_x e" "e_y e' = e_y e"
    "e_scoreValue e' = e_scoreValue e"
proof -
  have eq: "e'\<lparr>e_health := 0, e_alive := True\<rparr> = e\<lparr>e_health := 0, e_alive := True\<rparr>"
    using assms by (simp add: same_body_def)
  show "e_type e' = e_type e" using arg_cong [OF eq, of e_type] by simp
  show "e_contactDamage e' = e_contactDamage e"
    using arg_cong [OF eq, of e_contactDamage] by simp
  show "e_radius e' = e_radius e" using arg_cong [OF eq, of e_radius] by simp
  show "e_x e' = e_x e" using arg_cong [OF eq, of e_x] by simp
  show "e_y e' = e_y e" using arg_cong [OF eq, of e_y] by simp
  show "e_scoreValue e' = e_scoreValue e" using arg_cong [OF eq, of e_scoreValue] by simp
qed

lemma bodies_refl [simp]: "list_all2 same_body es es"
  by (simp add: list_all2_refl)

lemma bodies_trans:
  "list_all2 same_body as bs \<Longrightarrow> list_all2 same_body bs cs \<Longrightarrow> list_all2 same_body as cs"
  by (rule list_all2_trans [where ?P1.0 = same_body and ?P2.0 = same_body])
    (auto intro: same_body_trans)

lemma hit_scan_bodies: "list_all2 same_body es (fst (snd (hit_scan p es g)))"
  by (induction es arbitrary: g) (simp_all add: split_beta Let_def)

lemma projectiles_loop_bodies:
  "list_all2 same_body es (fst (snd (projectiles_loop ps es g)))"
proof (induction ps arbitrary: es g)
  case Nil
  show ?case by simp
next
  case (Cons p ps)
  show ?case
    using Cons [of es g] hit_scan_bodies [of es p g]
      Cons [of "fst (snd (hit_scan p es g))" "snd (snd (hit_scan p es g))"]
    by (auto simp: split_beta Let_def intro: bodies_trans)
qed

lemma blast_bodies: "list_all2 same_body ts (fst (blast m ts g))"
  by (induction ts arbitrary: g) (simp_all add: split_beta Let_def)

lemma mine_scan_bodies: "list_all2 same_body all (fst (snd (mine_scan m es all g)))"
  by (induction es arbitrary: g) (simp_all add: split_beta Let_def blast_bodies)

lemma mine_step_bodies: "list_all2 same_body es (fst (snd (mine_step m es g)))"
  by (simp add: mine_step_def mine_scan_bodies)

lemma mines_loop_bodies:
  "list_all2 same_body es (fst (snd (mines_loop ms es g)))"
proof (induction ms arbitrary: es g)
  case Nil
  show ?case by simp
next
  case (Cons m ms)
  show ?case
    using mine_step_bodies [of es m g]
      Cons [of "fst (snd (mine_step m es g))" "snd (snd (mine_step m es g))"]
    by (auto simp: split_beta Let_def intro: bodies_trans)
qed

lemma bodies_bosses:
  "list_all2 same_body es es' \<Longrightarrow> bosses es' = bosses es"
  unfolding bosses_def
  by (induction rule: list_all2_induct) (simp_all add: same_body_fields)

lemma bodies_contactDamage:
  assumes "list_all2 same_body es es'" "\<forall>e \<in> set es. 0 \<le> e_contactDamage e"
  shows "\<forall>e \<in> set es'. 0 \<le> e_contactDamage e"
  using assms
  by (induction rule: list_all2_induct) (simp_all add: same_body_fields)

lemma bosses_filter: "bosses (filter P es) \<le> bosses es"
  unfolding bosses_def by (induction es) simp_all

subsection \<open>handleCollisions as a whole\<close>

lemma scoring_passes_stable:
  assumes "score_stable P" "P g"
  shows "P (snd (snd (snd (scoring_passes g))))"
  by (simp only: scoring_passes_def Let_def split_beta snd_conv)
    (intro mines_loop_stable [OF assms(1)] projectiles_loop_stable [OF assms(1)]
      collect_cores_stable [OF assms])

lemma collect_cores_untouched:
  "state (collect_cores g) = state g \<and> enemyProjectiles (collect_cores g) = enemyProjectiles g \<and>
   s_head (snake (collect_cores g)) = s_head (snake g) \<and>
   s_invulnTimer (snake (collect_cores g)) = s_invulnTimer (snake g) \<and>
   enemies (collect_cores g) = enemies g \<and> projectiles (collect_cores g) = projectiles g \<and>
   mines (collect_cores g) = mines g \<and> cameraShake (collect_cores g) = cameraShake g"
  by (rule collect_cores_stable [OF untouched_stable]) simp

lemma scoring_passes_untouched:
  "state (snd (snd (snd (scoring_passes g)))) = state g \<and>
   enemyProjectiles (snd (snd (snd (scoring_passes g)))) = enemyProjectiles g \<and>
   s_head (snake (snd (snd (snd (scoring_passes g))))) = s_head (snake g) \<and>
   s_invulnTimer (snake (snd (snd (snd (scoring_passes g))))) = s_invulnTimer (snake g) \<and>
   enemies (snd (snd (snd (scoring_passes g)))) = enemies g \<and>
   projectiles (snd (snd (snd (scoring_passes g)))) = projectiles g \<and>
   mines (snd (snd (snd (scoring_passes g)))) = mines g \<and>
   cameraShake (snd (snd (snd (scoring_passes g)))) = cameraShake g"
  by (rule scoring_passes_stable [OF untouched_stable]) simp

lemma scoring_passes_bodies:
  "list_all2 same_body (enemies g) (fst (snd (snd (scoring_passes g))))"
proof -
  let ?g1 = "collect_cores g"
  let ?r2 = "projectiles_loop (projectiles ?g1) (enemies ?g1) ?g1"
  have e: "enemies ?g1 = enemies g" using collect_cores_untouched by blast
  have 1: "list_all2 same_body (enemies g) (fst (snd ?r2))"
    using projectiles_loop_bodies [of "enemies ?g1"] by (simp only: e)
  have 2: "list_all2 same_body (fst (snd ?r2))
     (fst (snd (mines_loop (mines (snd (snd ?r2))) (fst (snd ?r2)) (snd (snd ?r2)))))"
    by (rule mines_loop_bodies)
  show ?thesis
    using bodies_trans [OF 1 2]
    by (simp only: scoring_passes_def Let_def split_beta snd_conv fst_conv)
qed

lemma damage_passes_frame [simp]:
  "missions (snd (damage_passes dt es g)) = missions g"
  "comboTier (snd (damage_passes dt es g)) = comboTier g"
  "level (snd (damage_passes dt es g)) = level g"
  "state (snd (damage_passes dt es g)) = state g"
  "score (snd (damage_passes dt es g)) = score g"
  "xp (snd (damage_passes dt es g)) = xp g"
  "s_head (snake (snd (damage_passes dt es g))) = s_head (snake g)"
  by (simp_all add: damage_passes_def Let_def)

lemma damage_passes_res_ok:
  assumes "\<forall>e \<in> set es. 0 \<le> e_contactDamage e" "0 \<le> dt"
    "\<forall>p \<in> set (enemyProjectiles g). 0 \<le> p_damage p" "res_ok (snake g)"
  shows "res_ok (snake (snd (damage_passes dt es g)))"
  using assms
  by (simp add: damage_passes_def Let_def shots_loop_res_ok contact_loop_res_ok)

lemma damage_passes_combo_ok:
  "combo_ok g \<Longrightarrow> combo_ok (snd (damage_passes dt es g))"
  by (simp add: damage_passes_def Let_def shots_loop_combo_ok contact_loop_combo_ok)

lemma damage_passes_hit:
  "(combo (snd (damage_passes dt es g)) = combo g \<and>
    tookDamageThisLevel (snd (damage_passes dt es g)) = tookDamageThisLevel g)
   \<or> took_hit (snd (damage_passes dt es g))"
  using contact_loop_hit [of dt es g]
    shots_loop_hit [of "enemyProjectiles (contact_loop dt es g)" "contact_loop dt es g"]
    shots_loop_after_hit [of "contact_loop dt es g" "enemyProjectiles (contact_loop dt es g)"]
  by (auto simp: damage_passes_def Let_def)

lemma handleCollisions_fields:
  "snake (handleCollisions dt g) =
     snake (snd (damage_passes dt (fst (snd (snd (scoring_passes g))))
                  (snd (snd (snd (scoring_passes g))))))"
  "combo (handleCollisions dt g) =
     combo (snd (damage_passes dt (fst (snd (snd (scoring_passes g))))
                  (snd (snd (snd (scoring_passes g))))))"
  "tookDamageThisLevel (handleCollisions dt g) =
     tookDamageThisLevel (snd (damage_passes dt (fst (snd (snd (scoring_passes g))))
                  (snd (snd (snd (scoring_passes g))))))"
  "comboTier (handleCollisions dt g) = comboTier (snd (snd (snd (scoring_passes g))))"
  "missions (handleCollisions dt g) = missions (snd (snd (snd (scoring_passes g))))"
  "level (handleCollisions dt g) = level (snd (snd (snd (scoring_passes g))))"
  "score (handleCollisions dt g) = score (snd (snd (snd (scoring_passes g))))"
  "xp (handleCollisions dt g) = xp (snd (snd (snd (scoring_passes g))))"
  "state (handleCollisions dt g) = state g"
  "enemies (handleCollisions dt g) = filter e_alive (fst (snd (snd (scoring_passes g))))"
  "mines (handleCollisions dt g) = filter m_alive (fst (snd (scoring_passes g)))"
  "projectiles (handleCollisions dt g) = filter p_alive (fst (scoring_passes g))"
  "enemyProjectiles (handleCollisions dt g) =
     filter p_alive (fst (damage_passes dt (fst (snd (snd (scoring_passes g))))
                  (snd (snd (snd (scoring_passes g))))))"
  using scoring_passes_untouched [of g]
  by (simp_all add: handleCollisions_def split_beta Let_def)

lemma handleCollisions_res_ok:
  assumes "res_ok (snake g)" "damage_ok g" "0 \<le> dt"
  shows "res_ok (snake (handleCollisions dt g))"
proof -
  let ?g3 = "snd (snd (snd (scoring_passes g)))"
  let ?es = "fst (snd (snd (scoring_passes g)))"
  have 1: "res_ok (snake ?g3)"
    by (rule scoring_passes_stable [OF res_ok_stable assms(1)])
  have 2: "\<forall>e \<in> set ?es. 0 \<le> e_contactDamage e"
    using bodies_contactDamage [OF scoring_passes_bodies, of g] assms(2)
    by (simp add: damage_ok_def)
  have 3: "\<forall>p \<in> set (enemyProjectiles ?g3). 0 \<le> p_damage p"
    using scoring_passes_untouched [of g] assms(2) by (simp add: damage_ok_def)
  show ?thesis
    using damage_passes_res_ok [OF 2 assms(3) 3 1] by (simp add: handleCollisions_fields)
qed

lemma combo_ok_fields:
  "combo_ok g \<longleftrightarrow> 1 \<le> combo g \<and> combo g \<le> 6 \<and> \<lfloor>combo g\<rfloor> \<le> comboTier g \<and>
     1 \<le> comboTier g \<and> comboTier g \<le> 6"
  by (simp add: combo_ok_def)

lemma handleCollisions_combo_ok:
  assumes "combo_ok g"
  shows "combo_ok (handleCollisions dt g)"
proof -
  let ?g3 = "snd (snd (snd (scoring_passes g)))"
  let ?es = "fst (snd (snd (scoring_passes g)))"
  have "combo_ok ?g3"
    by (rule scoring_passes_stable [OF combo_ok_stable assms])
  then have "combo_ok (snd (damage_passes dt ?es ?g3))"
    by (rule damage_passes_combo_ok)
  then show ?thesis
    by (simp add: combo_ok_fields handleCollisions_fields)
qed

lemma handleCollisions_missions_ok:
  assumes "missions_ok g"
  shows "missions_ok (handleCollisions dt g)"
  using scoring_passes_stable [OF missions_ok_stable assms]
  by (simp add: missions_ok_def handleCollisions_fields)

lemma handleCollisions_tier_mono:
  "comboTier g \<le> comboTier (handleCollisions dt g)"
  using scoring_passes_stable [OF tier_lb_stable, of "comboTier g" g]
  by (simp add: handleCollisions_fields)

lemma handleCollisions_combo:
  assumes "combo g \<le> 6"
  shows "combo g \<le> combo (handleCollisions dt g) \<or> took_hit (handleCollisions dt g)"
proof -
  let ?g3 = "snd (snd (snd (scoring_passes g)))"
  let ?es = "fst (snd (snd (scoring_passes g)))"
  have "combo g \<le> combo ?g3 \<and> combo ?g3 \<le> 6"
    using scoring_passes_stable [OF combo_lb_stable, of "combo g" g] assms by simp
  then show ?thesis
    using damage_passes_hit [of dt ?es ?g3]
    by (auto simp: handleCollisions_fields took_hit_def)
qed

lemma handleCollisions_enemies:
  "(\<forall>e \<in> set (enemies (handleCollisions dt g)). e_alive e) \<and>
   bosses (enemies (handleCollisions dt g)) \<le> bosses (enemies g) \<and>
   ((\<forall>e \<in> set (enemies g). 0 \<le> e_contactDamage e) \<longrightarrow>
    (\<forall>e \<in> set (enemies (handleCollisions dt g)). 0 \<le> e_contactDamage e))"
  using bodies_bosses [OF scoring_passes_bodies, of g]
    bosses_filter [of e_alive "fst (snd (snd (scoring_passes g)))"]
    bodies_contactDamage [OF scoring_passes_bodies, of g]
  by (auto simp: handleCollisions_fields)

subsection \<open>What the other steps of a tick leave alone\<close>

lemma trail_frame [simp]:
  "combo (trail x y g) = combo g"
  "comboTier (trail x y g) = comboTier g"
  "missions (trail x y g) = missions g"
  "level (trail x y g) = level g"
  "state (trail x y g) = state g"
  "enemies (trail x y g) = enemies g"
  "enemyProjectiles (trail x y g) = enemyProjectiles g"
  "tookDamageThisLevel (trail x y g) = tookDamageThisLevel g"
  "score (trail x y g) = score g"
  "xp (trail x y g) = xp g"
  "snake (trail x y g) = snake g"
  by (simp_all add: trail_def)

lemma consume_frame [simp]:
  "combo (snd (consume k g)) = combo g"
  "comboTier (snd (consume k g)) = comboTier g"
  "missions (snd (consume k g)) = missions g"
  "level (snd (consume k g)) = level g"
  "state (snd (consume k g)) = state g"
  "enemies (snd (consume k g)) = enemies g"
  "enemyProjectiles (snd (consume k g)) = enemyProjectiles g"
  "tookDamageThisLevel (snd (consume k g)) = tookDamageThisLevel g"
  "score (snd (consume k g)) = score g"
  "xp (snd (consume k g)) = xp g"
  "snake (snd (consume k g)) = snake g"
  "mines (snd (consume k g)) = mines g"
  "projectiles (snd (consume k g)) = projectiles g"
  by (simp_all add: consume_def)

lemma snake_dash_frame [simp]:
  "combo (snake_dash g) = combo g"
  "comboTier (snake_dash g) = comboTier g"
  "missions (snake_dash g) = missions g"
  "level (snake_dash g) = level g"
  "state (snake_dash g) = state g"
  "enemies (snake_dash g) = enemies g"
  "enemyProjectiles (snake_dash g) = enemyProjectiles g"
  "tookDamageThisLevel (snake_dash g) = tookDamageThisLevel g"
  "score (snake_dash g) = score g"
  "xp (snake_dash g) = xp g"
  "s_health (snake (snake_dash g)) = s_health (snake g)"
  "s_maxHealth (snake (snake_dash g)) = s_maxHealth (snake g)"
  "s_shield (snake (snake_dash g)) = s_shield (snake g)"
  by (simp_all add: snake_dash_def split_beta)

lemma snake_temporal_frame [simp]:
  "combo (snake_temporal g) = combo g"
  "comboTier (snake_temporal g) = comboTier g"
  "missions (snake_temporal g) = missions g"
  "level (snake_temporal g) = level g"
  "state (snake_temporal g) = state g"
  "enemies (snake_temporal g) = enemies g"
  "enemyProjectiles (snake_temporal g) = enemyProjectiles g"
  "tookDamageThisLevel (snake_temporal g) = tookDamageThisLevel g"
  "score (snake_temporal g) = score g"
  "xp (snake_temporal g) = xp g"
  "s_health (snake (snake_temporal g)) = s_health (snake g)"
  "s_maxHealth (snake (snake_temporal g)) = s_maxHealth (snake g)"
  "s_shield (snake (snake_temporal g)) = s_shield (snake g)"
  by (simp_all add: snake_temporal_def split_beta)

lemma snake_mine_frame [simp]:
  "combo (snake_mine g) = combo g"
  "comboTier (snake_mine g) = comboTier g"
  "missions (snake_mine g) = missions g"
  "level (snake_mine g) = level g"
  "state (snake_mine g) = state g"
  "enemies (snake_mine g) = enemies g"
  "enemyProjectiles (snake_mine g) = enemyProjectiles g"
  "tookDamageThisLevel (snake_mine g) = tookDamageThisLevel g"
  "score (snake_mine g) = score g"
  "xp (snake_mine g) = xp g"
  "s_health (snake (snake_mine g)) = s_health (snake g)"
  "s_maxHealth (snake (snake_mine g)) = s_maxHealth (snake g)"
  "s_shield (snake (snake_mine g)) = s_shield (snake g)"
  by (simp_all add: snake_mine_def split_beta)

lemma consume_fire_frame [simp]:
  "combo (snd (consume_fire g)) = combo g"
  "comboTier (snd (consume_fire g)) = comboTier g"
  "missions (snd (consume_fire g)) = missions g"
  "level (snd (consume_fire g)) = level g"
  "state (snd (consume_fire g)) = state g"
  "enemies (snd (consume_fire g)) = enemies g"
  "enemyProjectiles (snd (consume_fire g)) = enemyProjectiles g"
  "tookDamageThisLevel (snd (consume_fire g)) = tookDamageThisLevel g"
  "score (snd (consume_fire g)) = score g"
  "xp (snd (consume_fire g)) = xp g"
  "snake (snd (consume_fire g)) = snake g"
  "mines (snd (consume_fire g)) = mines g"
  "projectiles (snd (consume_fire g)) = projectiles g"
  by (simp_all add: consume_fire_def split_beta)

lemma snake_fire_frame [simp]:
  "combo (snake_fire g) = combo g"
  "comboTier (snake_fire g) = comboTier g"
  "missions (snake_fire g) = missions g"
  "level (snake_fire g) = level g"
  "state (snake_fire g) = state g"
  "enemies (snake_fire g) = enemies g"
  "enemyProjectiles (snake_fire g) = enemyProjectiles g"
  "tookDamageThisLevel (snake_fire g) = tookDamageThisLevel g"
  "score (snake_fire g) = score g"
  "xp (snake_fire g) = xp g"
  "s_health (snake (snake_fire g)) = s_health (snake g)"
  "s_maxHealth (snake (snake_fire g)) = s_maxHealth (snake g)"
  "s_shield (snake (snake_fire g)) = s_shield (snake g)"
  by (simp_all add: snake_fire_def split_beta)

lemma snake_steps_resources [simp]:
  "s_health (setAimFromInput g s) = s_health s"
  "s_maxHealth (setAimFromInput g s) = s_maxHealth s"
  "s_shield (setAimFromInput g s) = s_shield s"
  "s_health (snake_turn dt s) = s_health s"
  "s_maxHealth (snake_turn dt s) = s_maxHealth s"
  "s_shield (snake_turn dt s) = s_shield s"
  "s_health (snake_timers dt s) = s_health s"
  "s_maxHealth (snake_timers dt s) = s_maxHealth s"
  "s_shield (snake_timers dt s) = s_shield s"
  "s_health (snake_move W dt s) = s_health s"
  "s_maxHealth (snake_move W dt s) = s_maxHealth s"
  "s_shield (snake_move W dt s) = s_shield s"
  "s_health (snake_trail s) = s_health s"
  "s_maxHealth (snake_trail s) = s_maxHealth s"
  "s_shield (snake_trail s) = s_shield s"
  by (simp_all add: setAimFromInput_def snake_turn_def snake_timers_def snake_move_def
      snake_trail_def Let_def)

lemma Snake_update_frame [simp]:
  "combo (Snake_update W dt g) = combo g"
  "comboTier (Snake_update W dt g) = comboTier g"
  "missions (Snake_update W dt g) = missions g"
  "level (Snake_update W dt g) = level g"
  "state (Snake_update W dt g) = state g"
  "enemies (Snake_update W dt g) = enemies g"
  "enemyProjectiles (Snake_update W dt g) = enemyProjectiles g"
  "tookDamageThisLevel (Snake_update W dt g) = tookDamageThisLevel g"
  "score (Snake_update W dt g) = score g"
  "xp (Snake_update W dt g) = xp g"
  "s_health (snake (Snake_update W dt g)) = s_health (snake g)"
  "s_maxHealth (snake (Snake_update W dt g)) = s_maxHealth (snake g)"
  "s_shield (snake (Snake_update W dt g)) = s_shield (snake g)"
  by (simp_all add: Snake_update_def Let_def)

lemma spawnEnemy_frame [simp]:
  "combo (spawnEnemy W g) = combo g"
  "comboTier (spawnEnemy W g) = comboTier g"
  "missions (spawnEnemy W g) = missions g"
  "level (spawnEnemy W g) = level g"
  "state (spawnEnemy W g) = state g"
  "enemyProjectiles (spawnEnemy W g) = enemyProjectiles g"
  "tookDamageThisLevel (spawnEnemy W g) = tookDamageThisLevel g"
  "score (spawnEnemy W g) = score g"
  "xp (spawnEnemy W g) = xp g"
  "snake (spawnEnemy W g) = snake g"
  "enemies (spawnEnemy W g) = enemies g @ [Enemy_new (spawn_type g) (fst (spawn_pos W (randInt (draw g 1) 0 3) (draw g 2))) (snd (spawn_pos W (randInt (draw g 1) 0 3) (draw g 2))) (1 + (real (level g) - 1) * 0.16) (draw g 3)]"
  by (simp_all add: spawnEnemy_def Let_def)

lemma spawnCore_frame [simp]:
  "combo (spawnCore W g) = combo g"
  "comboTier (spawnCore W g) = comboTier g"
  "missions (spawnCore W g) = missions g"
  "level (spawnCore W g) = level g"
  "state (spawnCore W g) = state g"
  "enemies (spawnCore W g) = enemies g"
  "enemyProjectiles (spawnCore W g) = enemyProjectiles g"
  "tookDamageThisLevel (spawnCore W g) = tookDamageThisLevel g"
  "score (spawnCore W g) = score g"
  "xp (spawnCore W g) = xp g"
  "snake (spawnCore W g) = snake g"
  by (simp_all add: spawnCore_def)

lemma advance_clocks_frame [simp]:
  "comboTier (advance_clocks dt sd g) = comboTier g"
  "missions (advance_clocks dt sd g) = missions g"
  "level (advance_clocks dt sd g) = level g"
  "state (advance_clocks dt sd g) = state g"
  "enemies (advance_clocks dt sd g) = enemies g"
  "enemyProjectiles (advance_clocks dt sd g) = enemyProjectiles g"
  "tookDamageThisLevel (advance_clocks dt sd g) = tookDamageThisLevel g"
  "score (advance_clocks dt sd g) = score g"
  "xp (advance_clocks dt sd g) = xp g"
  "snake (advance_clocks dt sd g) = snake g"
  "combo (advance_clocks dt sd g) = (if comboTimer g - dt \<le> 0 then lerp (combo g) 1 0.08 else combo g)"
  by (simp_all add: advance_clocks_def Let_def)

lemma run_spawns_frame [simp]:
  "combo (run_spawns W g) = combo g"
  "comboTier (run_spawns W g) = comboTier g"
  "missions (run_spawns W g) = missions g"
  "level (run_spawns W g) = level g"
  "state (run_spawns W g) = state g"
  "enemyProjectiles (run_spawns W g) = enemyProjectiles g"
  "tookDamageThisLevel (run_spawns W g) = tookDamageThisLevel g"
  "score (run_spawns W g) = score g"
  "xp (run_spawns W g) = xp g"
  "snake (run_spawns W g) = snake g"
  by (simp_all add: run_spawns_def Let_def)

lemma enemy_attack_frame [simp]:
  "combo (snd (enemy_attack h dt e g)) = combo g"
  "comboTier (snd (enemy_attack h dt e g)) = comboTier g"
  "missions (snd (enemy_attack h dt e g)) = missions g"
  "level (snd (enemy_attack h dt e g)) = level g"
  "state (snd (enemy_attack h dt e g)) = state g"
  "enemies (snd (enemy_attack h dt e g)) = enemies g"
  "tookDamageThisLevel (snd (enemy_attack h dt e g)) = tookDamageThisLevel g"
  "score (snd (enemy_attack h dt e g)) = score g"
  "xp (snd (enemy_attack h dt e g)) = xp g"
  "snake (snd (enemy_attack h dt e g)) = snake g"
  by (simp_all add: enemy_attack_def Let_def)

lemma Enemy_new_fields [simp]:
  "e_type (Enemy_new ty x y sc r) = ty" "e_alive (Enemy_new ty x y sc r)"
  "e_contactDamage (Enemy_new ty x y sc r) =
     of_int (round (base_contactDamage ty * (0.7 + sc * 0.4)))"
  by (simp_all add: Enemy_new_def)

lemma enemy_attack_enemy [simp]:
  "e_type (fst (enemy_attack h dt e g)) = e_type e"
  "e_alive (fst (enemy_attack h dt e g)) = e_alive e"
  "e_contactDamage (fst (enemy_attack h dt e g)) = e_contactDamage e"
  by (simp_all add: enemy_attack_def Let_def)

lemma enemy_steer_enemy [simp]:
  "e_type (enemy_steer h e) = e_type e"
  "e_alive (enemy_steer h e) = e_alive e"
  "e_contactDamage (enemy_steer h e) = e_contactDamage e"
  by (simp_all add: enemy_steer_def Let_def split: enemy_type.splits)

lemma enemy_move_enemy [simp]:
  "e_type (enemy_move W dt e) = e_type e"
  "e_alive (enemy_move W dt e) = e_alive e"
  "e_contactDamage (enemy_move W dt e) = e_contactDamage e"
  by (simp_all add: enemy_move_def Let_def)

lemma Enemy_update_enemy [simp]:
  "e_type (fst (Enemy_update W dt e g)) = e_type e"
  "e_alive (fst (Enemy_update W dt e g)) = e_alive e"
  "e_contactDamage (fst (Enemy_update W dt e g)) = e_contactDamage e"
  by (simp_all add: Enemy_update_def Let_def split_beta)

lemma enemy_attack_shots:
  assumes "\<forall>p \<in> set (enemyProjectiles g). 0 \<le> p_damage p"
  shows "\<forall>p \<in> set (enemyProjectiles (snd (enemy_attack h dt e g))). 0 \<le> p_damage p"
  using assms
  by (auto simp: enemy_attack_def Let_def Projectile_new_def boss_projectile_def)

lemma Enemy_update_frame [simp]:
  "combo (snd (Enemy_update W dt e g)) = combo g"
  "comboTier (snd (Enemy_update W dt e g)) = comboTier g"
  "missions (snd (Enemy_update W dt e g)) = missions g"
  "level (snd (Enemy_update W dt e g)) = level g"
  "state (snd (Enemy_update W dt e g)) = state g"
  "enemies (snd (Enemy_update W dt e g)) = enemies g"
  "tookDamageThisLevel (snd (Enemy_update W dt e g)) = tookDamageThisLevel g"
  "score (snd (Enemy_update W dt e g)) = score g"
  "xp (snd (Enemy_update W dt e g)) = xp g"
  "snake (snd (Enemy_update W dt e g)) = snake g"
  by (simp_all add: Enemy_update_def Let_def split_beta)

lemma Enemy_update_shots:
  assumes "\<forall>p \<in> set (enemyProjectiles g). 0 \<le> p_damage p"
  shows "\<forall>p \<in> set (enemyProjectiles (snd (Enemy_update W dt e g))). 0 \<le> p_damage p"
  using enemy_attack_shots [OF assms]
  by (simp add: Enemy_update_def Let_def split_beta)

lemma enemies_loop_frame [simp]:
  "combo (snd (enemies_loop W dt es g)) = combo g"
  "comboTier (snd (enemies_loop W dt es g)) = comboTier g"
  "missions (snd (enemies_loop W dt es g)) = missions g"
  "level (snd (enemies_loop W dt es g)) = level g"
  "state (snd (enemies_loop W dt es g)) = state g"
  "enemies (snd (enemies_loop W dt es g)) = enemies g"
  "tookDamageThisLevel (snd (enemies_loop W dt es g)) = tookDamageThisLevel g"
  "score (snd (enemies_loop W dt es g)) = score g"
  "xp (snd (enemies_loop W dt es g)) = xp g"
  "snake (snd (enemies_loop W dt es g)) = snake g"
  by (induction es arbitrary: g; simp add: split_beta)+

lemma enemies_loop_enemies:
  "map e_type (fst (enemies_loop W dt es g)) = map e_type es"
  "map e_alive (fst (enemies_loop W dt es g)) = map e_alive es"
  "map e_contactDamage (fst (enemies_loop W dt es g)) = map e_contactDamage es"
  by (induction es arbitrary: g; simp add: split_beta)+

lemma enemies_loop_shots:
  "\<forall>p \<in> set (enemyProjectiles g). 0 \<le> p_damage p \<Longrightarrow>
   \<forall>p \<in> set (enemyProjectiles (snd (enemies_loop W dt es g))). 0 \<le> p_damage p"
proof (induction es arbitrary: g)
  case Nil
  then show ?case by simp
next
  case (Cons e es)
  show ?case
    using Cons.IH [OF Enemy_update_shots [OF Cons.prems]] by (simp add: split_beta)
qed

lemma advance_entities_frame [simp]:
  "combo (advance_entities W dt sd g) = combo g"
  "comboTier (advance_entities W dt sd g) = comboTier g"
  "missions (advance_entities W dt sd g) = missions g"
  "level (advance_entities W dt sd g) = level g"
  "state (advance_entities W dt sd g) = state g"
  "tookDamageThisLevel (advance_entities W dt sd g) = tookDamageThisLevel g"
  "score (advance_entities W dt sd g) = score g"
  "xp (advance_entities W dt sd g) = xp g"
  "snake (advance_entities W dt sd g) = snake g"
  "enemies (advance_entities W dt sd g) = fst (enemies_loop W sd (enemies g) (g\<lparr>cores := map (Core_update dt) (cores g)\<rparr>))"
  "enemyProjectiles (advance_entities W dt sd g) = map (Projectile_update W sd) (enemyProjectiles (snd (enemies_loop W sd (enemies g) (g\<lparr>cores := map (Core_update dt) (cores g)\<rparr>))))"
  by (simp_all add: advance_entities_def Let_def split_beta)

lemma endFrame_frame [simp]:
  "combo (endFrame g) = combo g"
  "comboTier (endFrame g) = comboTier g"
  "missions (endFrame g) = missions g"
  "level (endFrame g) = level g"
  "state (endFrame g) = state g"
  "enemies (endFrame g) = enemies g"
  "enemyProjectiles (endFrame g) = enemyProjectiles g"
  "tookDamageThisLevel (endFrame g) = tookDamageThisLevel g"
  "score (endFrame g) = score g"
  "xp (endFrame g) = xp g"
  "snake (endFrame g) = snake g"
  by (simp_all add: endFrame_def)

lemma finish_tick_frame [simp]:
  "combo (finish_tick dt g) = combo g"
  "comboTier (finish_tick dt g) = comboTier g"
  "level (finish_tick dt g) = level g"
  "enemies (finish_tick dt g) = enemies g"
  "enemyProjectiles (finish_tick dt g) = enemyProjectiles g"
  "tookDamageThisLevel (finish_tick dt g) = tookDamageThisLevel g"
  "score (finish_tick dt g) = score g"
  "xp (finish_tick dt g) = xp g"
  "snake (finish_tick dt g) = snake g"
  "missions (finish_tick dt g) = MissionSystem_update dt (tookDamageThisLevel g) (comboTier g) (missions g)"
  "state (finish_tick dt g) = (if s_health (snake g) \<le> 0 then Gameover else state g)"
  by (simp_all add: finish_tick_def Let_def)

subsection \<open>Damage values stay non-negative\<close>

lemma spawn_contactDamage:
  "0 \<le> e_contactDamage (Enemy_new ty x y (1 + (real l - 1) * 0.16) r)"
proof -
  have b: "0 \<le> base_contactDamage ty" by (cases ty) simp_all
  have "(0 :: real) \<le> real l" by simp
  then have "0 \<le> 0.7 + (1 + (real l - 1) * 0.16) * (0.4 :: real)"
    by (simp add: field_simps)
  then have "0 \<le> base_contactDamage ty * (0.7 + (1 + (real l - 1) * 0.16) * 0.4)"
    using b by (rule mult_nonneg_nonneg [rotated])
  then have "round (0 :: real) \<le> round (base_contactDamage ty * (0.7 + (1 + (real l - 1) * 0.16) * 0.4))"
    by (rule round_mono)
  then show ?thesis by simp
qed

lemma spawnEnemy_damage_ok: "damage_ok g \<Longrightarrow> damage_ok (spawnEnemy W g)"
  using spawn_contactDamage by (simp add: damage_ok_def)

lemma damage_ok_cong:
  "enemies g' = enemies g \<Longrightarrow> enemyProjectiles g' = enemyProjectiles g \<Longrightarrow>
   damage_ok g' = damage_ok g"
  by (simp add: damage_ok_def)

lemma run_spawns_damage_ok:
  assumes "damage_ok g"
  shows "damage_ok (run_spawns W g)"
proof -
  let ?g' = "drawn 1 (g\<lparr>spawnTimer :=
      clamp (2.2 - real (level g) * 0.08) 0.45 2.2 * randRange (draw g 0) 0.75 1.25\<rparr>)"
  let ?g1 = "if spawnTimer g \<le> 0 then
      (if 6 \<le> level ?g' then spawnEnemy W (spawnEnemy W ?g') else spawnEnemy W ?g') else g"
  have "damage_ok ?g'" using assms by (simp add: damage_ok_def)
  then have 1: "damage_ok ?g1"
    using assms by (simp add: spawnEnemy_damage_ok)
  have 2: "damage_ok (spawnCore W (drawn 1 (?g1\<lparr>coreSpawnTimer := t\<rparr>)))" for t
    using 1 by (simp add: damage_ok_def)
  have "run_spawns W g =
    (if coreSpawnTimer ?g1 \<le> 0 \<and> length (cores ?g1) < 9 then
       spawnCore W (drawn 1 (?g1\<lparr>coreSpawnTimer := randRange (draw ?g1 0) 1.2 2.6\<rparr>))
     else ?g1)"
    by (simp only: run_spawns_def Let_def)
  then show ?thesis
    using 1 2 by (cases "coreSpawnTimer ?g1 \<le> 0 \<and> length (cores ?g1) < 9") simp_all
qed

lemma Projectile_update_damage [simp]:
  "p_damage (Projectile_update W dt p) = p_damage p"
  by (simp add: Projectile_update_def Let_def)

lemma advance_entities_damage_ok:
  assumes "damage_ok g"
  shows "damage_ok (advance_entities W dt sd g)"
proof -
  let ?g1 = "g\<lparr>cores := map (Core_update dt) (cores g)\<rparr>"
  have "\<forall>p \<in> set (enemyProjectiles ?g1). 0 \<le> p_damage p"
    using assms by (simp add: damage_ok_def)
  then have s: "\<forall>p \<in> set (enemyProjectiles (snd (enemies_loop W sd (enemies g) ?g1))).
      0 \<le> p_damage p"
    by (rule enemies_loop_shots)
  have e: "\<forall>e \<in> set (fst (enemies_loop W sd (enemies g) ?g1)). 0 \<le> e_contactDamage e"
  proof
    fix e assume "e \<in> set (fst (enemies_loop W sd (enemies g) ?g1))"
    then have "e_contactDamage e \<in> set (map e_contactDamage (fst (enemies_loop W sd (enemies g) ?g1)))"
      by simp
    then have "e_contactDamage e \<in> set (map e_contactDamage (enemies g))"
      by (simp only: enemies_loop_enemies)
    then show "0 \<le> e_contactDamage e"
      using assms by (auto simp: damage_ok_def)
  qed
  show ?thesis
    using s e by (simp add: damage_ok_def)
qed

lemma before_collisions_damage_ok:
  assumes "damage_ok g"
  shows "damage_ok (advance_entities W dt sd
           (run_spawns W (Snake_update W dt (advance_clocks dt sd g))))"
proof -
  have "damage_ok (Snake_update W dt (advance_clocks dt sd g))"
    using assms by (simp add: damage_ok_def)
  then show ?thesis
    by (intro advance_entities_damage_ok run_spawns_damage_ok)
qed

lemma update_running:
  "state g = Running \<Longrightarrow>
   update W dt g =
     finish_tick dt (handleCollisions dt (advance_entities W dt (world_delta dt g)
       (run_spawns W (Snake_update W dt (advance_clocks dt (world_delta dt g) g)))))"
  by (simp add: update_def Let_def)

lemma update_idle: "state g \<noteq> Running \<Longrightarrow> update W dt g = endFrame g"
  by (simp add: update_def)

lemma res_ok_cong:
  "s_health s' = s_health s \<Longrightarrow> s_maxHealth s' = s_maxHealth s \<Longrightarrow>
   s_shield s' = s_shield s \<Longrightarrow> res_ok s' = res_ok s"
  by (simp add: res_ok_def)

lemma before_collisions_res_ok:
  "res_ok (snake (advance_entities W dt sd
           (run_spawns W (Snake_update W dt (advance_clocks dt sd g))))) = res_ok (snake g)"
  by (rule res_ok_cong) simp_all

lemma update_res_ok:
  assumes "res_ok (snake g)" "damage_ok g" "0 \<le> dt"
  shows "res_ok (snake (update W dt g))"
proof (cases "state g = Running")
  case True
  let ?g4 = "advance_entities W dt (world_delta dt g)
       (run_spawns W (Snake_update W dt (advance_clocks dt (world_delta dt g) g)))"
  have "res_ok (snake ?g4)" using assms(1) by (simp only: before_collisions_res_ok)
  moreover have "damage_ok ?g4" using assms(2) by (rule before_collisions_damage_ok)
  ultimately have "res_ok (snake (handleCollisions dt ?g4))"
    using assms(3) by (rule handleCollisions_res_ok)
  then show ?thesis by (simp add: update_running [OF True])
next
  case False
  then show ?thesis using assms(1) by (simp add: update_idle)
qed

lemma update_gameover:
  "state g = Running \<Longrightarrow> s_health (snake (update W dt g)) \<le> 0 \<Longrightarrow>
   state (update W dt g) = Gameover"
  by (simp add: update_running)

subsection \<open>The player's update, field by field\<close>

lemma hypot_axis [simp]: "hypot 1 0 = 1" "hypot_or_1 1 0 = 1"
  by (simp_all add: hypot_def hypot_or_1_def)

lemma setAimFromInput_fields [simp]:
  "s_head (setAimFromInput g s) = s_head s" "s_dir (setAimFromInput g s) = s_dir s"
  "s_invulnTimer (setAimFromInput g s) = s_invulnTimer s"
  "s_dashTime (setAimFromInput g s) = s_dashTime s"
  "s_temporalTime (setAimFromInput g s) = s_temporalTime s"
  "s_temporalCooldown (setAimFromInput g s) = s_temporalCooldown s"
  "s_dashCooldown (setAimFromInput g s) = s_dashCooldown s"
  "s_length (setAimFromInput g s) = s_length s"
  "s_baseSpeed (setAimFromInput g s) = s_baseSpeed s"
  "s_turnRate (setAimFromInput g s) = s_turnRate s"
  by (simp_all add: setAimFromInput_def Let_def)

lemma setAimFromInput_idle:
  "keys g = {} \<Longrightarrow> setAimFromInput g s = s"
  by (simp add: setAimFromInput_def isDown_def)

lemma snake_turn_fields [simp]:
  "s_head (snake_turn dt s) = s_head s"
  "s_invulnTimer (snake_turn dt s) = s_invulnTimer s"
  "s_dashTime (snake_turn dt s) = s_dashTime s"
  "s_temporalTime (snake_turn dt s) = s_temporalTime s"
  "s_temporalCooldown (snake_turn dt s) = s_temporalCooldown s"
  "s_dashCooldown (snake_turn dt s) = s_dashCooldown s"
  "s_length (snake_turn dt s) = s_length s"
  "s_baseSpeed (snake_turn dt s) = s_baseSpeed s"
  by (simp_all add: snake_turn_def Let_def)

lemma snake_turn_straight:
  "s_dir s = (1, 0) \<Longrightarrow> s_targetDir s = (1, 0) \<Longrightarrow> s_dir (snake_turn dt s) = (1, 0)"
  by (simp add: snake_turn_def Let_def lerp_def)

lemma snake_timers_fields [simp]:
  "s_head (snake_timers dt s) = s_head s" "s_dir (snake_timers dt s) = s_dir s"
  "s_invulnTimer (snake_timers dt s) = s_invulnTimer s - dt"
  "s_dashCooldown (snake_timers dt s) = s_dashCooldown s - dt"
  "s_temporalCooldown (snake_timers dt s) = s_temporalCooldown s - dt"
  "s_dashTime (snake_timers dt s) =
     (if 0 < s_dashTime s then s_dashTime s - dt else s_dashTime s)"
  "s_temporalTime (snake_timers dt s) =
     (if 0 < s_temporalTime s then s_temporalTime s - dt else s_temporalTime s)"
  "s_length (snake_timers dt s) = s_length s"
  "s_baseSpeed (snake_timers dt s) = s_baseSpeed s"
  by (simp_all add: snake_timers_def Let_def)

lemma snake_move_fields [simp]:
  "s_dir (snake_move W dt s) = s_dir s"
  "s_invulnTimer (snake_move W dt s) = s_invulnTimer s"
  "s_dashTime (snake_move W dt s) = s_dashTime s"
  "s_temporalTime (snake_move W dt s) = s_temporalTime s"
  "s_length (snake_move W dt s) = s_length s"
  "s_baseSpeed (snake_move W dt s) = s_baseSpeed s"
  "s_speed (snake_move W dt s) = snake_speed s"
  by (simp_all add: snake_move_def Let_def)

lemma snake_move_inside:
  assumes "0 \<le> fst (s_head s) + fst (s_dir s) * snake_speed s * dt"
    "fst (s_head s) + fst (s_dir s) * snake_speed s * dt \<le> width W"
    "0 \<le> snd (s_head s) + snd (s_dir s) * snake_speed s * dt"
    "snd (s_head s) + snd (s_dir s) * snake_speed s * dt \<le> height W"
  shows "s_head (snake_move W dt s) =
     (fst (s_head s) + fst (s_dir s) * snake_speed s * dt,
      snd (s_head s) + snd (s_dir s) * snake_speed s * dt)"
  using assms by (simp add: snake_move_def Let_def)

lemma snake_trail_fields [simp]:
  "s_head (snake_trail s) = s_head s" "s_dir (snake_trail s) = s_dir s"
  "s_invulnTimer (snake_trail s) = s_invulnTimer s"
  "s_dashTime (snake_trail s) = s_dashTime s"
  "s_temporalTime (snake_trail s) = s_temporalTime s"
  "s_length (snake_trail s) = s_length s"
  "s_baseSpeed (snake_trail s) = s_baseSpeed s"
  "s_speed (snake_trail s) = s_speed s"
  by (simp_all add: snake_trail_def Let_def)

lemma no_press:
  assumes "justPressed g = {}"
  shows "snake_dash g = g" "snake_temporal g = g" "snake_mine g = g" "snake_fire g = g"
  using assms
  by (simp_all add: snake_dash_def snake_temporal_def snake_mine_def snake_fire_def
      consume_fire_def consume_def)

lemma Snake_update_no_press:
  assumes "justPressed g = {}"
  shows "Snake_update W dt g =
     trail (fst (s_head (snake_move W dt (snake_timers dt (snake_turn dt
                (setAimFromInput g (snake g)))))))
           (snd (s_head (snake_move W dt (snake_timers dt (snake_turn dt
                (setAimFromInput g (snake g)))))))
       (g\<lparr>snake := snake_trail (snake_move W dt (snake_timers dt (snake_turn dt
                (setAimFromInput g (snake g)))))\<rparr>)"
proof -
  let ?g1 = "g\<lparr>snake := snake_timers dt (snake_turn dt (setAimFromInput g (snake g)))\<rparr>"
  have j: "justPressed ?g1 = {}" using assms by simp
  have "snake_fire (snake_mine (snake_temporal (snake_dash ?g1))) = ?g1"
    by (simp only: no_press [OF j])
  then show ?thesis
    by (simp add: Snake_update_def Let_def)
qed

subsection \<open>A tick without spawns and without scoring\<close>

lemma run_spawns_idle:
  "0 < spawnTimer g \<Longrightarrow> 0 < coreSpawnTimer g \<Longrightarrow> run_spawns W g = g"
  by (simp add: run_spawns_def)

lemma advance_entities_no_enemies:
  "enemies g = [] \<Longrightarrow>
   advance_entities W dt sd g =
     g\<lparr>cores := map (Core_update dt) (cores g),
       enemies := [],
       projectiles := map (Projectile_update W dt) (projectiles g),
       enemyProjectiles := map (Projectile_update W sd) (enemyProjectiles g),
       mines := map (Mine_update dt) (mines g)\<rparr>"
  by (simp add: advance_entities_def Let_def)

lemma scoring_passes_nothing:
  "cores g = [] \<Longrightarrow> projectiles g = [] \<Longrightarrow> mines g = [] \<Longrightarrow>
   scoring_passes g = ([], [], enemies g, g)"
  by (simp add: scoring_passes_def collect_cores_def Let_def)

lemma handleCollisions_calm:
  assumes "cores g = []" "projectiles g = []" "mines g = []" "enemies g = []"
  shows "handleCollisions dt g =
     (snd (shots_loop (enemyProjectiles g) g))
       \<lparr>projectiles := [], enemyProjectiles := filter p_alive (fst (shots_loop (enemyProjectiles g) g)),
        mines := [], enemies := []\<rparr>"
  using assms
  by (simp add: handleCollisions_def scoring_passes_nothing damage_passes_def Let_def split_beta)

lemma trail_fields [simp]:
  "cores (trail x y g) = cores g" "projectiles (trail x y g) = projectiles g"
  "mines (trail x y g) = mines g" "spawnTimer (trail x y g) = spawnTimer g"
  "coreSpawnTimer (trail x y g) = coreSpawnTimer g" "comboTimer (trail x y g) = comboTimer g"
  by (simp_all add: trail_def)

lemma g_low_fields:
  "state g_low = Running" "keys g_low = {}" "justPressed g_low = {}"
  "snake g_low = (Snake_new 480 270)\<lparr>s_health := 5\<rparr>"
  "enemies g_low = []" "enemyProjectiles g_low = [p_closing]" "projectiles g_low = []"
  "mines g_low = []" "cores g_low = []" "spawnTimer g_low = 10" "coreSpawnTimer g_low = 1.6"
  "comboTimer g_low = 0" "combo g_low = 1" "level g_low = 1"
  by (simp_all add: g_low_def g_start_fields)

lemma Snake_new_fields [simp]:
  "s_head (Snake_new x y) = (x, y)" "s_dir (Snake_new x y) = (1, 0)"
  "s_targetDir (Snake_new x y) = (1, 0)" "s_health (Snake_new x y) = 100"
  "s_maxHealth (Snake_new x y) = 100" "s_shield (Snake_new x y) = 0"
  "s_invulnTimer (Snake_new x y) = 0" "s_dashTime (Snake_new x y) = 0"
  "s_temporalTime (Snake_new x y) = 0" "s_length (Snake_new x y) = 18"
  "s_baseSpeed (Snake_new x y) = 170" "s_temporalCooldown (Snake_new x y) = 0"
  "s_dashCooldown (Snake_new x y) = 0"
  by (simp_all add: Snake_new_def)

lemma g_low_tick:
  "s_health (snake (update W0 0.05 g_low)) = - 7"
  "state (update W0 0.05 g_low) = Gameover"
proof -
  define d :: real where "d = 1 / 20"
  have d: "0 < d" "d < 1.6" "d < 10" by (simp_all add: d_def)
  let ?g1 = "advance_clocks d d g_low"
  let ?s = "snake_timers d (snake_turn d (snake g_low))"
  have wd: "world_delta d g_low = d"
    by (simp add: world_delta_def g_low_fields)
  have g1: "justPressed ?g1 = {}" "keys ?g1 = {}" "snake ?g1 = snake g_low"
    "spawnTimer ?g1 = 10 - d" "coreSpawnTimer ?g1 = 1.6 - d" "enemies ?g1 = []"
    "cores ?g1 = []" "projectiles ?g1 = []" "mines ?g1 = []"
    "enemyProjectiles ?g1 = [p_closing]"
    by (simp_all add: advance_clocks_def Let_def g_low_fields)
  have s0: "s_head (snake g_low) = (480, 270)"
    by (simp add: g_low_fields)
  have dir: "s_dir (snake_turn t (snake g_low)) = (1, 0)" for t
    by (simp add: snake_turn_straight g_low_fields)
  have sp: "snake_speed (snake_timers t (snake_turn t (snake g_low))) = 170" for t
    by (simp add: snake_speed_def g_low_fields)
  have hd: "s_head (snake_move W0 d ?s) = (488.5, 270)"
    by (subst snake_move_inside) (simp_all add: dir sp s0 W0_def d_def)
  let ?g2 = "Snake_update W0 d ?g1"
  have g2: "s_head (snake ?g2) = (488.5, 270)" "s_invulnTimer (snake ?g2) = - d"
    "s_health (snake ?g2) = 5" "s_shield (snake ?g2) = 0"
    "spawnTimer ?g2 = 10 - d" "coreSpawnTimer ?g2 = 1.6 - d" "enemies ?g2 = []"
    "cores ?g2 = []" "projectiles ?g2 = []" "mines ?g2 = []"
    "enemyProjectiles ?g2 = [p_closing]"
    by (simp_all add: Snake_update_no_press [OF g1(1)] setAimFromInput_idle [OF g1(2)] g1 hd)
      (simp_all add: g_low_fields)
  have g3: "run_spawns W0 ?g2 = ?g2"
    using d by (intro run_spawns_idle) (simp_all add: g2)
  let ?g4 = "advance_entities W0 d d ?g2"
  let ?p = "p_closing\<lparr>p_ttl := 2.6 - d, p_x := 488.5\<rparr>"
  have p: "Projectile_update W0 d p_closing = ?p"
    by (simp add: Projectile_update_def p_closing_def Projectile_new_def Let_def W0_def d_def)
  have g4: "cores ?g4 = []" "projectiles ?g4 = []" "mines ?g4 = []" "enemies ?g4 = []"
    "enemyProjectiles ?g4 = [?p]" "snake ?g4 = snake ?g2"
    by (simp_all only: advance_entities_no_enemies [OF g2(7)])
      (simp_all add: g2 p g_low_fields(5-9))
  have hit: "s_health (snake (snd (shot_step ?p ?g4))) = - 7"
    using d(1)
    by (simp add: shot_step_def g4 g2 p_closing_def Projectile_new_def distance_def
        applyDamage_def Let_def g_low_fields)
  have "snake (handleCollisions d ?g4) = snake (snd (shots_loop [?p] ?g4))"
    by (simp only: handleCollisions_calm [OF g4(1-4)] g4(5)) simp
  also have "\<dots> = snake (snd (shot_step ?p ?g4))"
    by (simp only: shots_loop.simps Let_def split_beta snd_conv)
  finally have "s_health (snake (handleCollisions d ?g4)) = - 7"
    by (simp only: hit)
  then have "s_health (snake (update W0 d g_low)) = - 7"
    by (simp add: update_running g_low_fields wd g3)
  then show h: "s_health (snake (update W0 0.05 g_low)) = - 7"
    by (simp add: d_def)
  show "state (update W0 0.05 g_low) = Gameover"
    using h by (intro update_gameover) (simp_all add: g_low_fields)
qed

subsection \<open>Health and shield bounds across a tick\<close>

text \<open>
  C1 (amended). A tick with a frame delta \<open>dt \<ge> 0\<close>, from a state in which
  \<open>0 \<le> health \<le> maxHealth\<close> and \<open>0 \<le> shield \<le> 120\<close> hold and no enemy and no enemy
  projectile carries a negative damage value, ends in a state in which
  \<open>health \<le> maxHealth\<close> and \<open>0 \<le> shield \<le> 120\<close> hold. The lower bound of health is not
  kept: \<^verbatim>\<open>applyDamage\<close> subtracts the part of a hit that the shield did not absorb
  without clamping, and the tick that leaves health at or below 0 ends the match (the
  state becomes game over).
\<close>

theorem tick_resource_bounds:
  "0 \<le> s_health (snake g) \<and> s_health (snake g) \<le> s_maxHealth (snake g) \<and>
   0 \<le> s_shield (snake g) \<and> s_shield (snake g) \<le> 120 \<and> damage_ok g \<and> 0 \<le> dt \<longrightarrow>
     s_health (snake (update W dt g)) \<le> s_maxHealth (snake (update W dt g)) \<and>
     0 \<le> s_shield (snake (update W dt g)) \<and> s_shield (snake (update W dt g)) \<le> 120 \<and>
     (state g = Running \<and> s_health (snake (update W dt g)) \<le> 0 \<longrightarrow>
        state (update W dt g) = Gameover)"
proof (intro impI)
  assume h: "0 \<le> s_health (snake g) \<and> s_health (snake g) \<le> s_maxHealth (snake g) \<and>
   0 \<le> s_shield (snake g) \<and> s_shield (snake g) \<le> 120 \<and> damage_ok g \<and> 0 \<le> dt"
  then have "res_ok (snake g)" by (simp add: res_ok_def)
  then have "res_ok (snake (update W dt g))"
    using h by (intro update_res_ok) simp_all
  then show "s_health (snake (update W dt g)) \<le> s_maxHealth (snake (update W dt g)) \<and>
     0 \<le> s_shield (snake (update W dt g)) \<and> s_shield (snake (update W dt g)) \<le> 120 \<and>
     (state g = Running \<and> s_health (snake (update W dt g)) \<le> 0 \<longrightarrow>
        state (update W dt g) = Gameover)"
    using update_gameover [of g W dt] by (simp add: res_ok_def)
qed

lemma g_low_damage_ok: "damage_ok g_low"
  by (simp add: damage_ok_def g_low_fields p_closing_def Projectile_new_def)

theorem tick_resource_bounds_witness:
  "0 \<le> s_health (snake g_low) \<and> s_health (snake g_low) \<le> s_maxHealth (snake g_low) \<and>
   0 \<le> s_shield (snake g_low) \<and> s_shield (snake g_low) \<le> 120 \<and> damage_ok g_low \<and>
   (0 :: real) \<le> 0.05 \<and>
   s_health (snake (update W0 0.05 g_low)) \<le> s_maxHealth (snake (update W0 0.05 g_low)) \<and>
   0 \<le> s_shield (snake (update W0 0.05 g_low)) \<and>
   s_shield (snake (update W0 0.05 g_low)) \<le> 120 \<and>
   state g_low = Running \<and> s_health (snake (update W0 0.05 g_low)) \<le> 0 \<and>
   state (update W0 0.05 g_low) = Gameover"
  using tick_resource_bounds [of g_low "0.05" W0] g_low_damage_ok g_low_tick
  by (simp add: g_low_fields)

text \<open>
  The claim as stated fails: the started match with 5 points of health and a sniper
  projectile (damage 12) that reaches the player's head in the tick satisfies all four
  bounds, and after the tick health is \<open>-7\<close>.
\<close>

theorem tick_health_below_zero:
  "0 \<le> s_health (snake g_low) \<and> s_health (snake g_low) \<le> s_maxHealth (snake g_low) \<and>
   0 \<le> s_shield (snake g_low) \<and> s_shield (snake g_low) \<le> 120 \<and>
   state g_low = Running \<and>
   s_health (snake (update W0 0.05 g_low)) = - 7 \<and>
   \<not> 0 \<le> s_health (snake (update W0 0.05 g_low))"
  using g_low_tick by (simp add: g_low_fields)

subsection \<open>The invariant of the reachable states\<close>

lemma lerp_to_1:
  assumes "1 \<le> c"
  shows "1 \<le> lerp c 1 0.08" "lerp c 1 0.08 \<le> c"
  using assms by (simp_all add: lerp_def field_simps)

lemma advance_clocks_combo_ok:
  assumes "combo_ok g"
  shows "combo_ok (advance_clocks dt sd g)"
proof -
  have c: "1 \<le> combo g" "combo g \<le> 6" "\<lfloor>combo g\<rfloor> \<le> comboTier g"
    using assms by (simp_all add: combo_ok_def)
  have "\<lfloor>lerp (combo g) 1 0.08\<rfloor> \<le> \<lfloor>combo g\<rfloor>"
    by (rule floor_mono) (rule lerp_to_1 [OF c(1)])
  then show ?thesis
    using assms lerp_to_1 [OF c(1)] by (simp add: combo_ok_fields)
qed

lemma combo_ok_cong:
  "combo g' = combo g \<Longrightarrow> comboTier g' = comboTier g \<Longrightarrow> combo_ok g' = combo_ok g"
  by (simp add: combo_ok_def)

lemma before_collisions_combo_ok:
  assumes "combo_ok g"
  shows "combo_ok (advance_entities W dt sd
           (run_spawns W (Snake_update W dt (advance_clocks dt sd g))))"
proof -
  have "combo_ok (advance_entities W dt sd
           (run_spawns W (Snake_update W dt (advance_clocks dt sd g)))) =
        combo_ok (advance_clocks dt sd g)"
    by (rule combo_ok_cong) simp_all
  then show ?thesis using advance_clocks_combo_ok [OF assms] by simp
qed

lemma update_combo_ok:
  assumes "combo_ok g"
  shows "combo_ok (update W dt g)"
proof (cases "state g = Running")
  case True
  have "combo_ok (finish_tick dt g') = combo_ok g'" for g'
    by (rule combo_ok_cong) simp_all
  then show ?thesis
    using handleCollisions_combo_ok [OF before_collisions_combo_ok [OF assms]]
    by (simp add: update_running [OF True])
next
  case False
  have "combo_ok (endFrame g) = combo_ok g" by (rule combo_ok_cong) simp_all
  then show ?thesis using assms False by (simp add: update_idle)
qed

lemma mission_tick_peak_ok:
  assumes "peak_ok m" "tier \<le> 6"
  shows "peak_ok (mission_tick dt td tier m)"
proof (cases "ms_type m = ComboPeak")
  case True
  then have m: "ms_target m = 10" "ms_timer m = None" "ms_progress m \<le> 6"
    "\<not> ms_done m" "\<not> ms_failed m"
    using assms(1) by (simp_all add: peak_ok_def)
  have u: "Mission_update dt m = m" by (simp add: Mission_update_def m)
  have "real_of_int tier \<le> 6" using assms(2) by simp
  then show ?thesis
    using True m by (simp add: mission_tick_def u Let_def peak_ok_def)
next
  case False
  have "ms_type (Mission_update dt m) = ms_type m"
    by (simp add: Mission_update_def Let_def split: option.splits)
  then have "ms_type (mission_tick dt td tier m) = ms_type m"
    using False by (simp add: mission_tick_def Let_def)
  then show ?thesis using False by (simp add: peak_ok_def)
qed

lemma finish_tick_missions_ok:
  assumes "missions_ok g" "comboTier g \<le> 6"
  shows "missions_ok (finish_tick dt g)"
  using assms by (simp add: missions_ok_def MissionSystem_update_def mission_tick_peak_ok)

lemma missions_ok_cong: "missions g' = missions g \<Longrightarrow> missions_ok g' = missions_ok g"
  by (simp add: missions_ok_def)

lemma update_missions_ok:
  assumes "missions_ok g" "combo_ok g"
  shows "missions_ok (update W dt g)"
proof (cases "state g = Running")
  case True
  let ?g4 = "advance_entities W dt (world_delta dt g)
       (run_spawns W (Snake_update W dt (advance_clocks dt (world_delta dt g) g)))"
  have "missions_ok ?g4 = missions_ok g" by (rule missions_ok_cong) simp
  then have 1: "missions_ok (handleCollisions dt ?g4)"
    using assms(1) handleCollisions_missions_ok by simp
  have "combo_ok (handleCollisions dt ?g4)"
    by (intro handleCollisions_combo_ok before_collisions_combo_ok assms(2))
  then have 2: "comboTier (handleCollisions dt ?g4) \<le> 6" by (simp add: combo_ok_def)
  show ?thesis
    using finish_tick_missions_ok [OF 1 2] by (simp add: update_running [OF True])
next
  case False
  have "missions_ok (endFrame g) = missions_ok g" by (rule missions_ok_cong) simp
  then show ?thesis using assms False by (simp add: update_idle)
qed

lemma rolled_type_not_boss [simp]: "rolled_type r \<noteq> Boss"
  by (simp add: rolled_type_def)

lemma bosses_append [simp]: "bosses (es @ es') = bosses es + bosses es'"
  by (simp add: bosses_def)

lemma bosses_single [simp]: "bosses [e] = (if e_type e = Boss then 1 else 0)"
  by (simp add: bosses_def)

lemma bosses_0: "bosses es = 0 \<longleftrightarrow> \<not> (\<exists>e \<in> set es. e_type e = Boss)"
  by (auto simp: bosses_def filter_empty_conv)

lemma spawn_type_boss:
  "spawn_type g = Boss \<longleftrightarrow> level g mod 4 = 0 \<and> bosses (enemies g) = 0"
  by (simp add: spawn_type_def bosses_0)

lemma spawnEnemy_enemies_ok:
  assumes "enemies_ok g"
  shows "enemies_ok (spawnEnemy W g)"
proof -
  have a: "\<forall>e \<in> set (enemies g). e_alive e" and b: "bosses (enemies g) \<le> 1"
    using assms by (simp_all add: enemies_ok_def)
  have n: "bosses (enemies (spawnEnemy W g)) =
      bosses (enemies g) + (if spawn_type g = Boss then 1 else 0)"
    by simp
  have "bosses (enemies (spawnEnemy W g)) \<le> 1"
  proof (cases "spawn_type g = Boss")
    case True
    then have "bosses (enemies g) = 0" by (simp only: spawn_type_boss)
    then show ?thesis using True by (simp only: n) simp
  next
    case False
    then show ?thesis using b by (simp only: n) simp
  qed
  moreover have "\<forall>e \<in> set (enemies (spawnEnemy W g)). e_alive e"
    using a by simp
  ultimately show ?thesis by (simp only: enemies_ok_def)
qed

lemma enemies_ok_cong: "enemies g' = enemies g \<Longrightarrow> enemies_ok g' = enemies_ok g"
  by (simp add: enemies_ok_def)

lemma run_spawns_enemies_ok:
  assumes "enemies_ok g"
  shows "enemies_ok (run_spawns W g)"
proof -
  let ?g' = "drawn 1 (g\<lparr>spawnTimer :=
      clamp (2.2 - real (level g) * 0.08) 0.45 2.2 * randRange (draw g 0) 0.75 1.25\<rparr>)"
  let ?g1 = "if spawnTimer g \<le> 0 then
      (if 6 \<le> level ?g' then spawnEnemy W (spawnEnemy W ?g') else spawnEnemy W ?g') else g"
  have "enemies_ok ?g'" using assms by (simp add: enemies_ok_def)
  then have 1: "enemies_ok ?g1"
    using assms by (simp add: spawnEnemy_enemies_ok)
  have 2: "enemies_ok (spawnCore W (drawn 1 (?g1\<lparr>coreSpawnTimer := t\<rparr>)))" for t
    using 1 by (simp add: enemies_ok_def)
  have "run_spawns W g =
    (if coreSpawnTimer ?g1 \<le> 0 \<and> length (cores ?g1) < 9 then
       spawnCore W (drawn 1 (?g1\<lparr>coreSpawnTimer := randRange (draw ?g1 0) 1.2 2.6\<rparr>))
     else ?g1)"
    by (simp only: run_spawns_def Let_def)
  then show ?thesis
    using 1 2 by (cases "coreSpawnTimer ?g1 \<le> 0 \<and> length (cores ?g1) < 9") simp_all
qed

lemma bosses_map_type:
  assumes "map e_type es' = map e_type es"
  shows "bosses es' = bosses es"
proof -
  have "length es' = length es" using assms by (rule map_eq_imp_length_eq)
  then show ?thesis
    using assms by (induction es' es rule: list_induct2) (simp_all add: bosses_def)
qed

lemma all_alive_map:
  assumes "map e_alive es' = map e_alive es"
  shows "(\<forall>e \<in> set es'. e_alive e) = (\<forall>e \<in> set es. e_alive e)"
proof -
  have "length es' = length es" using assms by (rule map_eq_imp_length_eq)
  then show ?thesis
    using assms by (induction es' es rule: list_induct2) simp_all
qed

lemma advance_entities_enemies_ok:
  assumes "enemies_ok g"
  shows "enemies_ok (advance_entities W dt sd g)"
proof -
  let ?es = "fst (enemies_loop W sd (enemies g) (g\<lparr>cores := map (Core_update dt) (cores g)\<rparr>))"
  have "bosses ?es = bosses (enemies g)"
    by (rule bosses_map_type) (rule enemies_loop_enemies)
  moreover have "(\<forall>e \<in> set ?es. e_alive e) = (\<forall>e \<in> set (enemies g). e_alive e)"
    by (rule all_alive_map) (rule enemies_loop_enemies)
  ultimately show ?thesis
    using assms by (simp add: enemies_ok_def)
qed

lemma handleCollisions_enemies_ok:
  assumes "enemies_ok g"
  shows "enemies_ok (handleCollisions dt g)"
proof -
  have "bosses (enemies (handleCollisions dt g)) \<le> bosses (enemies g)"
    and "\<forall>e \<in> set (enemies (handleCollisions dt g)). e_alive e"
    using handleCollisions_enemies [of dt g] by blast+
  then show ?thesis
    using assms unfolding enemies_ok_def by linarith
qed

lemma update_enemies_ok:
  assumes "enemies_ok g"
  shows "enemies_ok (update W dt g)"
proof (cases "state g = Running")
  case True
  have 0: "enemies_ok (Snake_update W dt (advance_clocks dt (world_delta dt g) g)) = enemies_ok g"
    by (rule enemies_ok_cong) simp
  have 1: "enemies_ok (finish_tick dt g') = enemies_ok g'" for g'
    by (rule enemies_ok_cong) simp
  show ?thesis
    using assms 0
    by (simp add: update_running [OF True] 1 handleCollisions_enemies_ok
        advance_entities_enemies_ok run_spawns_enemies_ok)
next
  case False
  have "enemies_ok (endFrame g) = enemies_ok g" by (rule enemies_ok_cong) simp
  then show ?thesis using assms False by (simp add: update_idle)
qed

lemma shot_step_damage [simp]: "p_damage (fst (shot_step p g)) = p_damage p"
  by (simp add: shot_step_def split_beta Let_def)

lemma shots_loop_damage: "map p_damage (fst (shots_loop ps g)) = map p_damage ps"
  by (induction ps arbitrary: g) (simp_all add: split_beta)

lemma shots_loop_nonneg:
  assumes "\<forall>p \<in> set ps. 0 \<le> p_damage p"
  shows "\<forall>p \<in> set (fst (shots_loop ps g)). 0 \<le> p_damage p"
proof
  fix p assume "p \<in> set (fst (shots_loop ps g))"
  then have "p_damage p \<in> set (map p_damage (fst (shots_loop ps g)))" by simp
  then have "p_damage p \<in> set (map p_damage ps)" by (simp only: shots_loop_damage)
  then show "0 \<le> p_damage p" using assms by auto
qed

lemma handleCollisions_damage_ok:
  assumes "damage_ok g"
  shows "damage_ok (handleCollisions dt g)"
proof -
  let ?g3 = "snd (snd (snd (scoring_passes g)))"
  let ?es = "fst (snd (snd (scoring_passes g)))"
  have e: "\<forall>e \<in> set (enemies (handleCollisions dt g)). 0 \<le> e_contactDamage e"
    using handleCollisions_enemies [of dt g] assms by (simp add: damage_ok_def)
  have "enemyProjectiles (contact_loop dt ?es ?g3) = enemyProjectiles g"
    using scoring_passes_untouched [of g] by simp
  then have "\<forall>p \<in> set (enemyProjectiles (contact_loop dt ?es ?g3)). 0 \<le> p_damage p"
    using assms by (simp add: damage_ok_def)
  then have "\<forall>p \<in> set (fst (damage_passes dt ?es ?g3)). 0 \<le> p_damage p"
    unfolding damage_passes_def Let_def by (rule shots_loop_nonneg)
  then have p: "\<forall>p \<in> set (enemyProjectiles (handleCollisions dt g)). 0 \<le> p_damage p"
    by (simp add: handleCollisions_fields)
  show ?thesis using e p by (simp add: damage_ok_def)
qed

lemma update_damage_ok:
  assumes "damage_ok g"
  shows "damage_ok (update W dt g)"
proof (cases "state g = Running")
  case True
  have 1: "damage_ok (finish_tick dt g') = damage_ok g'" for g'
    by (rule damage_ok_cong) simp_all
  show ?thesis
    using handleCollisions_damage_ok [OF before_collisions_damage_ok [OF assms]]
    by (simp add: update_running [OF True] 1)
next
  case False
  have "damage_ok (endFrame g) = damage_ok g" by (rule damage_ok_cong) simp_all
  then show ?thesis using assms False by (simp add: update_idle)
qed

lemma update_inv:
  assumes "game_inv g" "0 \<le> dt"
  shows "game_inv (update W dt g)"
  using assms
  by (simp add: game_inv_def update_combo_ok update_missions_ok update_enemies_ok
      update_damage_ok update_res_ok)

lemma reset_inv: "game_inv (reset W g)"
proof -
  have "set (missions (reset W g)) \<subseteq> set pool"
    unfolding reset_def by (rule startLevel_missions)
  then have "missions_ok (reset W g)"
    using pool_peak_ok by (auto simp: missions_ok_def)
  then show ?thesis
    by (simp add: game_inv_def)
      (simp add: reset_def combo_ok_def enemies_ok_def damage_ok_def res_ok_def bosses_def)
qed

lemma game_inv_cong:
  assumes "combo g' = combo g" "comboTier g' = comboTier g" "missions g' = missions g"
    "enemies g' = enemies g" "enemyProjectiles g' = enemyProjectiles g" "snake g' = snake g"
  shows "game_inv g' = game_inv g"
  using assms
  by (simp add: game_inv_def combo_ok_def missions_ok_def enemies_ok_def damage_ok_def)

lemma reachable_inv: "reachable W g \<Longrightarrow> game_inv g"
proof (induction rule: reachable.induct)
  case (r_new r so)
  show ?case unfolding Game_new_def by (rule reset_inv)
next
  case (r_start g)
  have "game_inv (startGame W g) = game_inv (reset W g)"
    by (rule game_inv_cong) (simp_all add: startGame_def)
  then show ?case by (simp add: reset_inv)
next
  case (r_pause g)
  have "game_inv (togglePause g) = game_inv g"
    by (rule game_inv_cong) (simp_all add: togglePause_def)
  then show ?case using r_pause.IH by simp
next
  case (r_keydown g k repeat)
  have "game_inv (keydown k repeat g) = game_inv g"
    by (rule game_inv_cong) (simp_all add: keydown_def togglePause_def Let_def)
  then show ?case using r_keydown.IH by simp
next
  case (r_keyup g k)
  have "game_inv (keyup k g) = game_inv g"
    by (rule game_inv_cong) (simp_all add: keyup_def)
  then show ?case using r_keyup.IH by simp
next
  case (r_frame g dt)
  then show ?case by (simp add: update_inv)
qed

subsection \<open>A tick in which nothing collides\<close>

lemma burst_fields2 [simp]:
  "spawnTimer (burst x y n sp sz g) = spawnTimer g"
  "coreSpawnTimer (burst x y n sp sz g) = coreSpawnTimer g"
  "waveTime (burst x y n sp sz g) = waveTime g"
  "keys (burst x y n sp sz g) = keys g"
  "justPressed (burst x y n sp sz g) = justPressed g"
  by (simp_all add: burst_def)

lemma consume_fields2 [simp]:
  "cores (snd (consume k g)) = cores g"
  "spawnTimer (snd (consume k g)) = spawnTimer g"
  "coreSpawnTimer (snd (consume k g)) = coreSpawnTimer g"
  "comboTimer (snd (consume k g)) = comboTimer g"
  by (simp_all add: consume_def)

lemma snake_dash_fields2 [simp]:
  "cores (snake_dash g) = cores g"
  "spawnTimer (snake_dash g) = spawnTimer g"
  "coreSpawnTimer (snake_dash g) = coreSpawnTimer g"
  "comboTimer (snake_dash g) = comboTimer g"
  by (simp_all add: snake_dash_def split_beta)

lemma snake_temporal_fields2 [simp]:
  "cores (snake_temporal g) = cores g"
  "spawnTimer (snake_temporal g) = spawnTimer g"
  "coreSpawnTimer (snake_temporal g) = coreSpawnTimer g"
  "comboTimer (snake_temporal g) = comboTimer g"
  by (simp_all add: snake_temporal_def split_beta)

lemma snake_mine_fields2 [simp]:
  "cores (snake_mine g) = cores g"
  "spawnTimer (snake_mine g) = spawnTimer g"
  "coreSpawnTimer (snake_mine g) = coreSpawnTimer g"
  "comboTimer (snake_mine g) = comboTimer g"
  by (simp_all add: snake_mine_def split_beta)

lemma consume_fire_fields2 [simp]:
  "cores (snd (consume_fire g)) = cores g"
  "spawnTimer (snd (consume_fire g)) = spawnTimer g"
  "coreSpawnTimer (snd (consume_fire g)) = coreSpawnTimer g"
  "comboTimer (snd (consume_fire g)) = comboTimer g"
  by (simp_all add: consume_fire_def split_beta)

lemma snake_fire_fields2 [simp]:
  "cores (snake_fire g) = cores g"
  "spawnTimer (snake_fire g) = spawnTimer g"
  "coreSpawnTimer (snake_fire g) = coreSpawnTimer g"
  "comboTimer (snake_fire g) = comboTimer g"
  by (simp_all add: snake_fire_def split_beta)

lemma Snake_update_fields2 [simp]:
  "cores (Snake_update W dt g) = cores g"
  "spawnTimer (Snake_update W dt g) = spawnTimer g"
  "coreSpawnTimer (Snake_update W dt g) = coreSpawnTimer g"
  "comboTimer (Snake_update W dt g) = comboTimer g"
  by (simp_all add: Snake_update_def Let_def)

lemma Snake_update_quiet:
  assumes "justPressed g = {}"
  shows "projectiles (Snake_update W dt g) = projectiles g"
    "mines (Snake_update W dt g) = mines g"
  by (simp_all add: Snake_update_no_press [OF assms])

lemma advance_clocks_fields2 [simp]:
  "justPressed (advance_clocks dt sd g) = justPressed g"
  "keys (advance_clocks dt sd g) = keys g"
  "cores (advance_clocks dt sd g) = cores g"
  "projectiles (advance_clocks dt sd g) = projectiles g"
  "mines (advance_clocks dt sd g) = mines g"
  "spawnTimer (advance_clocks dt sd g) = spawnTimer g - sd"
  "coreSpawnTimer (advance_clocks dt sd g) = coreSpawnTimer g - sd"
  "waveTime (advance_clocks dt sd g) = waveTime g + sd"
  by (simp_all add: advance_clocks_def Let_def)

lemma update_calm:
  assumes "state g = Running" "justPressed g = {}" "enemies g = []"
    "enemyProjectiles g = []" "projectiles g = []" "mines g = []" "cores g = []"
    "world_delta dt g < spawnTimer g" "world_delta dt g < coreSpawnTimer g"
  shows "combo (update W dt g) =
           (if comboTimer g - dt \<le> 0 then lerp (combo g) 1 0.08 else combo g)"
    and "tookDamageThisLevel (update W dt g) = tookDamageThisLevel g"
    and "comboTier (update W dt g) = comboTier g"
    and "s_health (snake (update W dt g)) = s_health (snake g)"
    and "s_shield (snake (update W dt g)) = s_shield (snake g)"
    and "snake (update W dt g) =
           snake (Snake_update W dt (advance_clocks dt (world_delta dt g) g))"
proof -
  let ?sd = "world_delta dt g"
  let ?g2 = "Snake_update W dt (advance_clocks dt ?sd g)"
  have j: "justPressed (advance_clocks dt ?sd g) = {}" using assms(2) by simp
  have g2: "enemies ?g2 = []" "enemyProjectiles ?g2 = []" "cores ?g2 = []"
    "projectiles ?g2 = []" "mines ?g2 = []"
    using assms by (simp_all add: Snake_update_quiet [OF j])
  have "0 < spawnTimer ?g2" "0 < coreSpawnTimer ?g2"
    using assms(8,9) by simp_all
  then have g3: "run_spawns W ?g2 = ?g2" by (rule run_spawns_idle)
  let ?g4 = "advance_entities W dt ?sd ?g2"
  have g4: "cores ?g4 = []" "projectiles ?g4 = []" "mines ?g4 = []" "enemies ?g4 = []"
    "enemyProjectiles ?g4 = []"
    by (simp_all only: advance_entities_no_enemies [OF g2(1)]) (simp_all add: g2 assms)
  have hc: "handleCollisions dt ?g4 =
      ?g4\<lparr>projectiles := [], enemyProjectiles := [], mines := [], enemies := []\<rparr>"
    by (simp only: handleCollisions_calm [OF g4(1-4)] g4(5)) simp
  have u: "update W dt g =
      finish_tick dt (?g4\<lparr>projectiles := [], enemyProjectiles := [], mines := [], enemies := []\<rparr>)"
    by (simp only: update_running [OF assms(1)] g3 hc)
  show "combo (update W dt g) =
           (if comboTimer g - dt \<le> 0 then lerp (combo g) 1 0.08 else combo g)"
    "tookDamageThisLevel (update W dt g) = tookDamageThisLevel g"
    "comboTier (update W dt g) = comboTier g"
    "s_health (snake (update W dt g)) = s_health (snake g)"
    "s_shield (snake (update W dt g)) = s_shield (snake g)"
    "snake (update W dt g) = snake ?g2"
    by (simp_all add: u)
qed

subsection \<open>The combo multiplier across a tick\<close>

lemma took_hit_cong:
  "combo g' = combo g \<Longrightarrow> tookDamageThisLevel g' = tookDamageThisLevel g \<Longrightarrow>
   snake g' = snake g \<Longrightarrow> took_hit g' = took_hit g"
  by (simp add: took_hit_def)

lemma update_combo:
  assumes "combo_ok g"
  shows "(if comboTimer g - dt \<le> 0 then lerp (combo g) 1 0.08 else combo g)
           \<le> combo (update W dt g) \<or> took_hit (update W dt g)"
proof (cases "state g = Running")
  case True
  let ?c = "if comboTimer g - dt \<le> 0 then lerp (combo g) 1 0.08 else combo g"
  let ?g4 = "advance_entities W dt (world_delta dt g)
       (run_spawns W (Snake_update W dt (advance_clocks dt (world_delta dt g) g)))"
  have c4: "combo ?g4 = ?c" by simp
  have "combo_ok ?g4" by (rule before_collisions_combo_ok [OF assms])
  then have "combo ?g4 \<le> 6" by (simp add: combo_ok_def)
  then have "combo ?g4 \<le> combo (handleCollisions dt ?g4) \<or> took_hit (handleCollisions dt ?g4)"
    by (rule handleCollisions_combo)
  moreover have "took_hit (finish_tick dt g') = took_hit g'" for g'
    by (rule took_hit_cong) simp_all
  ultimately show ?thesis
    by (simp only: update_running [OF True] finish_tick_frame c4)
next
  case False
  have "1 \<le> combo g" using assms by (simp add: combo_ok_def)
  then have "lerp (combo g) 1 0.08 \<le> combo g" by (rule lerp_to_1)
  then show ?thesis using False by (simp add: update_idle)
qed


lemma g_start_reachable: "reachable W0 g_start"
  unfolding g_start_def by (intro r_start r_new)

lemma g_combo_fields:
  "state g_combo = Running" "justPressed g_combo = {}" "enemies g_combo = []"
  "enemyProjectiles g_combo = []" "projectiles g_combo = []" "mines g_combo = []"
  "cores g_combo = []" "spawnTimer g_combo = 10" "coreSpawnTimer g_combo = 1.6"
  "combo g_combo = 2" "comboTier g_combo = 2" "comboTimer g_combo = 0.02"
  "tookDamageThisLevel g_combo = False" "snake g_combo = Snake_new 480 270"
  by (simp_all add: g_combo_def g_start_fields)

lemma g_combo_tick:
  "combo (update W0 0.05 g_combo) = 1.92"
  "tookDamageThisLevel (update W0 0.05 g_combo) = False"
  "s_health (snake (update W0 0.05 g_combo)) = 100"
  "s_shield (snake (update W0 0.05 g_combo)) = 0"
proof -
  have wd: "world_delta 0.05 g_combo = 0.05"
    by (simp add: world_delta_def g_combo_fields)
  note calm = update_calm [of g_combo "0.05" W0, OF g_combo_fields(1-7)]
  have c: "world_delta 0.05 g_combo < spawnTimer g_combo"
    "world_delta 0.05 g_combo < coreSpawnTimer g_combo"
    using wd by (simp_all add: g_combo_fields)
  show "combo (update W0 0.05 g_combo) = 1.92"
    by (simp only: calm(1) [OF c]) (simp add: g_combo_fields lerp_def)
  show "tookDamageThisLevel (update W0 0.05 g_combo) = False"
    by (simp only: calm(2) [OF c] g_combo_fields)
  show "s_health (snake (update W0 0.05 g_combo)) = 100"
    by (simp only: calm(4) [OF c]) (simp add: g_combo_fields)
  show "s_shield (snake (update W0 0.05 g_combo)) = 0"
    by (simp only: calm(5) [OF c]) (simp add: g_combo_fields)
qed

text \<open>
  C3 (amended). In every reachable state the combo multiplier lies in \<open>[1, 6]\<close>. Across a
  tick it goes below its previous value in two ways only: by the decay step
  \<open>combo := lerp combo 1 0.08\<close> that the tick takes when the combo timer, decremented by
  \<open>dt\<close>, is not positive; and by the reset to exactly 1 of a hit on the player in this
  tick (then the took-damage flag is set and the invulnerability window is open,
  \<open>took_hit\<close>). So after a tick the combo is at least the decayed value, or the player
  was hit and it is exactly 1.
\<close>

theorem combo_range_and_tick:
  "reachable W g \<longrightarrow>
     1 \<le> combo g \<and> combo g \<le> 6 \<and>
     ((if comboTimer g - dt \<le> 0 then lerp (combo g) 1 0.08 else combo g)
        \<le> combo (update W dt g)
      \<or> (combo (update W dt g) = 1 \<and> tookDamageThisLevel (update W dt g) \<and>
          s_invulnTimer (snake (update W dt g)) = 0.2))"
proof
  assume "reachable W g"
  then have "combo_ok g" using reachable_inv by (simp add: game_inv_def)
  then show "1 \<le> combo g \<and> combo g \<le> 6 \<and>
     ((if comboTimer g - dt \<le> 0 then lerp (combo g) 1 0.08 else combo g)
        \<le> combo (update W dt g)
      \<or> (combo (update W dt g) = 1 \<and> tookDamageThisLevel (update W dt g) \<and>
          s_invulnTimer (snake (update W dt g)) = 0.2))"
    using update_combo [of g dt W] by (simp add: combo_ok_def took_hit_def)
qed

theorem combo_range_and_tick_witness:
  "reachable W0 g_start \<and> 1 \<le> combo g_start \<and> combo g_start \<le> 6 \<and>
   ((if comboTimer g_start - 0.05 \<le> 0 then lerp (combo g_start) 1 0.08 else combo g_start)
        \<le> combo (update W0 0.05 g_start)
      \<or> (combo (update W0 0.05 g_start) = 1 \<and> tookDamageThisLevel (update W0 0.05 g_start) \<and>
          s_invulnTimer (snake (update W0 0.05 g_start)) = 0.2))"
  using combo_range_and_tick [of W0 g_start "0.05"] g_start_reachable
  by simp

text \<open>
  The claim as stated fails: at combo 2 with the decay timer at 0.02 s, a tick of 0.05 s
  in which nothing touches the player lowers the combo to 1.92; no damage is taken
  (health, shield and the took-damage flag are unchanged) and the combo is not 1.
\<close>

theorem combo_decays_without_damage:
  "state g_combo = Running \<and> combo g_combo = 2 \<and>
   combo (update W0 0.05 g_combo) = 1.92 \<and>
   combo (update W0 0.05 g_combo) < combo g_combo \<and>
   combo (update W0 0.05 g_combo) \<noteq> 1 \<and>
   tookDamageThisLevel (update W0 0.05 g_combo) = False \<and>
   s_health (snake (update W0 0.05 g_combo)) = s_health (snake g_combo) \<and>
   s_shield (snake (update W0 0.05 g_combo)) = s_shield (snake g_combo)"
  using g_combo_tick by (simp add: g_combo_fields)

subsection \<open>The combo tier\<close>

lemma update_tier_mono: "comboTier g \<le> comboTier (update W dt g)"
proof (cases "state g = Running")
  case True
  let ?g4 = "advance_entities W dt (world_delta dt g)
       (run_spawns W (Snake_update W dt (advance_clocks dt (world_delta dt g) g)))"
  have "comboTier ?g4 = comboTier g" by simp
  then show ?thesis
    using handleCollisions_tier_mono [of ?g4 dt]
    by (simp add: update_running [OF True])
next
  case False
  then show ?thesis by (simp add: update_idle)
qed

lemma reset_fields [simp]:
  "comboTier (reset W g) = 1" "combo (reset W g) = 1" "level (reset W g) = 1"
  "enemies (reset W g) = []" "score (reset W g) = 0" "xp (reset W g) = 0"
  by (simp_all add: reset_def)

lemma g_tier_fields:
  "level g_tier = 1" "xp g_tier = 600" "combo g_tier = 1" "comboTier g_tier = 3"
  by (simp_all add: g_tier_def g_levelup_fields)

subsection \<open>The combo mission\<close>

text \<open>
  C10. In every reachable state the combo tier is at most 6, and every combo-peak mission
  in the mission set (target 10, no timer) has a progress of at most 6 and is neither
  done nor failed.
\<close>

theorem combo_mission_never_done:
  "reachable W g \<longrightarrow>
     comboTier g \<le> 6 \<and>
     (\<forall>m \<in> set (missions g). ms_type m = ComboPeak \<longrightarrow>
        ms_target m = 10 \<and> ms_timer m = None \<and> ms_progress m \<le> 6 \<and>
        \<not> ms_done m \<and> \<not> ms_failed m)"
proof
  assume "reachable W g"
  then have "combo_ok g" "missions_ok g" using reachable_inv by (simp_all add: game_inv_def)
  then show "comboTier g \<le> 6 \<and>
     (\<forall>m \<in> set (missions g). ms_type m = ComboPeak \<longrightarrow>
        ms_target m = 10 \<and> ms_timer m = None \<and> ms_progress m \<le> 6 \<and>
        \<not> ms_done m \<and> \<not> ms_failed m)"
    by (simp add: combo_ok_def missions_ok_def peak_ok_def)
qed

lemma g_peak_reachable: "reachable W0 g_peak"
  unfolding g_peak_def by (intro r_start r_new)

lemma g_peak_missions: "missions g_peak = [pool ! 4, pool ! 0]"
  by (simp add: g_peak_def startGame_def reset_def Game_new_def startLevel_def drawn_def
      pool_def Let_def)

theorem combo_mission_never_done_witness:
  "reachable W0 g_peak \<and> comboTier g_peak \<le> 6 \<and>
   pool ! 4 \<in> set (missions g_peak) \<and> ms_type (pool ! 4) = ComboPeak \<and>
   ms_target (pool ! 4) = 10 \<and> \<not> ms_done (pool ! 4) \<and> \<not> ms_failed (pool ! 4)"
  using combo_mission_never_done [of W0 g_peak] g_peak_reachable
  by (simp add: g_peak_missions) (simp add: pool_def Mission_new_def)

subsection \<open>Boss spawns\<close>

lemma spawnEnemy_last:
  "e_type (last (enemies (spawnEnemy W g))) = spawn_type g"
  by simp

lemma spawnEnemy_bosses:
  "bosses (enemies (spawnEnemy W g)) =
     bosses (enemies g) + (if spawn_type g = Boss then 1 else 0)"
  by simp

text \<open>
  C8. A spawn at a level divisible by 4 with no boss in the enemy list produces a boss,
  whatever the roll; a spawn with a boss in the list, or at any other level, never does.
  So two spawns in a row (the two-spawn window of level 6 and above) add at most one boss,
  and in every reachable state every listed enemy is alive and at most one of them is a
  boss.
\<close>

theorem boss_spawn_gate:
  "(level g mod 4 = 0 \<and> \<not> (\<exists>e \<in> set (enemies g). e_type e = Boss) \<longrightarrow>
      e_type (last (enemies (spawnEnemy W g))) = Boss)
   \<and> ((\<exists>e \<in> set (enemies g). e_type e = Boss) \<or> level g mod 4 \<noteq> 0 \<longrightarrow>
      e_type (last (enemies (spawnEnemy W g))) \<noteq> Boss)
   \<and> (bosses (enemies g) \<le> 1 \<longrightarrow> bosses (enemies (spawnEnemy W (spawnEnemy W g))) \<le> 1)
   \<and> (level g mod 4 = 0 \<and> bosses (enemies g) = 0 \<longrightarrow>
      bosses (enemies (spawnEnemy W (spawnEnemy W g))) = 1)
   \<and> (reachable W g \<longrightarrow> bosses (enemies g) \<le> 1 \<and> (\<forall>e \<in> set (enemies g). e_alive e))"
proof (intro conjI impI)
  assume "level g mod 4 = 0 \<and> \<not> (\<exists>e \<in> set (enemies g). e_type e = Boss)"
  then show "e_type (last (enemies (spawnEnemy W g))) = Boss"
    by (simp add: spawn_type_def)
next
  assume "(\<exists>e \<in> set (enemies g). e_type e = Boss) \<or> level g mod 4 \<noteq> 0"
  then show "e_type (last (enemies (spawnEnemy W g))) \<noteq> Boss"
    by (auto simp: spawn_type_def)
next
  assume "bosses (enemies g) \<le> 1"
  then show "bosses (enemies (spawnEnemy W (spawnEnemy W g))) \<le> 1"
    using spawn_type_boss [of g] spawn_type_boss [of "spawnEnemy W g"]
    by (simp only: spawnEnemy_bosses) (auto split: if_splits)
next
  assume "level g mod 4 = 0 \<and> bosses (enemies g) = 0"
  then show "bosses (enemies (spawnEnemy W (spawnEnemy W g))) = 1"
    using spawn_type_boss [of g] spawn_type_boss [of "spawnEnemy W g"]
    by (simp only: spawnEnemy_bosses) (auto split: if_splits)
next
  assume "reachable W g"
  then have "enemies_ok g" using reachable_inv by (simp add: game_inv_def)
  then show "bosses (enemies g) \<le> 1" "\<forall>e \<in> set (enemies g). e_alive e"
    by (simp_all add: enemies_ok_def)
qed


theorem boss_spawn_gate_witness:
  "level g_level8 mod 4 = 0 \<and> \<not> (\<exists>e \<in> set (enemies g_level8). e_type e = Boss) \<and>
   e_type (last (enemies (spawnEnemy W0 g_level8))) = Boss \<and>
   (\<exists>e \<in> set (enemies (spawnEnemy W0 g_level8)). e_type e = Boss) \<and>
   e_type (last (enemies (spawnEnemy W0 (spawnEnemy W0 g_level8)))) \<noteq> Boss \<and>
   bosses (enemies g_level8) = 0 \<and>
   bosses (enemies (spawnEnemy W0 (spawnEnemy W0 g_level8))) = 1 \<and>
   reachable W0 g_start \<and> bosses (enemies g_start) \<le> 1"
  using boss_spawn_gate [of g_level8 W0] boss_spawn_gate [of "spawnEnemy W0 g_level8" W0]
    boss_spawn_gate [of g_start W0] g_start_reachable
  by (simp add: g_level8_def g_start_fields bosses_def)

subsection \<open>Mine detonation\<close>

lemma mine_step_unarmed: "0 < m_armTime m \<Longrightarrow> mine_step m es g = (m, es, g)"
  by (simp add: mine_step_def)

lemma blast_enemies:
  "fst (blast m ts g) =
     map (\<lambda>t. if e_alive t \<and> distance (m_x m) (m_y m) (e_x t) (e_y t) < 90 + e_radius t
             then takeDamage (65 - distance (m_x m) (m_y m) (e_x t) (e_y t) * 0.35) t
             else t) ts"
  by (induction ts arbitrary: g) (simp_all add: Let_def split_beta)

lemma blast_game:
  "snd (blast m ts g) =
     foldl (\<lambda>g t. explodeEnemy t True g) g
       (filter (\<lambda>t. \<not> e_alive t)
         (map (\<lambda>t. takeDamage (65 - distance (m_x m) (m_y m) (e_x t) (e_y t) * 0.35) t)
           (filter (\<lambda>t. e_alive t \<and>
              distance (m_x m) (m_y m) (e_x t) (e_y t) < 90 + e_radius t) ts)))"
proof (induction ts arbitrary: g)
  case Nil
  show ?case by simp
next
  case (Cons t ts)
  let ?t1 = "takeDamage (65 - distance (m_x m) (m_y m) (e_x t) (e_y t) * 0.35) t"
  show ?case
  proof (cases "e_alive t \<and> distance (m_x m) (m_y m) (e_x t) (e_y t) < 90 + e_radius t")
    case False
    then show ?thesis using Cons [of g] by (auto simp: split_beta Let_def)
  next
    case True
    show ?thesis
    proof (cases "e_alive ?t1")
      case alive: True
      then show ?thesis using True Cons [of g] by (simp add: split_beta Let_def)
    next
      case dead: False
      then show ?thesis
        using True Cons [of "explodeEnemy ?t1 True g"] by (simp add: split_beta Let_def)
    qed
  qed
qed

lemma mine_scan_none:
  "\<not> (\<exists>e \<in> set es. e_alive e \<and>
        distance (m_x m) (m_y m) (e_x e) (e_y e) < m_radius m + e_radius e + 3) \<Longrightarrow>
   mine_scan m es all g = (m, all, g)"
  by (induction es) auto

lemma mine_scan_some:
  "\<exists>e \<in> set es. e_alive e \<and>
        distance (m_x m) (m_y m) (e_x e) (e_y e) < m_radius m + e_radius e + 3 \<Longrightarrow>
   mine_scan m es all g =
     (m\<lparr>m_alive := False\<rparr>,
      fst (blast m all (burst (m_x m) (m_y m) 32 230 4 g)),
      snd (blast m all (burst (m_x m) (m_y m) 32 230 4 g)))"
  by (induction es) (auto simp: split_beta)

lemma explodeEnemy_mine:
  "explodeEnemy t True g =
     (explodeEnemy t False g)
       \<lparr>missions := MissionSystem_onEvent MineKills 1 (missions (explodeEnemy t False g))\<rparr>"
  by (simp add: explodeEnemy_def Let_def)


lemma mines_after_collisions: "\<forall>m \<in> set (mines (handleCollisions dt g)). m_alive m"
  by (simp add: handleCollisions_fields)

lemma hypot_0_left [simp]: "hypot 0 b = \<bar>b\<bar>"
  by (simp add: hypot_def)

subsection \<open>Which delta each update receives\<close>




lemma enemy_side_frame [simp]:
  "projectiles (snd (enemy_attack h d e g)) = projectiles g"
  "mines (snd (enemy_attack h d e g)) = mines g"
  "projectiles (snd (Enemy_update W d e g)) = projectiles g"
  "mines (snd (Enemy_update W d e g)) = mines g"
  by (simp_all add: enemy_attack_def Enemy_update_def Let_def split_beta)

lemma enemies_loop_frame2 [simp]:
  "projectiles (snd (enemies_loop W d es g)) = projectiles g"
  "mines (snd (enemies_loop W d es g)) = mines g"
  by (induction es arbitrary: g; simp add: split_beta)+

lemma endFrame_particles [simp]: "particles (endFrame g) = particles g"
  by (simp add: endFrame_def)

lemma advance_entities_fields2 [simp]:
  "projectiles (advance_entities W dt sd g) = map (Projectile_update W dt) (projectiles g)"
  "mines (advance_entities W dt sd g) = map (Mine_update dt) (mines g)"
  by (simp_all add: advance_entities_def Let_def split_beta)

lemma finish_tick_particles [simp]:
  "particles (finish_tick dt g) = ParticleSystem_update dt (particles g)"
  by (simp add: finish_tick_def Let_def)

lemma consume_justPressed [simp]:
  "justPressed (snd (consume k g)) = justPressed g - {k}"
  "fst (consume k g) = (k \<in> justPressed g)"
  by (auto simp: consume_def)

lemma snake_ability_fields [simp]:
  "s_temporalTime (snake (snake_dash g)) = s_temporalTime (snake g)"
  "s_dashTime (snake (snake_dash g)) =
     (if ''shift'' \<in> justPressed g \<and> s_dashCooldown (snake g) \<le> 0 then 0.24
      else s_dashTime (snake g))"
  "s_temporalCooldown (snake (snake_dash g)) = s_temporalCooldown (snake g)"
  "s_length (snake (snake_dash g)) = s_length (snake g)"
  "s_baseSpeed (snake (snake_dash g)) = s_baseSpeed (snake g)"
  "s_invulnTimer (snake (snake_dash g)) = s_invulnTimer (snake g)"
  "justPressed (snake_dash g) = justPressed g - {''shift''}"
  "s_temporalTime (snake (snake_temporal g)) =
     (if ''e'' \<in> justPressed g \<and> s_temporalCooldown (snake g) \<le> 0 then 2.2
      else s_temporalTime (snake g))"
  "s_dashTime (snake (snake_temporal g)) = s_dashTime (snake g)"
  "s_length (snake (snake_temporal g)) = s_length (snake g)"
  "s_baseSpeed (snake (snake_temporal g)) = s_baseSpeed (snake g)"
  "s_invulnTimer (snake (snake_temporal g)) = s_invulnTimer (snake g)"
  "s_temporalTime (snake (snake_mine g)) = s_temporalTime (snake g)"
  "s_dashTime (snake (snake_mine g)) = s_dashTime (snake g)"
  "s_length (snake (snake_mine g)) = s_length (snake g)"
  "s_baseSpeed (snake (snake_mine g)) = s_baseSpeed (snake g)"
  "s_invulnTimer (snake (snake_mine g)) = s_invulnTimer (snake g)"
  "s_temporalTime (snake (snake_fire g)) = s_temporalTime (snake g)"
  "s_dashTime (snake (snake_fire g)) = s_dashTime (snake g)"
  "s_length (snake (snake_fire g)) = s_length (snake g)"
  "s_baseSpeed (snake (snake_fire g)) = s_baseSpeed (snake g)"
  "s_invulnTimer (snake (snake_fire g)) = s_invulnTimer (snake g)"
  by (simp_all add: snake_dash_def snake_temporal_def snake_mine_def snake_fire_def
      split_beta)




subsection \<open>The wave clock across a tick\<close>

lemma waveTime_player [simp]:
  "waveTime (trail x y g) = waveTime g"
  "waveTime (snd (consume k g)) = waveTime g"
  "waveTime (snake_dash g) = waveTime g"
  "waveTime (snake_temporal g) = waveTime g"
  "waveTime (snake_mine g) = waveTime g"
  by (simp_all add: trail_def consume_def snake_dash_def snake_temporal_def snake_mine_def
      split_beta)

lemma waveTime_fire [simp]:
  "waveTime (snd (consume_fire g)) = waveTime g"
  "waveTime (snake_fire g) = waveTime g"
  by (simp_all add: consume_fire_def snake_fire_def split_beta)

lemma waveTime_Snake_update [simp]: "waveTime (Snake_update W dt g) = waveTime g"
  by (simp add: Snake_update_def Let_def)

lemma waveTime_spawns [simp]:
  "waveTime (spawnEnemy W g) = waveTime g"
  "waveTime (spawnCore W g) = waveTime g"
  "waveTime (run_spawns W g) = waveTime g"
  by (simp_all add: spawnEnemy_def spawnCore_def run_spawns_def Let_def)

lemma waveTime_enemy [simp]:
  "waveTime (snd (enemy_attack h d e g)) = waveTime g"
  "waveTime (snd (Enemy_update W d e g)) = waveTime g"
  by (simp_all add: enemy_attack_def Enemy_update_def Let_def split_beta)

lemma waveTime_enemies_loop [simp]: "waveTime (snd (enemies_loop W d es g)) = waveTime g"
  by (induction es arbitrary: g) (simp_all add: split_beta)

lemma waveTime_advance_entities [simp]: "waveTime (advance_entities W dt sd g) = waveTime g"
  by (simp add: advance_entities_def Let_def split_beta)

lemma waveTime_stable: "score_stable (\<lambda>g. waveTime g = w)"
  unfolding score_stable_def by (intro conjI allI impI) simp_all

lemma waveTime_damage [simp]:
  "waveTime (contact_step dt e g) = waveTime g"
  "waveTime (snd (shot_step p g)) = waveTime g"
  by (simp_all add: contact_step_def shot_step_def split_beta Let_def)

lemma waveTime_contact_loop [simp]: "waveTime (contact_loop dt es g) = waveTime g"
  by (induction es arbitrary: g) simp_all

lemma waveTime_shots_loop [simp]: "waveTime (snd (shots_loop ps g)) = waveTime g"
  by (induction ps arbitrary: g) (simp_all add: split_beta)

lemma waveTime_handleCollisions [simp]: "waveTime (handleCollisions dt g) = waveTime g"
  using scoring_passes_stable [OF waveTime_stable [of "waveTime g"], of g]
  by (simp add: handleCollisions_def damage_passes_def split_beta Let_def)

lemma waveTime_finish_tick [simp]: "waveTime (finish_tick dt g) = waveTime g"
  by (simp add: finish_tick_def endFrame_def Let_def)









subsection \<open>The combo tier as a high-water mark\<close>

lemma gainScore_tier_hw:
  assumes "comboTier g = max k \<lfloor>combo g\<rfloor>" "c \<le> combo g" "combo g \<le> 6"
  shows "comboTier (gainScore p g) = max k \<lfloor>combo (gainScore p g)\<rfloor>"
    "c \<le> combo (gainScore p g)" "combo (gainScore p g) \<le> 6"
proof -
  have le: "combo g \<le> clamp (combo g + 0.05) 1 6"
    using assms(3) by (simp add: clamp_def)
  then have "\<lfloor>combo g\<rfloor> \<le> \<lfloor>clamp (combo g + 0.05) 1 6\<rfloor>" by (rule floor_mono)
  then have "max (max k \<lfloor>combo g\<rfloor>) \<lfloor>clamp (combo g + 0.05) 1 6\<rfloor>
      = max k \<lfloor>clamp (combo g + 0.05) 1 6\<rfloor>" by simp
  then show "comboTier (gainScore p g) = max k \<lfloor>combo (gainScore p g)\<rfloor>"
    using assms(1) by simp
  show "c \<le> combo (gainScore p g)" using le assms(2) by simp
  show "combo (gainScore p g) \<le> 6" by (simp add: clamp_def)
qed

lemma tier_hw_stable:
  "score_stable (\<lambda>g. comboTier g = max k \<lfloor>combo g\<rfloor> \<and> c \<le> combo g \<and> combo g \<le> 6)"
  unfolding score_stable_def
proof (intro conjI allI impI)
  fix p and g :: game
  assume a: "comboTier g = max k \<lfloor>combo g\<rfloor> \<and> c \<le> combo g \<and> combo g \<le> 6"
  note h = gainScore_tier_hw [OF a [THEN conjunct1] a [THEN conjunct2, THEN conjunct1]
      a [THEN conjunct2, THEN conjunct2], of p]
  show "comboTier (gainScore p g) = max k \<lfloor>combo (gainScore p g)\<rfloor>" by (rule h(1))
  show "c \<le> combo (gainScore p g)" by (rule h(2))
  show "combo (gainScore p g) \<le> 6" by (rule h(3))
qed simp_all

lemma damage_passes_combo_le:
  assumes "1 \<le> combo g"
  shows "combo (snd (damage_passes dt es g)) \<le> combo g"
  using damage_passes_hit [of dt es g] assms by (auto simp: took_hit_def)

lemma update_tier_peak:
  assumes "combo_ok g"
  shows "comboTier (update W dt g) = max (comboTier g) \<lfloor>tick_peak W dt g\<rfloor>"
    and "combo (update W dt g) \<le> tick_peak W dt g"
    and "(if comboTimer g - dt \<le> 0 then lerp (combo g) 1 0.08 else combo g) \<le> tick_peak W dt g"
proof -
  let ?c = "if comboTimer g - dt \<le> 0 then lerp (combo g) 1 0.08 else combo g"
  let ?g4 = "advance_entities W dt (world_delta dt g)
       (run_spawns W (Snake_update W dt (advance_clocks dt (world_delta dt g) g)))"
  let ?g3 = "snd (snd (snd (scoring_passes ?g4)))"
  let ?es = "fst (snd (snd (scoring_passes ?g4)))"
  have c: "1 \<le> combo g" "combo g \<le> 6" "\<lfloor>combo g\<rfloor> \<le> comboTier g"
    using assms by (simp_all add: combo_ok_def)
  have c4: "combo ?g4 = ?c" by simp
  have t4: "comboTier ?g4 = comboTier g" by simp
  have cle: "?c \<le> combo g" "1 \<le> ?c"
    using lerp_to_1 [OF c(1)] c(1) by simp_all
  then have "\<lfloor>?c\<rfloor> \<le> \<lfloor>combo g\<rfloor>" by (intro floor_mono)
  then have "comboTier g = max (comboTier g) \<lfloor>?c\<rfloor>"
    using c(3) by linarith
  then have "comboTier ?g4 = max (comboTier g) \<lfloor>combo ?g4\<rfloor>"
    by (simp only: c4 t4)
  moreover have "?c \<le> 6" using cle(1) c(2) by linarith
  then have "combo ?g4 \<le> combo ?g4 \<and> combo ?g4 \<le> 6"
    by (simp only: c4) simp
  ultimately have P: "comboTier ?g3 = max (comboTier g) \<lfloor>combo ?g3\<rfloor> \<and>
      combo ?g4 \<le> combo ?g3 \<and> combo ?g3 \<le> 6"
    using scoring_passes_stable [OF tier_hw_stable [of "comboTier g" "combo ?g4"], of ?g4]
    by blast
  have "?c \<le> combo ?g3" using P by (simp only: c4)
  then have one: "1 \<le> combo ?g3" using cle(2) by linarith
  have d: "combo (snd (damage_passes dt ?es ?g3)) \<le> combo ?g3"
    by (rule damage_passes_combo_le [OF one])
  show "comboTier (update W dt g) = max (comboTier g) \<lfloor>tick_peak W dt g\<rfloor>"
  proof (cases "state g = Running")
    case True
    then show ?thesis
      using P by (simp add: update_running handleCollisions_fields tick_peak_def tick_scored_def)
  next
    case False
    then show ?thesis using c(3) by (simp add: update_idle tick_peak_def)
  qed
  show "combo (update W dt g) \<le> tick_peak W dt g"
  proof (cases "state g = Running")
    case True
    then show ?thesis
      using d by (simp add: update_running handleCollisions_fields tick_peak_def tick_scored_def)
  next
    case False
    then show ?thesis by (simp add: update_idle tick_peak_def)
  qed
  show "?c \<le> tick_peak W dt g"
  proof (cases "state g = Running")
    case True
    have "?c \<le> combo ?g3" using P by (simp only: c4) 
    then show ?thesis using True by (simp add: tick_peak_def tick_scored_def)
  next
    case False
    then show ?thesis using cle(1) by (simp add: tick_peak_def)
  qed
qed

lemma high_water_sound: "high_water W g k \<Longrightarrow> reachable W g \<and> comboTier g = k"
proof (induction rule: high_water.induct)
  case (h_new r so)
  show ?case by (intro conjI r_new) (simp add: Game_new_def)
next
  case (h_start g k)
  then have "reachable W (startGame W g)" by (simp add: r_start)
  then show ?case by (simp add: startGame_def)
next
  case (h_pause g k)
  then have "reachable W (togglePause g)" by (simp add: r_pause)
  then show ?case using h_pause by (simp add: togglePause_def)
next
  case (h_keydown g k key repeat)
  then have "reachable W (keydown key repeat g)" by (simp add: r_keydown)
  moreover have "comboTier (keydown key repeat g) = comboTier g"
    by (simp add: keydown_def togglePause_def Let_def)
  ultimately show ?case using h_keydown by simp
next
  case (h_keyup g k key)
  then have "reachable W (keyup key g)" by (simp add: r_keyup)
  then show ?case using h_keyup by (simp add: keyup_def)
next
  case (h_frame g k dt)
  then have "combo_ok g" using reachable_inv [of W g] by (simp add: game_inv_def)
  then show ?case
    using h_frame update_tier_peak(1) [of g W dt] by (simp add: r_frame)
qed

lemma high_water_complete: "reachable W g \<Longrightarrow> high_water W g (comboTier g)"
proof (induction rule: reachable.induct)
  case (r_new r so)
  have "comboTier (Game_new W r so) = 1" by (simp add: Game_new_def)
  then show ?case using h_new [of W r so] by simp
next
  case (r_start g)
  have "comboTier (startGame W g) = 1" by (simp add: startGame_def)
  then show ?case using h_start [OF r_start.IH] by simp
next
  case (r_pause g)
  have "comboTier (togglePause g) = comboTier g" by (simp add: togglePause_def)
  then show ?case using h_pause [OF r_pause.IH] by simp
next
  case (r_keydown g k repeat)
  have "comboTier (keydown k repeat g) = comboTier g"
    by (simp add: keydown_def togglePause_def Let_def)
  then show ?case using h_keydown [OF r_keydown.IH, of k repeat] by simp
next
  case (r_keyup g k)
  have "comboTier (keyup k g) = comboTier g" by (simp add: keyup_def)
  then show ?case using h_keyup [OF r_keyup.IH, of k] by simp
next
  case (r_frame g dt)
  then have "combo_ok g" using reachable_inv [of W g] by (simp add: game_inv_def)
  then have "comboTier (update W dt g) = max (comboTier g) \<lfloor>tick_peak W dt g\<rfloor>"
    by (rule update_tier_peak(1))
  then show ?case using h_frame [OF r_frame.IH r_frame.hyps(2,3)] by simp
qed

lemma hypot_0_right: "hypot a 0 = \<bar>a\<bar>"
  by (simp add: hypot_def)

lemma c_near_fields:
  "c_x c_near = 480" "c_y c_near = 270" "c_kind c_near = Health" "c_value c_near = 25"
  by (simp_all add: c_near_def Core_new_def core_kind_of_def randInt_def randRange_def)

lemma g_rise_fields:
  "state g_rise = Running" "keys g_rise = {}" "justPressed g_rise = {}"
  "snake g_rise = Snake_new 480 270"
  "enemies g_rise = []" "enemyProjectiles g_rise = []" "projectiles g_rise = []"
  "mines g_rise = []" "cores g_rise = [c_near]" "spawnTimer g_rise = 10"
  "coreSpawnTimer g_rise = 1.6"
  "comboTimer g_rise = 4" "combo g_rise = 1.96" "comboTier g_rise = 1" "level g_rise = 1"
  "xp g_rise = 0"
  by (simp_all add: g_rise_def g_start_fields)

lemma g_rise_peak: "tick_peak W0 0.05 g_rise = 2.01"
proof -
  define d :: real where "d = 1 / 20"
  have d: "0 < d" "d < 1.6" "d < 10" "d < 4" by (simp_all add: d_def)
  let ?g1 = "advance_clocks d d g_rise"
  let ?s = "snake_timers d (snake_turn d (snake g_rise))"
  have wd: "world_delta d g_rise = d"
    by (simp add: world_delta_def g_rise_fields)
  have g1: "justPressed ?g1 = {}" "keys ?g1 = {}" "snake ?g1 = snake g_rise"
    "spawnTimer ?g1 = 10 - d" "coreSpawnTimer ?g1 = 1.6 - d" "enemies ?g1 = []"
    "cores ?g1 = [c_near]" "projectiles ?g1 = []" "mines ?g1 = []"
    "enemyProjectiles ?g1 = []" "combo ?g1 = 1.96" "xp ?g1 = 0" "level ?g1 = 1"
    using d(4) by (simp_all add: advance_clocks_def Let_def g_rise_fields)
  have s0: "s_head (snake g_rise) = (480, 270)"
    by (simp add: g_rise_fields)
  have dir: "s_dir (snake_turn t (snake g_rise)) = (1, 0)" for t
    by (simp add: snake_turn_straight g_rise_fields)
  have sp: "snake_speed (snake_timers t (snake_turn t (snake g_rise))) = 170" for t
    by (simp add: snake_speed_def g_rise_fields)
  have hd: "s_head (snake_move W0 d ?s) = (488.5, 270)"
    by (subst snake_move_inside) (simp_all add: dir sp s0 W0_def d_def)
  let ?g2 = "Snake_update W0 d ?g1"
  have g2: "s_head (snake ?g2) = (488.5, 270)"
    "spawnTimer ?g2 = 10 - d" "coreSpawnTimer ?g2 = 1.6 - d" "enemies ?g2 = []"
    "cores ?g2 = [c_near]" "projectiles ?g2 = []" "mines ?g2 = []"
    "enemyProjectiles ?g2 = []" "combo ?g2 = 1.96" "xp ?g2 = 0" "level ?g2 = 1"
    using d(4)
    by (simp_all add: Snake_update_no_press [OF g1(1)] setAimFromInput_idle [OF g1(2)] g1 hd)
      (simp_all add: g_rise_fields)
  have g3: "run_spawns W0 ?g2 = ?g2"
    using d by (intro run_spawns_idle) (simp_all add: g2 g_rise_fields)
  let ?g4 = "advance_entities W0 d d ?g2"
  have g4: "cores ?g4 = [Core_update d c_near]" "projectiles ?g4 = []" "mines ?g4 = []"
    "enemies ?g4 = []" "s_head (snake ?g4) = (488.5, 270)" "combo ?g4 = 1.96"
    "xp ?g4 = 0" "level ?g4 = 1"
    using d(4)
    by (simp_all only: advance_entities_no_enemies [OF g2(4)])
      (simp_all add: g2 g_rise_fields)
  let ?c = "Core_update d c_near"
  have near: "distance (c_x ?c) (c_y ?c) (fst (s_head (snake ?g4))) (snd (s_head (snake ?g4))) < 18"
    by (simp only: g4(5) fst_conv snd_conv) (simp add: Core_update_def c_near_fields distance_def hypot_0_right)
  have k: "c_kind ?c = Health" "c_value ?c = 25"
    by (simp_all add: Core_update_def c_near_fields)
  have cs: "combo (snd (core_step ?c ?g4)) = 2.01"
    using near g4(6) by (simp add: core_step_def Let_def k clamp_def)
  have "projectiles (collect_cores ?g4) = projectiles ?g4"
    "mines (collect_cores ?g4) = mines ?g4"
    using collect_cores_untouched [of ?g4] by blast+
  then have pm: "projectiles (collect_cores ?g4) = []" "mines (collect_cores ?g4) = []"
    by (simp_all only: g4(2,3))
  have cc: "combo (collect_cores ?g4) = 2.01"
    by (simp add: collect_cores_def g4(1) Let_def split_beta cs)
  have "combo (snd (snd (snd (scoring_passes ?g4)))) = 2.01"
    by (simp add: scoring_passes_def Let_def pm cc)
  then have "tick_peak W0 d g_rise = 2.01"
    by (simp add: tick_peak_def tick_scored_def g_rise_fields wd g3)
  then show ?thesis by (simp add: d_def)
qed

lemma g_rise_combo_ok: "combo_ok g_rise"
  by (simp add: combo_ok_def g_rise_fields)

lemma g_rise_floor: "\<lfloor>tick_peak W0 0.05 g_rise\<rfloor> = 2"
  by (simp only: g_rise_peak) simp

lemma g_start_high_water: "high_water W0 g_start 1"
  unfolding g_start_def by (rule h_start [OF h_new])

text \<open>
  C9 (amended). The combo tier is the highest floor of the combo reached since the match
  was last reset, over the whole match and not over the current level. For a session
  that has reached \<open>g\<close> with a high-water mark \<open>k\<close> of the floor of the combo
  (\<open>high_water\<close>), the tier of \<open>g\<close> is \<open>k\<close>; and every reachable state has its tier as its
  mark, with combo and tier in \<open>[1, 6]\<close> and the tier not below the floor of the combo
  (\<open>combo_ok\<close>). Across a tick from such a state the tier becomes the maximum of its
  previous value and the floor of the peak of the tick, and neither the combo after the
  tick nor the combo after the decay at its start is above that peak. Every scoring
  event recomputes the tier as the maximum of its previous value and the floor of the
  new combo, also when the event starts a new level, and raises the combo (up to 6); no
  operation of the scoring passes takes a combo of at most 6 below a bound it was above
  (\<open>score_stable\<close>), so the combo at their end is the highest of the tick; a tick never
  lowers the tier; a reset puts the tier and the combo at 1.
\<close>

theorem comboTier_high_water:
  "(high_water W g k \<longrightarrow> reachable W g \<and> comboTier g = k) \<and>
   (reachable W g \<longrightarrow> high_water W g (comboTier g) \<and> combo_ok g) \<and>
   (combo_ok g \<longrightarrow>
      comboTier (update W dt g) = max (comboTier g) \<lfloor>tick_peak W dt g\<rfloor> \<and>
      combo (update W dt g) \<le> tick_peak W dt g \<and>
      (if comboTimer g - dt \<le> 0 then lerp (combo g) 1 0.08 else combo g)
        \<le> tick_peak W dt g) \<and>
   comboTier (gainScore p g) = max (comboTier g) \<lfloor>combo (gainScore p g)\<rfloor> \<and>
   (combo g \<le> 6 \<longrightarrow> combo g \<le> combo (gainScore p g)) \<and>
   score_stable (\<lambda>g'. c \<le> combo g' \<and> combo g' \<le> 6) \<and>
   comboTier g \<le> comboTier (update W dt g) \<and>
   comboTier (reset W g) = 1 \<and> combo (reset W g) = 1"
proof (intro conjI impI)
  assume "high_water W g k"
  then show "reachable W g" "comboTier g = k" using high_water_sound by blast+
next
  assume r: "reachable W g"
  then show "high_water W g (comboTier g)" by (rule high_water_complete)
  show "combo_ok g" using reachable_inv [OF r] by (simp add: game_inv_def)
next
  assume c: "combo_ok g"
  show "comboTier (update W dt g) = max (comboTier g) \<lfloor>tick_peak W dt g\<rfloor>"
    by (rule update_tier_peak(1) [OF c])
  show "combo (update W dt g) \<le> tick_peak W dt g"
    by (rule update_tier_peak(2) [OF c])
  show "(if comboTimer g - dt \<le> 0 then lerp (combo g) 1 0.08 else combo g)
        \<le> tick_peak W dt g"
    by (rule update_tier_peak(3) [OF c])
next
  assume "combo g \<le> 6"
  then show "combo g \<le> combo (gainScore p g)" by (simp add: clamp_def)
next
  show "score_stable (\<lambda>g'. c \<le> combo g' \<and> combo g' \<le> 6)" by (rule combo_lb_stable)
qed (simp_all add: update_tier_mono)

theorem comboTier_high_water_witness:
  "high_water W0 g_start 1 \<and> reachable W0 g_start \<and> comboTier g_start = 1 \<and>
   high_water W0 g_start (comboTier g_start) \<and> combo_ok g_start \<and>
   combo_ok g_rise \<and> comboTier g_rise = 1 \<and> tick_peak W0 0.05 g_rise = 2.01 \<and>
   comboTier (update W0 0.05 g_rise) = 2 \<and>
   combo (update W0 0.05 g_rise) \<le> 2.01 \<and>
   combo g_rise \<le> 6 \<and> combo g_rise \<le> combo (gainScore 35 g_rise) \<and>
   comboTier (gainScore 35 g_rise) = 2"
  using comboTier_high_water [of W0 g_start 1 "0.05" 35 1] g_start_high_water
    comboTier_high_water [of W0 g_rise 1 "0.05" 35 1] g_rise_combo_ok g_rise_peak
    g_rise_floor
  by (simp add: g_rise_fields clamp_def)

text \<open>
  The claim as stated fails: a scoring event that starts level 2 at a combo of 1, after a
  tier of 3 had been reached in level 1, leaves the tier at 3 in the new level, where the
  floor of the combo is 1.
\<close>

theorem comboTier_kept_on_level_up:
  "level g_tier = 1 \<and> level (gainScore 45 g_tier) = 2 \<and>
   comboTier (gainScore 45 g_tier) = 3 \<and>
   \<lfloor>combo (gainScore 45 g_tier)\<rfloor> = 1 \<and>
   comboTier (gainScore 45 g_tier) \<noteq> 1"
  by (simp add: gainScore_def Let_def g_tier_fields clamp_def)

subsection \<open>Mine detonation within handleCollisions and within a tick\<close>

lemma takeDamage_live:
  "e_alive t \<Longrightarrow>
   takeDamage a t = t\<lparr>e_health := e_health t - a, e_alive := 0 < e_health t - a\<rparr>"
  by (cases t) (simp add: takeDamage_def Let_def)

lemma blast_enemies_explicit:
  "fst (blast m ts g) =
     map (\<lambda>t. if e_alive t \<and> distance (m_x m) (m_y m) (e_x t) (e_y t) < 90 + e_radius t
             then t\<lparr>e_health := e_health t - (65 - distance (m_x m) (m_y m) (e_x t) (e_y t) * 0.35),
                    e_alive := 0 < e_health t - (65 - distance (m_x m) (m_y m) (e_x t) (e_y t) * 0.35)\<rparr>
             else t) ts"
  unfolding blast_enemies
  by (rule map_cong [OF refl]) (simp add: takeDamage_live)

lemma blast_game_explicit:
  "snd (blast m ts g) =
     foldl (\<lambda>g t. explodeEnemy t True g) g
       (filter (\<lambda>t. \<not> e_alive t)
         (map (\<lambda>t. t\<lparr>e_health := e_health t - (65 - distance (m_x m) (m_y m) (e_x t) (e_y t) * 0.35),
                    e_alive := 0 < e_health t - (65 - distance (m_x m) (m_y m) (e_x t) (e_y t) * 0.35)\<rparr>)
           (filter (\<lambda>t. e_alive t \<and>
              distance (m_x m) (m_y m) (e_x t) (e_y t) < 90 + e_radius t) ts)))"
proof -
  have "map (\<lambda>t. takeDamage (65 - distance (m_x m) (m_y m) (e_x t) (e_y t) * 0.35) t)
           (filter (\<lambda>t. e_alive t \<and>
              distance (m_x m) (m_y m) (e_x t) (e_y t) < 90 + e_radius t) ts) =
        map (\<lambda>t. t\<lparr>e_health := e_health t - (65 - distance (m_x m) (m_y m) (e_x t) (e_y t) * 0.35),
                    e_alive := 0 < e_health t - (65 - distance (m_x m) (m_y m) (e_x t) (e_y t) * 0.35)\<rparr>)
           (filter (\<lambda>t. e_alive t \<and>
              distance (m_x m) (m_y m) (e_x t) (e_y t) < 90 + e_radius t) ts)"
    by (rule map_cong [OF refl]) (simp add: takeDamage_live)
  then show ?thesis by (simp only: blast_game)
qed

lemma mine_step_skip:
  "\<not> m_alive m \<or> 0 < m_armTime m \<Longrightarrow> mine_step m es g = (m, es, g)"
  by (simp add: mine_step_def)

lemma mine_step_idle:
  assumes "m_alive m" "m_armTime m \<le> 0"
    "\<not> (\<exists>e \<in> set es. e_alive e \<and>
        distance (m_x m) (m_y m) (e_x e) (e_y e) < m_radius m + e_radius e + 3)"
  shows "mine_step m es g = (m, es, g)"
  using assms(1,2) mine_scan_none [OF assms(3), of es g] by (simp add: mine_step_def)

lemma mine_step_blast:
  assumes "m_alive m" "m_armTime m \<le> 0"
    "\<exists>e \<in> set es. e_alive e \<and>
        distance (m_x m) (m_y m) (e_x e) (e_y e) < m_radius m + e_radius e + 3"
  shows "mine_step m es g =
     (m\<lparr>m_alive := False\<rparr>,
      map (\<lambda>t. if e_alive t \<and> distance (m_x m) (m_y m) (e_x t) (e_y t) < 90 + e_radius t
             then t\<lparr>e_health := e_health t - (65 - distance (m_x m) (m_y m) (e_x t) (e_y t) * 0.35),
                    e_alive := 0 < e_health t - (65 - distance (m_x m) (m_y m) (e_x t) (e_y t) * 0.35)\<rparr>
             else t) es,
      foldl (\<lambda>g t. explodeEnemy t True g) (burst (m_x m) (m_y m) 32 230 4 g)
       (filter (\<lambda>t. \<not> e_alive t)
         (map (\<lambda>t. t\<lparr>e_health := e_health t - (65 - distance (m_x m) (m_y m) (e_x t) (e_y t) * 0.35),
                    e_alive := 0 < e_health t - (65 - distance (m_x m) (m_y m) (e_x t) (e_y t) * 0.35)\<rparr>)
           (filter (\<lambda>t. e_alive t \<and>
              distance (m_x m) (m_y m) (e_x t) (e_y t) < 90 + e_radius t) es))))"
proof -
  have "mine_step m es g =
     (m\<lparr>m_alive := False\<rparr>,
      fst (blast m es (burst (m_x m) (m_y m) 32 230 4 g)),
      snd (blast m es (burst (m_x m) (m_y m) 32 230 4 g)))"
    using assms(1,2) mine_scan_some [OF assms(3), of es g] by (simp add: mine_step_def)
  then show ?thesis
    by (simp only: blast_enemies_explicit blast_game_explicit)
qed

lemma mines_loop_append:
  "mines_loop (ms1 @ m # ms2) es g =
     (let (a, es1, g1) = mines_loop ms1 es g;
          (m', es2, g2) = mine_step m es1 g1;
          (b, es3, g3) = mines_loop ms2 es2 g2
      in (a @ m' # b, es3, g3))"
  by (induction ms1 arbitrary: es g) (simp_all add: split_beta Let_def)

lemma explodeEnemy_mine_kill:
  "explodeEnemy t True g =
     (explodeEnemy t False g)
       \<lparr>missions :=
          map (\<lambda>q. if ms_type q = MineKills \<and> \<not> ms_done q \<and> \<not> ms_failed q
                   then q\<lparr>ms_progress := ms_progress q + 1,
                          ms_done := ms_target q \<le> ms_progress q + 1\<rparr>
                   else q)
            (missions (explodeEnemy t False g))\<rparr>"
proof -
  have "(\<lambda>q. if ms_type q = MineKills then Mission_inc 1 q else q) =
        (\<lambda>q. if ms_type q = MineKills \<and> \<not> ms_done q \<and> \<not> ms_failed q
                   then q\<lparr>ms_progress := ms_progress q + 1,
                          ms_done := ms_target q \<le> ms_progress q + 1\<rparr>
                   else q)"
  proof
    fix q :: mission
    show "(if ms_type q = MineKills then Mission_inc 1 q else q) =
        (if ms_type q = MineKills \<and> \<not> ms_done q \<and> \<not> ms_failed q
                   then q\<lparr>ms_progress := ms_progress q + 1,
                          ms_done := ms_target q \<le> ms_progress q + 1\<rparr>
                   else q)"
      by (cases q) (simp add: Mission_inc_def Let_def)
  qed
  then show ?thesis
    by (simp only: explodeEnemy_mine MissionSystem_onEvent_def)
qed

lemma pass3_entry:
  "mines (snd (snd (projectiles_loop (projectiles (collect_cores g)) (enemies (collect_cores g))
      (collect_cores g)))) = mines g"
proof -
  let ?g1 = "collect_cores g"
  have 1: "mines ?g1 = mines g" using collect_cores_untouched [of g] by blast
  have "score_stable (\<lambda>g'. mines g' = mines g)"
    unfolding score_stable_def by (intro conjI allI impI) simp_all
  then have "mines (snd (snd (projectiles_loop (projectiles ?g1) (enemies ?g1) ?g1))) = mines g"
    using 1 by (rule projectiles_loop_stable)
  then show ?thesis .
qed

lemma handleCollisions_mines_pass:
  "(let g1 = collect_cores g;
        (ps, es1, g2) = projectiles_loop (projectiles g1) (enemies g1) g1;
        (ms, es2, g3) = mines_loop (mines g) es1 g2
    in mines (handleCollisions dt g) = filter m_alive ms \<and>
       enemies (handleCollisions dt g) = filter e_alive es2 \<and>
       missions (handleCollisions dt g) = missions g3 \<and>
       score (handleCollisions dt g) = score g3)"
  using pass3_entry [of g]
  by (simp add: handleCollisions_fields scoring_passes_def Let_def split_beta)

text \<open>
  C5 (amended). \<open>mine_step\<close> is the body of the mine loop of \<^verbatim>\<open>handleCollisions\<close> for one
  mine, on the enemies and the game as the loop has them when it reaches the mine. A mine
  whose arm timer is still positive does nothing, and neither does a mine that is no
  longer alive (\<^verbatim>\<open>Mine.update\<close> has just cleared the flag, its time to live being over),
  nor a live, armed mine that no live enemy touches: mine, enemies and game are returned
  as they were. A live mine whose arm timer has elapsed and that a live enemy touches
  (distance below mine radius + enemy radius + 3) is marked dead; every live enemy at a
  distance \<open>d < 90 + radius\<close> has \<open>65 - 0.35 d\<close> taken from its health, with no clamp, and is
  dead when its health is then not positive, and every other enemy is unchanged; the game
  is the one after the burst of the mine, with \<^verbatim>\<open>explodeEnemy(target, true)\<close> applied for
  each enemy that the blast killed, in list order. \<^verbatim>\<open>explodeEnemy(t, true)\<close> is
  \<^verbatim>\<open>explodeEnemy(t, false)\<close> with the progress of every open mine-kill mission raised by
  one (and the mission done when that reaches its target). The mine loop takes this step
  for every mine of the list in order, each on what the mines before it left; and
  \<^verbatim>\<open>handleCollisions\<close> runs the loop over the mines of the game, on the enemies and the
  game as the pickup and projectile passes leave them, and keeps the live mines and the
  live enemies of its result.
\<close>

theorem mine_detonation:
  "(0 < m_armTime m \<longrightarrow> mine_step m es g = (m, es, g)) \<and>
   (\<not> m_alive m \<longrightarrow> mine_step m es g = (m, es, g)) \<and>
   (m_alive m \<and> m_armTime m \<le> 0 \<and>
    \<not> (\<exists>e \<in> set es. e_alive e \<and>
          distance (m_x m) (m_y m) (e_x e) (e_y e) < m_radius m + e_radius e + 3) \<longrightarrow>
      mine_step m es g = (m, es, g)) \<and>
   (m_alive m \<and> m_armTime m \<le> 0 \<and>
    (\<exists>e \<in> set es. e_alive e \<and>
          distance (m_x m) (m_y m) (e_x e) (e_y e) < m_radius m + e_radius e + 3) \<longrightarrow>
      mine_step m es g =
        (m\<lparr>m_alive := False\<rparr>,
         map (\<lambda>t. if e_alive t \<and> distance (m_x m) (m_y m) (e_x t) (e_y t) < 90 + e_radius t
               then t\<lparr>e_health :=
                        e_health t - (65 - distance (m_x m) (m_y m) (e_x t) (e_y t) * 0.35),
                      e_alive :=
                        0 < e_health t - (65 - distance (m_x m) (m_y m) (e_x t) (e_y t) * 0.35)\<rparr>
               else t) es,
         foldl (\<lambda>g t. explodeEnemy t True g) (burst (m_x m) (m_y m) 32 230 4 g)
           (filter (\<lambda>t. \<not> e_alive t)
             (map (\<lambda>t. t\<lparr>e_health :=
                        e_health t - (65 - distance (m_x m) (m_y m) (e_x t) (e_y t) * 0.35),
                      e_alive :=
                        0 < e_health t - (65 - distance (m_x m) (m_y m) (e_x t) (e_y t) * 0.35)\<rparr>)
               (filter (\<lambda>t. e_alive t \<and>
                  distance (m_x m) (m_y m) (e_x t) (e_y t) < 90 + e_radius t) es))))) \<and>
   explodeEnemy t True g =
     (explodeEnemy t False g)
       \<lparr>missions :=
          map (\<lambda>q. if ms_type q = MineKills \<and> \<not> ms_done q \<and> \<not> ms_failed q
                   then q\<lparr>ms_progress := ms_progress q + 1,
                          ms_done := ms_target q \<le> ms_progress q + 1\<rparr>
                   else q)
            (missions (explodeEnemy t False g))\<rparr> \<and>
   mines_loop (ms1 @ m # ms2) es g =
     (let (a, es1, g1) = mines_loop ms1 es g;
          (m', es2, g2) = mine_step m es1 g1;
          (b, es3, g3) = mines_loop ms2 es2 g2
      in (a @ m' # b, es3, g3)) \<and>
   (let g1 = collect_cores g;
        (ps, es1, g2) = projectiles_loop (projectiles g1) (enemies g1) g1;
        (ms, es2, g3) = mines_loop (mines g) es1 g2
    in mines (handleCollisions dt g) = filter m_alive ms \<and>
       enemies (handleCollisions dt g) = filter e_alive es2 \<and>
       missions (handleCollisions dt g) = missions g3 \<and>
       score (handleCollisions dt g) = score g3)"
proof (intro conjI impI)
  assume "0 < m_armTime m"
  then show "mine_step m es g = (m, es, g)" by (simp add: mine_step_skip)
next
  assume "\<not> m_alive m"
  then show "mine_step m es g = (m, es, g)" by (simp add: mine_step_skip)
next
  assume "m_alive m \<and> m_armTime m \<le> 0 \<and>
    \<not> (\<exists>e \<in> set es. e_alive e \<and>
          distance (m_x m) (m_y m) (e_x e) (e_y e) < m_radius m + e_radius e + 3)"
  then show "mine_step m es g = (m, es, g)" using mine_step_idle [of m es g] by blast
next
  assume a: "m_alive m \<and> m_armTime m \<le> 0 \<and>
    (\<exists>e \<in> set es. e_alive e \<and>
          distance (m_x m) (m_y m) (e_x e) (e_y e) < m_radius m + e_radius e + 3)"
  show "mine_step m es g =
        (m\<lparr>m_alive := False\<rparr>,
         map (\<lambda>t. if e_alive t \<and> distance (m_x m) (m_y m) (e_x t) (e_y t) < 90 + e_radius t
               then t\<lparr>e_health :=
                        e_health t - (65 - distance (m_x m) (m_y m) (e_x t) (e_y t) * 0.35),
                      e_alive :=
                        0 < e_health t - (65 - distance (m_x m) (m_y m) (e_x t) (e_y t) * 0.35)\<rparr>
               else t) es,
         foldl (\<lambda>g t. explodeEnemy t True g) (burst (m_x m) (m_y m) 32 230 4 g)
           (filter (\<lambda>t. \<not> e_alive t)
             (map (\<lambda>t. t\<lparr>e_health :=
                        e_health t - (65 - distance (m_x m) (m_y m) (e_x t) (e_y t) * 0.35),
                      e_alive :=
                        0 < e_health t - (65 - distance (m_x m) (m_y m) (e_x t) (e_y t) * 0.35)\<rparr>)
               (filter (\<lambda>t. e_alive t \<and>
                  distance (m_x m) (m_y m) (e_x t) (e_y t) < 90 + e_radius t) es))))"
    by (rule mine_step_blast [OF a [THEN conjunct1] a [THEN conjunct2, THEN conjunct1]
          a [THEN conjunct2, THEN conjunct2]])
next
  show "explodeEnemy t True g =
     (explodeEnemy t False g)
       \<lparr>missions :=
          map (\<lambda>q. if ms_type q = MineKills \<and> \<not> ms_done q \<and> \<not> ms_failed q
                   then q\<lparr>ms_progress := ms_progress q + 1,
                          ms_done := ms_target q \<le> ms_progress q + 1\<rparr>
                   else q)
            (missions (explodeEnemy t False g))\<rparr>"
    by (rule explodeEnemy_mine_kill)
next
  show "mines_loop (ms1 @ m # ms2) es g =
     (let (a, es1, g1) = mines_loop ms1 es g;
          (m', es2, g2) = mine_step m es1 g1;
          (b, es3, g3) = mines_loop ms2 es2 g2
      in (a @ m' # b, es3, g3))"
    by (rule mines_loop_append)
next
  show "(let g1 = collect_cores g;
        (ps, es1, g2) = projectiles_loop (projectiles g1) (enemies g1) g1;
        (ms, es2, g3) = mines_loop (mines g) es1 g2
    in mines (handleCollisions dt g) = filter m_alive ms \<and>
       enemies (handleCollisions dt g) = filter e_alive es2 \<and>
       missions (handleCollisions dt g) = missions g3 \<and>
       score (handleCollisions dt g) = score g3)"
    by (rule handleCollisions_mines_pass)
qed

lemma g_mk_fields:
  "snake g_mk = Snake_new 480 270"
  "state g_mk = Running"
  "score g_mk = 0" "level g_mk = 1" "xp g_mk = 0"
  "combo g_mk = 1" "comboTier g_mk = 1" "comboTimer g_mk = 0"
  "tookDamageThisLevel g_mk = False"
  "missions g_mk = [pool ! 3, pool ! 0]"
  "enemies g_mk = []" "enemyProjectiles g_mk = []" "projectiles g_mk = []"
  "mines g_mk = []" "cores g_mk = []" "particles g_mk = []"
  "keys g_mk = {}" "justPressed g_mk = {}"
  "spawnTimer g_mk = 0" "coreSpawnTimer g_mk = 1.6" "waveTime g_mk = 0"
  by (simp_all add: g_mk_def startGame_def reset_def Game_new_def startLevel_def drawn_def
      W0_def pool_def Let_def)

lemma explodeEnemy_plain:
  assumes "e_type t \<noteq> Runner" "xp g + e_scoreValue t < 450 + real (level g) * 170"
  shows "missions (explodeEnemy t True g) =
     map (\<lambda>q. if ms_type q = MineKills \<and> \<not> ms_done q \<and> \<not> ms_failed q
                   then q\<lparr>ms_progress := ms_progress q + 1,
                          ms_done := ms_target q \<le> ms_progress q + 1\<rparr>
                   else q) (missions g)"
    "xp (explodeEnemy t True g) = xp g + e_scoreValue t"
    "level (explodeEnemy t True g) = level g"
    "score (explodeEnemy t True g) = score g + of_int (round (e_scoreValue t * combo g))"
    "combo (explodeEnemy t True g) = clamp (combo g + 0.05) 1 6"
proof -
  have f: "missions (explodeEnemy t False g) = missions g"
    "xp (explodeEnemy t False g) = xp g + e_scoreValue t"
    "level (explodeEnemy t False g) = level g"
    "score (explodeEnemy t False g) = score g + of_int (round (e_scoreValue t * combo g))"
    "combo (explodeEnemy t False g) = clamp (combo g + 0.05) 1 6"
    using assms by (simp_all add: explodeEnemy_def Let_def gainScore_def)
  show "missions (explodeEnemy t True g) =
     map (\<lambda>q. if ms_type q = MineKills \<and> \<not> ms_done q \<and> \<not> ms_failed q
                   then q\<lparr>ms_progress := ms_progress q + 1,
                          ms_done := ms_target q \<le> ms_progress q + 1\<rparr>
                   else q) (missions g)"
    by (subst explodeEnemy_mine_kill) (simp add: f(1))
  show "xp (explodeEnemy t True g) = xp g + e_scoreValue t"
    by (subst explodeEnemy_mine_kill) (simp add: f(2))
  show "level (explodeEnemy t True g) = level g"
    by (subst explodeEnemy_mine_kill) (simp add: f(3))
  show "score (explodeEnemy t True g) = score g + of_int (round (e_scoreValue t * combo g))"
    by (subst explodeEnemy_mine_kill) (simp add: f(4))
  show "combo (explodeEnemy t True g) = clamp (combo g + 0.05) 1 6"
    by (subst explodeEnemy_mine_kill) (simp add: f(5))
qed

lemma g_minefield_fields:
  "mines g_minefield = [Mine_new 480 100, m_armed]" "enemies g_minefield = es_near_mine"
  "cores g_minefield = []" "projectiles g_minefield = []" "enemyProjectiles g_minefield = []"
  "missions g_minefield = [pool ! 3, pool ! 0]" "score g_minefield = 0" "xp g_minefield = 0"
  "level g_minefield = 1" "combo g_minefield = 1"
  "s_head (snake g_minefield) = (480, 270)"
  by (simp_all add: g_minefield_def g_mk_fields)

lemma m_armed_fields:
  "m_alive m_armed" "m_armTime m_armed = - 0.1" "m_x m_armed = 480" "m_y m_armed = 100"
  "m_radius m_armed = 10"
  by (simp_all add: m_armed_def Mine_new_def)

lemma m_armed_touch:
  "\<exists>e \<in> set es_near_mine. e_alive e \<and>
      distance (m_x m_armed) (m_y m_armed) (e_x e) (e_y e) < m_radius m_armed + e_radius e + 3"
  by (simp add: es_near_mine_def Enemy_new_def m_armed_fields distance_def)

lemma m_armed_blast_enemies:
  "map e_health (fst (snd (mine_step m_armed es_near_mine g))) = [- 45, 276, - 41.5, 20]"
  "map e_alive (fst (snd (mine_step m_armed es_near_mine g))) = [False, True, False, True]"
  using m_armed_touch
  by (simp_all add: mine_step_blast m_armed_fields)
    (simp_all add: es_near_mine_def Enemy_new_def distance_def m_armed_fields)

lemma m_armed_step:
  "mine_step m_armed es_near_mine g =
     (m_armed\<lparr>m_alive := False\<rparr>,
      [(Enemy_new Drone 480 100 1 (1 / 2))\<lparr>e_health := - 45, e_alive := False\<rparr>,
       (Enemy_new Boss 480 160 1 (1 / 2))\<lparr>e_health := 276, e_alive := True\<rparr>,
       (Enemy_new Drone 480 110 1 (1 / 2))\<lparr>e_health := - 41.5, e_alive := False\<rparr>,
       Enemy_new Drone 480 400 1 (1 / 2)],
      explodeEnemy ((Enemy_new Drone 480 110 1 (1 / 2))\<lparr>e_health := - 41.5, e_alive := False\<rparr>) True
        (explodeEnemy ((Enemy_new Drone 480 100 1 (1 / 2))\<lparr>e_health := - 45, e_alive := False\<rparr>)
           True (burst 480 100 32 230 4 g)))"
  by (simp only: mine_step_blast [OF m_armed_fields(1) _ m_armed_touch] m_armed_fields)
    (simp add: es_near_mine_def Enemy_new_def distance_def m_armed_fields)

lemma g_minefield_entry:
  "collect_cores g_minefield = g_minefield\<lparr>cores := []\<rparr>"
  by (simp add: collect_cores_def g_minefield_fields)

lemma g_minefield_pass3:
  "mines_loop (mines g_minefield) es_near_mine (g_minefield\<lparr>cores := []\<rparr>) =
     ([Mine_new 480 100, m_armed\<lparr>m_alive := False\<rparr>],
      fst (snd (mine_step m_armed es_near_mine (g_minefield\<lparr>cores := []\<rparr>))),
      snd (snd (mine_step m_armed es_near_mine (g_minefield\<lparr>cores := []\<rparr>))))"
proof -
  have 1: "mine_step (Mine_new 480 100) es g = (Mine_new 480 100, es, g)" for es g
    by (rule mine_step_skip) (simp add: Mine_new_def)
  show ?thesis
    by (simp add: g_minefield_fields 1 split_beta m_armed_step)
qed

lemma g_minefield_collisions:
  "mines (handleCollisions dt g_minefield) = [Mine_new 480 100]"
  "map e_health (enemies (handleCollisions dt g_minefield)) = [276, 20]"
  "map e_y (enemies (handleCollisions dt g_minefield)) = [160, 400]"
  "map ms_progress (missions (handleCollisions dt g_minefield)) = [2, 0]"
  "score (handleCollisions dt g_minefield) = 82"
proof -
  let ?g1 = "g_minefield\<lparr>cores := []\<rparr>"
  let ?k1 = "(Enemy_new Drone 480 100 1 (1 / 2))\<lparr>e_health := - 45, e_alive := False\<rparr>"
  let ?k3 = "(Enemy_new Drone 480 110 1 (1 / 2))\<lparr>e_health := - 41.5, e_alive := False\<rparr>"
  let ?gb = "burst 480 100 32 230 4 ?g1"
  let ?ga = "explodeEnemy ?k1 True ?gb"
  let ?g3 = "explodeEnemy ?k3 True ?ga"
  note h = handleCollisions_mines_pass [of g_minefield dt]
  have p: "projectiles_loop (projectiles ?g1) (enemies ?g1) ?g1 = ([], es_near_mine, ?g1)"
    by (simp add: g_minefield_fields)
  have k: "e_type ?k1 \<noteq> Runner" "e_scoreValue ?k1 = 40" "e_type ?k3 \<noteq> Runner"
    "e_scoreValue ?k3 = 40"
    by (simp_all add: Enemy_new_def)
  have b: "xp ?gb = 0" "level ?gb = 1" "score ?gb = 0" "combo ?gb = 1"
    "missions ?gb = [pool ! 3, pool ! 0]"
    by (simp_all add: g_minefield_fields)
  have a1: "xp ?gb + e_scoreValue ?k1 < 450 + real (level ?gb) * 170"
    by (simp only: b k; simp)
  note ea = explodeEnemy_plain [OF k(1) a1]
  have a: "xp ?ga = 40" "level ?ga = 1" "score ?ga = 40" "combo ?ga = 1.05"
    by (simp_all only: ea b k) (simp_all add: clamp_def)
  have a2: "xp ?ga + e_scoreValue ?k3 < 450 + real (level ?ga) * 170"
    by (simp only: a k; simp)
  note e3 = explodeEnemy_plain [OF k(3) a2]
  have sc: "score ?g3 = 82"
    by (simp only: e3 a k; simp)
  have ms: "map ms_progress (missions ?g3) = [2, 0]"
    by (simp only: e3(1) ea(1) b) (simp add: pool_def Mission_new_def)
  have r: "mines (handleCollisions dt g_minefield) =
       filter m_alive [Mine_new 480 100, m_armed\<lparr>m_alive := False\<rparr>]"
    "enemies (handleCollisions dt g_minefield) =
       filter e_alive (fst (snd (mine_step m_armed es_near_mine ?g1)))"
    "missions (handleCollisions dt g_minefield) =
       missions (snd (snd (mine_step m_armed es_near_mine ?g1)))"
    "score (handleCollisions dt g_minefield) =
       score (snd (snd (mine_step m_armed es_near_mine ?g1)))"
    using h by (simp_all only: g_minefield_entry p g_minefield_pass3 Let_def split_conv)
  show "mines (handleCollisions dt g_minefield) = [Mine_new 480 100]"
    by (simp only: r) (simp add: Mine_new_def)
  show "map e_health (enemies (handleCollisions dt g_minefield)) = [276, 20]"
    by (simp only: r m_armed_step fst_conv snd_conv) (simp add: Enemy_new_def)
  show "map e_y (enemies (handleCollisions dt g_minefield)) = [160, 400]"
    by (simp only: r m_armed_step fst_conv snd_conv) (simp add: Enemy_new_def)
  show "map ms_progress (missions (handleCollisions dt g_minefield)) = [2, 0]"
    by (simp only: r m_armed_step fst_conv snd_conv ms)
  show "score (handleCollisions dt g_minefield) = 82"
    by (simp only: r m_armed_step fst_conv snd_conv sc)
qed

lemma advance_entities_drone:
  assumes "enemies g = [e]" "e_type e = Drone"
  shows "advance_entities W dt sd g =
     g\<lparr>cores := map (Core_update dt) (cores g),
       enemies := [enemy_move W sd (enemy_steer (s_head (snake g)) e)],
       projectiles := map (Projectile_update W dt) (projectiles g),
       enemyProjectiles := map (Projectile_update W sd) (enemyProjectiles g),
       mines := map (Mine_update dt) (mines g)\<rparr>"
  using assms
  by (simp add: advance_entities_def Let_def Enemy_update_def enemy_attack_def)

lemma finish_tick_mines [simp]: "mines (finish_tick dt g) = mines g"
  by (simp add: finish_tick_def endFrame_def Let_def)

lemma g_last_fields:
  "state g_last = Running" "keys g_last = {}" "justPressed g_last = {}"
  "snake g_last = Snake_new 480 270"
  "enemies g_last = [e_on_mine]" "enemyProjectiles g_last = []" "projectiles g_last = []"
  "mines g_last = [m_last]" "cores g_last = []" "spawnTimer g_last = 10"
  "coreSpawnTimer g_last = 1.6" "score g_last = 0"
  "missions g_last = [pool ! 3, pool ! 0]"
  by (simp_all add: g_last_def g_mk_fields)

lemma m_last_fields:
  "m_alive m_last" "m_armTime m_last = - 5.32" "m_ttl m_last = 0.03" "m_x m_last = 300"
  "m_y m_last = 270" "m_radius m_last = 10"
  by (simp_all add: m_last_def Mine_new_def)

lemma e_on_mine_fields:
  "e_alive e_on_mine" "e_x e_on_mine = 300" "e_y e_on_mine = 270" "e_radius e_on_mine = 14"
  "e_health e_on_mine = 20" "e_type e_on_mine = Drone" "e_speed e_on_mine = 89.25"
  by (simp_all add: e_on_mine_def Enemy_new_def)

lemma mission_tick_kills:
  "mission_tick dt b k (pool ! 3) = pool ! 3" "mission_tick dt b k (pool ! 0) = pool ! 0"
  by (simp_all add: mission_tick_def Mission_update_def pool_def Mission_new_def Let_def)

lemma g_last_tick:
  "mines (update W0 0.05 g_last) = []"
  "map e_alive (enemies (update W0 0.05 g_last)) = [True]"
  "map e_health (enemies (update W0 0.05 g_last)) = [20]"
  "map e_x (enemies (update W0 0.05 g_last)) = [304.4625]"
  "map e_y (enemies (update W0 0.05 g_last)) = [270]"
  "score (update W0 0.05 g_last) = 0"
  "map ms_progress (missions (update W0 0.05 g_last)) = [0, 0]"
proof -
  define d :: real where "d = 1 / 20"
  have d: "0 < d" "d < 1.6" "d < 10" by (simp_all add: d_def)
  let ?g1 = "advance_clocks d d g_last"
  let ?s = "snake_timers d (snake_turn d (snake g_last))"
  have wd: "world_delta d g_last = d"
    by (simp add: world_delta_def g_last_fields)
  have g1: "justPressed ?g1 = {}" "keys ?g1 = {}" "snake ?g1 = snake g_last"
    "spawnTimer ?g1 = 10 - d" "coreSpawnTimer ?g1 = 1.6 - d" "enemies ?g1 = [e_on_mine]"
    "cores ?g1 = []" "projectiles ?g1 = []" "mines ?g1 = [m_last]"
    "enemyProjectiles ?g1 = []" "score ?g1 = 0" "missions ?g1 = [pool ! 3, pool ! 0]"
    by (simp_all add: advance_clocks_def Let_def g_last_fields)
  have s0: "s_head (snake g_last) = (480, 270)"
    by (simp add: g_last_fields)
  have dir: "s_dir (snake_turn t (snake g_last)) = (1, 0)" for t
    by (simp add: snake_turn_straight g_last_fields)
  have sp: "snake_speed (snake_timers t (snake_turn t (snake g_last))) = 170" for t
    by (simp add: snake_speed_def g_last_fields)
  have hd: "s_head (snake_move W0 d ?s) = (488.5, 270)"
    by (subst snake_move_inside) (simp_all add: dir sp s0 W0_def d_def)
  let ?g2 = "Snake_update W0 d ?g1"
  have g2: "s_head (snake ?g2) = (488.5, 270)"
    "spawnTimer ?g2 = 10 - d" "coreSpawnTimer ?g2 = 1.6 - d" "enemies ?g2 = [e_on_mine]"
    "cores ?g2 = []" "projectiles ?g2 = []" "mines ?g2 = [m_last]"
    "enemyProjectiles ?g2 = []" "score ?g2 = 0" "missions ?g2 = [pool ! 3, pool ! 0]"
    by (simp_all add: Snake_update_no_press [OF g1(1)] setAimFromInput_idle [OF g1(2)] g1 hd)
      (simp_all add: g_last_fields)
  have g3: "run_spawns W0 ?g2 = ?g2"
    using d by (intro run_spawns_idle) (simp_all add: g2 g_last_fields)
  let ?g4 = "advance_entities W0 d d ?g2"
  let ?e = "enemy_move W0 d (enemy_steer (s_head (snake ?g2)) e_on_mine)"
  let ?m = "Mine_update d m_last"
  have st: "enemy_steer (488.5, 270) e_on_mine = e_on_mine\<lparr>e_vx := 89.25, e_vy := 0\<rparr>"
    by (simp add: enemy_steer_def Let_def e_on_mine_fields hypot_or_1_def hypot_0_right)
  have e: "?e = e_on_mine\<lparr>e_vx := 89.25, e_vy := 0, e_x := 304.4625, e_y := 270\<rparr>"
    by (simp only: g2(1) st)
      (simp add: enemy_move_def Let_def e_on_mine_fields W0_def clamp_def d_def)
  have m: "\<not> m_alive ?m"
    by (simp add: Mine_update_def Let_def m_last_fields d_def)
  have g4: "cores ?g4 = []" "projectiles ?g4 = []" "mines ?g4 = [?m]"
    "enemies ?g4 = [?e]" "score ?g4 = 0" "missions ?g4 = [pool ! 3, pool ! 0]"
    by (simp_all only: advance_entities_drone [OF g2(4) e_on_mine_fields(6)])
      (simp_all add: g2 g_last_fields)
  have cc: "collect_cores ?g4 = ?g4\<lparr>cores := []\<rparr>"
    by (simp add: collect_cores_def g4)
  have p: "projectiles_loop (projectiles (?g4\<lparr>cores := []\<rparr>)) (enemies (?g4\<lparr>cores := []\<rparr>))
        (?g4\<lparr>cores := []\<rparr>) = ([], [?e], ?g4\<lparr>cores := []\<rparr>)"
  proof -
    have "projectiles (?g4\<lparr>cores := []\<rparr>) = projectiles ?g4"
      "enemies (?g4\<lparr>cores := []\<rparr>) = enemies ?g4" by simp_all
    then show ?thesis by (simp only: g4 projectiles_loop.simps)
  qed
  have ml: "mines_loop (mines ?g4) [?e] (?g4\<lparr>cores := []\<rparr>) = ([?m], [?e], ?g4\<lparr>cores := []\<rparr>)"
    using m by (simp only: g4(3) mines_loop.simps mine_step_def Let_def split_conv) simp
  have r: "mines (handleCollisions d ?g4) = filter m_alive [?m]"
    "enemies (handleCollisions d ?g4) = filter e_alive [?e]"
    "missions (handleCollisions d ?g4) = missions (?g4\<lparr>cores := []\<rparr>)"
    "score (handleCollisions d ?g4) = score (?g4\<lparr>cores := []\<rparr>)"
    using handleCollisions_mines_pass [of ?g4 d]
    by (simp_all only: cc p ml Let_def split_conv)
  have ea: "e_alive ?e" by (simp only: e) (simp add: e_on_mine_fields)
  have u: "update W0 d g_last = finish_tick d (handleCollisions d ?g4)"
    by (simp add: update_running g_last_fields wd g3)
  have "mines (update W0 d g_last) = []"
    using m by (simp only: u finish_tick_mines r) simp
  then show "mines (update W0 0.05 g_last) = []" by (simp add: d_def)
  have en: "enemies (update W0 d g_last) = [?e]"
    using ea by (simp only: u finish_tick_frame r) simp
  have "map e_alive (enemies (update W0 d g_last)) = [True]"
    "map e_health (enemies (update W0 d g_last)) = [20]"
    "map e_x (enemies (update W0 d g_last)) = [304.4625]"
    "map e_y (enemies (update W0 d g_last)) = [270]"
    by (simp_all only: en e) (simp_all add: e_on_mine_fields)
  then show "map e_alive (enemies (update W0 0.05 g_last)) = [True]"
    "map e_health (enemies (update W0 0.05 g_last)) = [20]"
    "map e_x (enemies (update W0 0.05 g_last)) = [304.4625]"
    "map e_y (enemies (update W0 0.05 g_last)) = [270]"
    by (simp_all add: d_def)
  have "score (update W0 d g_last) = 0"
    by (simp only: u finish_tick_frame r) (simp add: g4 g_last_fields)
  then show "score (update W0 0.05 g_last) = 0" by (simp add: d_def)
  have "missions (handleCollisions d ?g4) = [pool ! 3, pool ! 0]"
    by (simp only: r) (simp add: g4 g_last_fields)
  then have "map ms_progress (missions (update W0 d g_last)) = [0, 0]"
    by (simp only: u finish_tick_frame MissionSystem_update_def list.map mission_tick_kills)
      (simp add: pool_def Mission_new_def)
  then show "map ms_progress (missions (update W0 0.05 g_last)) = [0, 0]"
    by (simp add: d_def)
qed

lemma far_drone_clear:
  "\<not> (\<exists>e \<in> set [Enemy_new Drone 480 400 1 (1 / 2)]. e_alive e \<and>
      distance (m_x m_armed) (m_y m_armed) (e_x e) (e_y e) < m_radius m_armed + e_radius e + 3)"
  by (simp add: Enemy_new_def m_armed_fields distance_def)

lemma m_last_expires:
  "\<not> m_alive (Mine_update 0.05 m_last)" "m_armTime (Mine_update 0.05 m_last) \<le> 0"
  by (simp_all add: Mine_update_def Let_def m_last_fields)

theorem mine_detonation_witness:
  "0 < m_armTime (Mine_new 480 100) \<and>
   mine_step (Mine_new 480 100) es_near_mine g_minefield =
     (Mine_new 480 100, es_near_mine, g_minefield) \<and>
   \<not> m_alive (Mine_update 0.05 m_last) \<and>
   mine_step (Mine_update 0.05 m_last) [e_on_mine] g_last =
     (Mine_update 0.05 m_last, [e_on_mine], g_last) \<and>
   m_alive m_armed \<and> m_armTime m_armed \<le> 0 \<and>
   \<not> (\<exists>e \<in> set [Enemy_new Drone 480 400 1 (1 / 2)]. e_alive e \<and>
      distance (m_x m_armed) (m_y m_armed) (e_x e) (e_y e) < m_radius m_armed + e_radius e + 3) \<and>
   mine_step m_armed [Enemy_new Drone 480 400 1 (1 / 2)] g_minefield =
     (m_armed, [Enemy_new Drone 480 400 1 (1 / 2)], g_minefield) \<and>
   (\<exists>e \<in> set es_near_mine. e_alive e \<and>
      distance (m_x m_armed) (m_y m_armed) (e_x e) (e_y e) < m_radius m_armed + e_radius e + 3) \<and>
   \<not> m_alive (fst (mine_step m_armed es_near_mine g_minefield)) \<and>
   map e_health (fst (snd (mine_step m_armed es_near_mine g_minefield))) =
     [- 45, 276, - 41.5, 20] \<and>
   map e_alive (fst (snd (mine_step m_armed es_near_mine g_minefield))) =
     [False, True, False, True] \<and>
   mines g_minefield = [Mine_new 480 100, m_armed] \<and> enemies g_minefield = es_near_mine \<and>
   map ms_type (missions g_minefield) = [MineKills, RunnerKills] \<and>
   map ms_progress (missions g_minefield) = [0, 0] \<and>
   mines (handleCollisions 0.05 g_minefield) = [Mine_new 480 100] \<and>
   map e_health (enemies (handleCollisions 0.05 g_minefield)) = [276, 20] \<and>
   map ms_progress (missions (handleCollisions 0.05 g_minefield)) = [2, 0] \<and>
   score (handleCollisions 0.05 g_minefield) = 82"
proof -
  have a: "0 < m_armTime (Mine_new 480 100)" by (simp add: Mine_new_def)
  have c: "m_alive m_armed \<and> m_armTime m_armed \<le> 0 \<and>
     \<not> (\<exists>e \<in> set [Enemy_new Drone 480 400 1 (1 / 2)]. e_alive e \<and>
      distance (m_x m_armed) (m_y m_armed) (e_x e) (e_y e) < m_radius m_armed + e_radius e + 3)"
    using far_drone_clear by (simp add: m_armed_fields)
  have d: "m_alive m_armed \<and> m_armTime m_armed \<le> 0 \<and>
     (\<exists>e \<in> set es_near_mine. e_alive e \<and>
      distance (m_x m_armed) (m_y m_armed) (e_x e) (e_y e) < m_radius m_armed + e_radius e + 3)"
    using m_armed_touch by (simp add: m_armed_fields)
  note t1 = mine_detonation [where m = "Mine_new 480 100" and es = es_near_mine
      and g = g_minefield, THEN conjunct1, rule_format, OF a]
  note t2 = mine_detonation [where m = "Mine_update 0.05 m_last" and es = "[e_on_mine]"
      and g = g_last, THEN conjunct2, THEN conjunct1, rule_format, OF m_last_expires(1)]
  note t3 = mine_detonation [where m = m_armed and es = "[Enemy_new Drone 480 400 1 (1 / 2)]"
      and g = g_minefield, THEN conjunct2, THEN conjunct2, THEN conjunct1, rule_format, OF c]
  note t4 = mine_detonation [where m = m_armed and es = es_near_mine
      and g = g_minefield, THEN conjunct2, THEN conjunct2, THEN conjunct2, THEN conjunct1,
      rule_format, OF d]
  have t4a: "\<not> m_alive (fst (mine_step m_armed es_near_mine g_minefield))"
    by (simp only: t4 fst_conv) simp
  show ?thesis
    using a t1 t2 t3 t4a c d m_last_expires(1) m_armed_blast_enemies [of g_minefield]
      g_minefield_collisions [of "0.05"]
    by (simp add: g_minefield_fields) (simp add: pool_def Mission_new_def)
qed

text \<open>
  The claim as stated fails: a mine that is alive and armed at the start of a tick, with
  0.03 s of its time to live left and a live drone on it, does not detonate in a tick of
  0.05 s. \<^verbatim>\<open>Mine.update\<close> clears its alive flag before the collisions are handled, the mine
  loop skips it, and after the tick the mine is gone, the drone (4.4625 units from where
  the mine was, still within mine radius + enemy radius + 3) is alive at full health,
  the score is 0 and the mine-kill mission has counted nothing.
\<close>

theorem expiring_mine_no_blast:
  "state g_last = Running \<and> mines g_last = [m_last] \<and> enemies g_last = [e_on_mine] \<and>
   m_alive m_last \<and> m_armTime m_last \<le> 0 \<and> e_alive e_on_mine \<and>
   distance (m_x m_last) (m_y m_last) (e_x e_on_mine) (e_y e_on_mine)
     < m_radius m_last + e_radius e_on_mine + 3 \<and>
   m_armTime (Mine_update 0.05 m_last) \<le> 0 \<and> \<not> m_alive (Mine_update 0.05 m_last) \<and>
   mines (update W0 0.05 g_last) = [] \<and>
   map e_alive (enemies (update W0 0.05 g_last)) = [True] \<and>
   map e_health (enemies (update W0 0.05 g_last)) = [20] \<and>
   map e_x (enemies (update W0 0.05 g_last)) = [304.4625] \<and>
   map e_y (enemies (update W0 0.05 g_last)) = [270] \<and>
   distance (m_x m_last) (m_y m_last) 304.4625 270 < m_radius m_last + e_radius e_on_mine + 3 \<and>
   score (update W0 0.05 g_last) = 0 \<and>
   map ms_progress (missions (update W0 0.05 g_last)) = [0, 0]"
  using g_last_tick m_last_expires
  by (simp add: g_last_fields m_last_fields e_on_mine_fields distance_def hypot_0_right)

end
